theory Spec2Isabelle
  imports Complex_Main "HOL-Library.Signed_Division" "HOL-Library.Log_Nat"
begin

section \<open>Errors, replies and the raw cache-protocol client\<close>

text \<open>
  A Go \<open>error\<close> value is represented by what the wrapper reads from it: the text its
  \<open>Error()\<close> method returns (\<open>errors.New(s)\<close> is \<open>errorString s\<close>). A nil
  \<open>error\<close> is \<open>None\<close> of \<open>error option\<close>.
\<close>

datatype error = errorString (Error: string)

text \<open>The only run-time panic of the modelled code: a method or field of a nil pointer.\<close>

datatype panic = NilDereference

datatype ReplyType = StatusReply | ErrorReply | IntegerReply | NilReply | BulkReply | MultiReply

text \<open>
  \<open>redis.Reply\<close> of the raw client: its type tag, sub-replies, error and payload. The
  wrapper reads only \<open>Type\<close> and \<open>Err\<close> and hands replies on by pointer.
\<close>

datatype Reply =
  MkReply (Type: ReplyType) (Elems: "Reply list") (Err: "error option") (buf: string) (intval: int)

text \<open>
  Every call the wrappers make to a raw client is recorded in a trace, next to the state
  of the outside world that the call may change. \<open>RDial\<close>, \<open>RClose\<close>, \<open>RAppend\<close>
  and \<open>RGetReply\<close> are the calls to the cache-protocol client; \<open>HOpen\<close>,
  \<open>HClose\<close> and \<open>HCall\<close> are the calls to the wide-column client.
\<close>

datatype event =
    RDial string string int
  | RClose
  | RAppend string "string list"
  | RGetReply Reply
  | HOpen string int
  | HClose
  | HCall string

record 'w net =
  world :: 'w
  trace :: "event list"

text \<open>
  The raw cache-protocol client is an external library, and \<open>ErrConnectionIsClosed\<close> is
  a constant of the package declared outside the available sources. They are parameters
  of the model: the four error values the wrapper compares against, the
  connection-closed error, and the four operations on a client handle of type \<open>'c\<close>,
  each a function of the outside world \<open>'w\<close>.
\<close>

record ('c, 'w) radix =
  AuthError :: error
  LoadingError :: error
  ParseError :: error
  PipelineQueueEmptyError :: error
  ErrConnectionIsClosed :: error
  DialTimeout :: "string \<Rightarrow> string \<Rightarrow> int \<Rightarrow> 'w \<Rightarrow> (error + 'c) \<times> 'w"
  client_Close :: "'c \<Rightarrow> 'w \<Rightarrow> error option \<times> 'w"
  client_Append :: "'c \<Rightarrow> string \<Rightarrow> string list \<Rightarrow> 'w \<Rightarrow> 'c \<times> 'w"
  client_GetReply :: "'c \<Rightarrow> 'w \<Rightarrow> Reply \<times> 'c \<times> 'w"

definition Second :: int where
  "Second = 1000000000"

section \<open>The wide-column connection\<close>

text \<open>
  The wide-column protocol client (\<open>thrift.HbaseClient\<close>) and the data types of its
  operations are declared outside the available sources. The data types are left
  unspecified, except for the cell with its value and timestamp; the operations of the
  client are parameters of the model, one for each of the 43 operations the connection
  forwards. \<open>HbaseClient_new\<close> is the fresh \<open>&thrift.HbaseClient{}\<close> that \<open>Open\<close>
  allocates. A slice or pointer that an operation returns is an \<open>option\<close>, \<open>None\<close> for
  nil; 32-bit and 64-bit integers are \<open>int\<close>, since the connection only passes them on.
\<close>

typedecl ColumnDescriptor
typedecl TRegionInfo
typedecl TRowResult
typedecl TIncrement
typedecl Mutation
typedecl BatchMutation
typedecl TScan

record TCell =
  Value :: string
  Timestamp :: int

record ('h, 'w) hbase =
  HbaseClient_new :: 'h
  hbase_Open :: "'h \<Rightarrow> string \<Rightarrow> int \<Rightarrow> 'w \<Rightarrow> error option \<times> 'h \<times> 'w"
  hbase_Close :: "'h \<Rightarrow> 'w \<Rightarrow> error option \<times> 'w"
  hbase_AtomicIncrement ::
    "'h \<Rightarrow> string \<Rightarrow> string \<Rightarrow> string \<Rightarrow>
       int \<Rightarrow> 'w \<Rightarrow> (int \<times> error option) \<times> 'h \<times> 'w"
  hbase_Compact ::
    "'h \<Rightarrow> string \<Rightarrow> 'w \<Rightarrow> error option \<times> 'h \<times> 'w"
  hbase_CreateTable ::
    "'h \<Rightarrow> string \<Rightarrow> ColumnDescriptor list \<Rightarrow> 'w \<Rightarrow>
       error option \<times> 'h \<times> 'w"
  hbase_DeleteAll ::
    "'h \<Rightarrow> string \<Rightarrow> string \<Rightarrow> string \<Rightarrow>
       (string \<rightharpoonup> string) \<Rightarrow> 'w \<Rightarrow>
       error option \<times> 'h \<times> 'w"
  hbase_DeleteAllRow ::
    "'h \<Rightarrow> string \<Rightarrow> string \<Rightarrow>
       (string \<rightharpoonup> string) \<Rightarrow> 'w \<Rightarrow>
       error option \<times> 'h \<times> 'w"
  hbase_DeleteAllRowTs ::
    "'h \<Rightarrow> string \<Rightarrow> string \<Rightarrow> int \<Rightarrow>
       (string \<rightharpoonup> string) \<Rightarrow> 'w \<Rightarrow>
       error option \<times> 'h \<times> 'w"
  hbase_DeleteAllTs ::
    "'h \<Rightarrow> string \<Rightarrow> string \<Rightarrow> string \<Rightarrow>
       int \<Rightarrow> (string \<rightharpoonup> string) \<Rightarrow> 'w \<Rightarrow>
       error option \<times> 'h \<times> 'w"
  hbase_DeleteTable ::
    "'h \<Rightarrow> string \<Rightarrow> 'w \<Rightarrow> error option \<times> 'h \<times> 'w"
  hbase_DisableTable ::
    "'h \<Rightarrow> string \<Rightarrow> 'w \<Rightarrow> error option \<times> 'h \<times> 'w"
  hbase_EnableTable ::
    "'h \<Rightarrow> string \<Rightarrow> 'w \<Rightarrow> error option \<times> 'h \<times> 'w"
  hbase_Get ::
    "'h \<Rightarrow> string \<Rightarrow> string \<Rightarrow> string \<Rightarrow>
       (string \<rightharpoonup> string) \<Rightarrow> 'w \<Rightarrow>
       (TCell list option \<times> error option) \<times> 'h \<times> 'w"
  hbase_GetColumnDescriptors ::
    "'h \<Rightarrow> string \<Rightarrow> 'w \<Rightarrow>
       ((string \<rightharpoonup> ColumnDescriptor) option \<times> error option) \<times> 'h \<times> 'w"
  hbase_GetRegionInfo ::
    "'h \<Rightarrow> string \<Rightarrow> 'w \<Rightarrow>
       (TRegionInfo option \<times> error option) \<times> 'h \<times> 'w"
  hbase_GetRow ::
    "'h \<Rightarrow> string \<Rightarrow> string \<Rightarrow>
       (string \<rightharpoonup> string) \<Rightarrow> 'w \<Rightarrow>
       (TRowResult list option \<times> error option) \<times> 'h \<times> 'w"
  hbase_GetRowOrBefore ::
    "'h \<Rightarrow> string \<Rightarrow> string \<Rightarrow> string \<Rightarrow> 'w \<Rightarrow>
       (TCell list option \<times> error option) \<times> 'h \<times> 'w"
  hbase_GetRowTs ::
    "'h \<Rightarrow> string \<Rightarrow> string \<Rightarrow> int \<Rightarrow>
       (string \<rightharpoonup> string) \<Rightarrow> 'w \<Rightarrow>
       (TRowResult list option \<times> error option) \<times> 'h \<times> 'w"
  hbase_GetRowWithColumns ::
    "'h \<Rightarrow> string \<Rightarrow> string \<Rightarrow> string list \<Rightarrow>
       (string \<rightharpoonup> string) \<Rightarrow> 'w \<Rightarrow>
       (TRowResult list option \<times> error option) \<times> 'h \<times> 'w"
  hbase_GetRowWithColumnsTs ::
    "'h \<Rightarrow> string \<Rightarrow> string \<Rightarrow> string list \<Rightarrow>
       int \<Rightarrow> (string \<rightharpoonup> string) \<Rightarrow> 'w \<Rightarrow>
       (TRowResult list option \<times> error option) \<times> 'h \<times> 'w"
  hbase_GetRows ::
    "'h \<Rightarrow> string \<Rightarrow> string list \<Rightarrow>
       (string \<rightharpoonup> string) \<Rightarrow> 'w \<Rightarrow>
       (TRowResult list option \<times> error option) \<times> 'h \<times> 'w"
  hbase_GetRowsTs ::
    "'h \<Rightarrow> string \<Rightarrow> string list \<Rightarrow> int \<Rightarrow>
       (string \<rightharpoonup> string) \<Rightarrow> 'w \<Rightarrow>
       (TRowResult list option \<times> error option) \<times> 'h \<times> 'w"
  hbase_GetRowsWithColumns ::
    "'h \<Rightarrow> string \<Rightarrow> string list \<Rightarrow> string list \<Rightarrow>
       (string \<rightharpoonup> string) \<Rightarrow> 'w \<Rightarrow>
       (TRowResult list option \<times> error option) \<times> 'h \<times> 'w"
  hbase_GetRowsWithColumnsTs ::
    "'h \<Rightarrow> string \<Rightarrow> string list \<Rightarrow> string list \<Rightarrow>
       int \<Rightarrow> (string \<rightharpoonup> string) \<Rightarrow> 'w \<Rightarrow>
       (TRowResult list option \<times> error option) \<times> 'h \<times> 'w"
  hbase_GetTableNames ::
    "'h \<Rightarrow> 'w \<Rightarrow>
       (string list option \<times> error option) \<times> 'h \<times> 'w"
  hbase_GetTableRegions ::
    "'h \<Rightarrow> string \<Rightarrow> 'w \<Rightarrow>
       (TRegionInfo list option \<times> error option) \<times> 'h \<times> 'w"
  hbase_GetVer ::
    "'h \<Rightarrow> string \<Rightarrow> string \<Rightarrow> string \<Rightarrow>
       int \<Rightarrow> (string \<rightharpoonup> string) \<Rightarrow> 'w \<Rightarrow>
       (TCell list option \<times> error option) \<times> 'h \<times> 'w"
  hbase_GetVerTs ::
    "'h \<Rightarrow> string \<Rightarrow> string \<Rightarrow> string \<Rightarrow>
       int \<Rightarrow> int \<Rightarrow> (string \<rightharpoonup> string) \<Rightarrow>
       'w \<Rightarrow> (TCell list option \<times> error option) \<times> 'h \<times> 'w"
  hbase_Increment ::
    "'h \<Rightarrow> TIncrement option \<Rightarrow> 'w \<Rightarrow>
       error option \<times> 'h \<times> 'w"
  hbase_IncrementRows ::
    "'h \<Rightarrow> TIncrement list \<Rightarrow> 'w \<Rightarrow>
       error option \<times> 'h \<times> 'w"
  hbase_IsTableEnabled ::
    "'h \<Rightarrow> string \<Rightarrow> 'w \<Rightarrow>
       (bool \<times> error option) \<times> 'h \<times> 'w"
  hbase_MajorCompact ::
    "'h \<Rightarrow> string \<Rightarrow> 'w \<Rightarrow> error option \<times> 'h \<times> 'w"
  hbase_MutateRow ::
    "'h \<Rightarrow> string \<Rightarrow> string \<Rightarrow> Mutation list \<Rightarrow>
       (string \<rightharpoonup> string) \<Rightarrow> 'w \<Rightarrow>
       error option \<times> 'h \<times> 'w"
  hbase_MutateRowTs ::
    "'h \<Rightarrow> string \<Rightarrow> string \<Rightarrow> Mutation list \<Rightarrow>
       int \<Rightarrow> (string \<rightharpoonup> string) \<Rightarrow> 'w \<Rightarrow>
       error option \<times> 'h \<times> 'w"
  hbase_MutateRows ::
    "'h \<Rightarrow> string \<Rightarrow> BatchMutation list \<Rightarrow>
       (string \<rightharpoonup> string) \<Rightarrow> 'w \<Rightarrow>
       error option \<times> 'h \<times> 'w"
  hbase_MutateRowsTs ::
    "'h \<Rightarrow> string \<Rightarrow> BatchMutation list \<Rightarrow> int \<Rightarrow>
       (string \<rightharpoonup> string) \<Rightarrow> 'w \<Rightarrow>
       error option \<times> 'h \<times> 'w"
  hbase_ScannerClose ::
    "'h \<Rightarrow> int \<Rightarrow> 'w \<Rightarrow> error option \<times> 'h \<times> 'w"
  hbase_ScannerGet ::
    "'h \<Rightarrow> int \<Rightarrow> 'w \<Rightarrow>
       (TRowResult list option \<times> error option) \<times> 'h \<times> 'w"
  hbase_ScannerGetList ::
    "'h \<Rightarrow> int \<Rightarrow> int \<Rightarrow> 'w \<Rightarrow>
       (TRowResult list option \<times> error option) \<times> 'h \<times> 'w"
  hbase_ScannerOpen ::
    "'h \<Rightarrow> string \<Rightarrow> string \<Rightarrow> string list \<Rightarrow>
       (string \<rightharpoonup> string) \<Rightarrow> 'w \<Rightarrow>
       (int \<times> error option) \<times> 'h \<times> 'w"
  hbase_ScannerOpenTs ::
    "'h \<Rightarrow> string \<Rightarrow> string \<Rightarrow> string list \<Rightarrow>
       int \<Rightarrow> (string \<rightharpoonup> string) \<Rightarrow> 'w \<Rightarrow>
       (int \<times> error option) \<times> 'h \<times> 'w"
  hbase_ScannerOpenWithPrefix ::
    "'h \<Rightarrow> string \<Rightarrow> string \<Rightarrow> string list \<Rightarrow>
       (string \<rightharpoonup> string) \<Rightarrow> 'w \<Rightarrow>
       (int \<times> error option) \<times> 'h \<times> 'w"
  hbase_ScannerOpenWithScan ::
    "'h \<Rightarrow> string \<Rightarrow> TScan option \<Rightarrow>
       (string \<rightharpoonup> string) \<Rightarrow> 'w \<Rightarrow>
       (int \<times> error option) \<times> 'h \<times> 'w"
  hbase_ScannerOpenWithStop ::
    "'h \<Rightarrow> string \<Rightarrow> string \<Rightarrow> string \<Rightarrow>
       string list \<Rightarrow> (string \<rightharpoonup> string) \<Rightarrow> 'w \<Rightarrow>
       (int \<times> error option) \<times> 'h \<times> 'w"
  hbase_ScannerOpenWithStopTs ::
    "'h \<Rightarrow> string \<Rightarrow> string \<Rightarrow> string \<Rightarrow>
       string list \<Rightarrow> int \<Rightarrow> (string \<rightharpoonup> string) \<Rightarrow>
       'w \<Rightarrow> (int \<times> error option) \<times> 'h \<times> 'w"

record 'h ThriftConnection =
  Url :: string
  Id :: string
  Timeout :: int
  client :: "'h option"

definition makeLazyThriftConnection :: "string \<Rightarrow> string \<Rightarrow> int \<Rightarrow> 'h ThriftConnection" where
  "makeLazyThriftConnection url ident timeout =
     \<lparr>Url = url, Id = ident, Timeout = timeout, client = None\<rparr>"

definition Thrift_Ping :: "'h ThriftConnection \<Rightarrow> 'w net \<Rightarrow> error option \<times> 'h ThriftConnection \<times> 'w net" where
  "Thrift_Ping p n = (None, p, n)"

definition Thrift_IsOpen :: "'h ThriftConnection \<Rightarrow> bool" where
  "Thrift_IsOpen p = (client p \<noteq> None)"

definition Thrift_IsClosed :: "'h ThriftConnection \<Rightarrow> bool" where
  "Thrift_IsClosed p = (client p = None)"

definition Thrift_Open ::
  "('h, 'w) hbase \<Rightarrow> 'h ThriftConnection \<Rightarrow> 'w net \<Rightarrow> error option \<times> 'h ThriftConnection \<times> 'w net" where
  "Thrift_Open T p n =
     (let p1 = (if Timeout p = 0 then p\<lparr>Timeout := 10 * Second\<rparr> else p);
          n1 = n\<lparr>trace := trace n @ [HOpen (Url p1) (Timeout p1)]\<rparr>
      in case hbase_Open T (HbaseClient_new T) (Url p1) (Timeout p1) (world n) of
           (Some err, h, w) \<Rightarrow> (Some err, p1, n1\<lparr>world := w\<rparr>)
         | (None, h, w) \<Rightarrow> (None, p1\<lparr>client := Some h\<rparr>, n1\<lparr>world := w\<rparr>))"

definition Thrift_SafeOpen ::
  "('h, 'w) hbase \<Rightarrow> 'h ThriftConnection \<Rightarrow> 'w net \<Rightarrow> error option \<times> 'h ThriftConnection \<times> 'w net" where
  "Thrift_SafeOpen T p n = (if Thrift_IsOpen p then (None, p, n) else Thrift_Open T p n)"

definition Thrift_Close ::
  "('h, 'w) hbase \<Rightarrow> 'h ThriftConnection \<Rightarrow> 'w net \<Rightarrow> error option \<times> 'h ThriftConnection \<times> 'w net" where
  "Thrift_Close T p n =
     (case client p of
        None \<Rightarrow> (None, p\<lparr>client := None\<rparr>, n)
      | Some h \<Rightarrow>
          (case hbase_Close T h (world n) of
             (err, w) \<Rightarrow> (err, p\<lparr>client := None\<rparr>, \<lparr>world = w, trace = trace n @ [HClose]\<rparr>)))"

definition makeAgressiveThriftConnection ::
  "('h, 'w) hbase \<Rightarrow> string \<Rightarrow> string \<Rightarrow> int \<Rightarrow> 'w net \<Rightarrow>
     'h ThriftConnection option \<times> error option \<times> 'w net" where
  "makeAgressiveThriftConnection T url ident timeout n =
     (case Thrift_Ping (makeLazyThriftConnection url ident timeout) n of
        (Some err, p1, n1) \<Rightarrow>
          (case Thrift_Close T p1 n1 of (_, p2, n2) \<Rightarrow> (None, Some err, n2))
      | (None, p1, n1) \<Rightarrow> (Some p1, None, n1))"

text \<open>
  The 43 forwarded operations, in the order of the source. Each calls \<open>SafeOpen\<close> and
  returns its error with a zero result when it fails; otherwise it calls the operation of
  the same name on the client with its own arguments, closes the connection when the
  returned error is not nil, and returns what the client returned. After a successful
  \<open>SafeOpen\<close> the client is not nil; on a nil client the method call would panic, which
  is the branch \<open>Inl NilDereference\<close> (never taken: lemma \<open>forwarded_returns\<close>).
  \<open>Value\<close>, \<open>Timestamp\<close> and \<open>Id\<close> are written with a prime where they are
  parameters.
\<close>

definition Thrift_AtomicIncrement ::
  "('h, 'w) hbase \<Rightarrow> string \<Rightarrow> string \<Rightarrow> string \<Rightarrow>
     int \<Rightarrow> 'h ThriftConnection \<Rightarrow> 'w net \<Rightarrow>
     panic + ((int \<times> error option) \<times> 'h ThriftConnection \<times> 'w net)" where
  "Thrift_AtomicIncrement T TableName Row Column Value' p n =
     (case Thrift_SafeOpen T p n of
        (Some err, p1, n1) \<Rightarrow> Inr ((0, Some err), p1, n1)
      | (None, p1, n1) \<Rightarrow>
          (case client p1 of
             None \<Rightarrow> Inl NilDereference
           | Some h \<Rightarrow>
               (case hbase_AtomicIncrement T h TableName Row Column Value' (world n1) of
                  ((output, err), h', w) \<Rightarrow>
                    (let p2 = p1\<lparr>client := Some h'\<rparr>;
                         n2 = \<lparr>world = w, trace = trace n1 @ [HCall ''AtomicIncrement'']\<rparr>
                     in if err \<noteq> None
                        then (case Thrift_Close T p2 n2 of (_, p3, n3) \<Rightarrow> Inr ((output, err), p3, n3))
                        else Inr ((output, err), p2, n2)))))"

definition Thrift_Compact ::
  "('h, 'w) hbase \<Rightarrow> string \<Rightarrow> 'h ThriftConnection \<Rightarrow>
     'w net \<Rightarrow> panic + (error option \<times> 'h ThriftConnection \<times> 'w net)" where
  "Thrift_Compact T TableNameOrRegionName p n =
     (case Thrift_SafeOpen T p n of
        (Some err, p1, n1) \<Rightarrow> Inr (Some err, p1, n1)
      | (None, p1, n1) \<Rightarrow>
          (case client p1 of
             None \<Rightarrow> Inl NilDereference
           | Some h \<Rightarrow>
               (case hbase_Compact T h TableNameOrRegionName (world n1) of
                  (err, h', w) \<Rightarrow>
                    (let p2 = p1\<lparr>client := Some h'\<rparr>;
                         n2 = \<lparr>world = w, trace = trace n1 @ [HCall ''Compact'']\<rparr>
                     in if err \<noteq> None
                        then (case Thrift_Close T p2 n2 of (_, p3, n3) \<Rightarrow> Inr (err, p3, n3))
                        else Inr (err, p2, n2)))))"

definition Thrift_CreateTable ::
  "('h, 'w) hbase \<Rightarrow> string \<Rightarrow> ColumnDescriptor list \<Rightarrow>
     'h ThriftConnection \<Rightarrow> 'w net \<Rightarrow>
     panic + (error option \<times> 'h ThriftConnection \<times> 'w net)" where
  "Thrift_CreateTable T TableName ColumnFamilies p n =
     (case Thrift_SafeOpen T p n of
        (Some err, p1, n1) \<Rightarrow> Inr (Some err, p1, n1)
      | (None, p1, n1) \<Rightarrow>
          (case client p1 of
             None \<Rightarrow> Inl NilDereference
           | Some h \<Rightarrow>
               (case hbase_CreateTable T h TableName ColumnFamilies (world n1) of
                  (err, h', w) \<Rightarrow>
                    (let p2 = p1\<lparr>client := Some h'\<rparr>;
                         n2 = \<lparr>world = w, trace = trace n1 @ [HCall ''CreateTable'']\<rparr>
                     in if err \<noteq> None
                        then (case Thrift_Close T p2 n2 of (_, p3, n3) \<Rightarrow> Inr (err, p3, n3))
                        else Inr (err, p2, n2)))))"

definition Thrift_DeleteAll ::
  "('h, 'w) hbase \<Rightarrow> string \<Rightarrow> string \<Rightarrow> string \<Rightarrow>
     (string \<rightharpoonup> string) \<Rightarrow> 'h ThriftConnection \<Rightarrow>
     'w net \<Rightarrow> panic + (error option \<times> 'h ThriftConnection \<times> 'w net)" where
  "Thrift_DeleteAll T TableName Row Column Attributes p n =
     (case Thrift_SafeOpen T p n of
        (Some err, p1, n1) \<Rightarrow> Inr (Some err, p1, n1)
      | (None, p1, n1) \<Rightarrow>
          (case client p1 of
             None \<Rightarrow> Inl NilDereference
           | Some h \<Rightarrow>
               (case hbase_DeleteAll T h TableName Row Column Attributes (world n1) of
                  (err, h', w) \<Rightarrow>
                    (let p2 = p1\<lparr>client := Some h'\<rparr>;
                         n2 = \<lparr>world = w, trace = trace n1 @ [HCall ''DeleteAll'']\<rparr>
                     in if err \<noteq> None
                        then (case Thrift_Close T p2 n2 of (_, p3, n3) \<Rightarrow> Inr (err, p3, n3))
                        else Inr (err, p2, n2)))))"

definition Thrift_DeleteAllRow ::
  "('h, 'w) hbase \<Rightarrow> string \<Rightarrow> string \<Rightarrow>
     (string \<rightharpoonup> string) \<Rightarrow> 'h ThriftConnection \<Rightarrow>
     'w net \<Rightarrow> panic + (error option \<times> 'h ThriftConnection \<times> 'w net)" where
  "Thrift_DeleteAllRow T TableName Row Attributes p n =
     (case Thrift_SafeOpen T p n of
        (Some err, p1, n1) \<Rightarrow> Inr (Some err, p1, n1)
      | (None, p1, n1) \<Rightarrow>
          (case client p1 of
             None \<Rightarrow> Inl NilDereference
           | Some h \<Rightarrow>
               (case hbase_DeleteAllRow T h TableName Row Attributes (world n1) of
                  (err, h', w) \<Rightarrow>
                    (let p2 = p1\<lparr>client := Some h'\<rparr>;
                         n2 = \<lparr>world = w, trace = trace n1 @ [HCall ''DeleteAllRow'']\<rparr>
                     in if err \<noteq> None
                        then (case Thrift_Close T p2 n2 of (_, p3, n3) \<Rightarrow> Inr (err, p3, n3))
                        else Inr (err, p2, n2)))))"

definition Thrift_DeleteAllRowTs ::
  "('h, 'w) hbase \<Rightarrow> string \<Rightarrow> string \<Rightarrow> int \<Rightarrow>
     (string \<rightharpoonup> string) \<Rightarrow> 'h ThriftConnection \<Rightarrow>
     'w net \<Rightarrow> panic + (error option \<times> 'h ThriftConnection \<times> 'w net)" where
  "Thrift_DeleteAllRowTs T TableName Row Timestamp' Attributes p n =
     (case Thrift_SafeOpen T p n of
        (Some err, p1, n1) \<Rightarrow> Inr (Some err, p1, n1)
      | (None, p1, n1) \<Rightarrow>
          (case client p1 of
             None \<Rightarrow> Inl NilDereference
           | Some h \<Rightarrow>
               (case hbase_DeleteAllRowTs T h TableName Row Timestamp' Attributes (world n1) of
                  (err, h', w) \<Rightarrow>
                    (let p2 = p1\<lparr>client := Some h'\<rparr>;
                         n2 = \<lparr>world = w, trace = trace n1 @ [HCall ''DeleteAllRowTs'']\<rparr>
                     in if err \<noteq> None
                        then (case Thrift_Close T p2 n2 of (_, p3, n3) \<Rightarrow> Inr (err, p3, n3))
                        else Inr (err, p2, n2)))))"

definition Thrift_DeleteAllTs ::
  "('h, 'w) hbase \<Rightarrow> string \<Rightarrow> string \<Rightarrow> string \<Rightarrow>
     int \<Rightarrow> (string \<rightharpoonup> string) \<Rightarrow>
     'h ThriftConnection \<Rightarrow> 'w net \<Rightarrow>
     panic + (error option \<times> 'h ThriftConnection \<times> 'w net)" where
  "Thrift_DeleteAllTs T TableName Row Column Timestamp' Attributes p n =
     (case Thrift_SafeOpen T p n of
        (Some err, p1, n1) \<Rightarrow> Inr (Some err, p1, n1)
      | (None, p1, n1) \<Rightarrow>
          (case client p1 of
             None \<Rightarrow> Inl NilDereference
           | Some h \<Rightarrow>
               (case hbase_DeleteAllTs T h TableName Row Column Timestamp' Attributes (world n1) of
                  (err, h', w) \<Rightarrow>
                    (let p2 = p1\<lparr>client := Some h'\<rparr>;
                         n2 = \<lparr>world = w, trace = trace n1 @ [HCall ''DeleteAllTs'']\<rparr>
                     in if err \<noteq> None
                        then (case Thrift_Close T p2 n2 of (_, p3, n3) \<Rightarrow> Inr (err, p3, n3))
                        else Inr (err, p2, n2)))))"

definition Thrift_DeleteTable ::
  "('h, 'w) hbase \<Rightarrow> string \<Rightarrow> 'h ThriftConnection \<Rightarrow>
     'w net \<Rightarrow> panic + (error option \<times> 'h ThriftConnection \<times> 'w net)" where
  "Thrift_DeleteTable T TableName p n =
     (case Thrift_SafeOpen T p n of
        (Some err, p1, n1) \<Rightarrow> Inr (Some err, p1, n1)
      | (None, p1, n1) \<Rightarrow>
          (case client p1 of
             None \<Rightarrow> Inl NilDereference
           | Some h \<Rightarrow>
               (case hbase_DeleteTable T h TableName (world n1) of
                  (err, h', w) \<Rightarrow>
                    (let p2 = p1\<lparr>client := Some h'\<rparr>;
                         n2 = \<lparr>world = w, trace = trace n1 @ [HCall ''DeleteTable'']\<rparr>
                     in if err \<noteq> None
                        then (case Thrift_Close T p2 n2 of (_, p3, n3) \<Rightarrow> Inr (err, p3, n3))
                        else Inr (err, p2, n2)))))"

definition Thrift_DisableTable ::
  "('h, 'w) hbase \<Rightarrow> string \<Rightarrow> 'h ThriftConnection \<Rightarrow>
     'w net \<Rightarrow> panic + (error option \<times> 'h ThriftConnection \<times> 'w net)" where
  "Thrift_DisableTable T TableName p n =
     (case Thrift_SafeOpen T p n of
        (Some err, p1, n1) \<Rightarrow> Inr (Some err, p1, n1)
      | (None, p1, n1) \<Rightarrow>
          (case client p1 of
             None \<Rightarrow> Inl NilDereference
           | Some h \<Rightarrow>
               (case hbase_DisableTable T h TableName (world n1) of
                  (err, h', w) \<Rightarrow>
                    (let p2 = p1\<lparr>client := Some h'\<rparr>;
                         n2 = \<lparr>world = w, trace = trace n1 @ [HCall ''DisableTable'']\<rparr>
                     in if err \<noteq> None
                        then (case Thrift_Close T p2 n2 of (_, p3, n3) \<Rightarrow> Inr (err, p3, n3))
                        else Inr (err, p2, n2)))))"

definition Thrift_EnableTable ::
  "('h, 'w) hbase \<Rightarrow> string \<Rightarrow> 'h ThriftConnection \<Rightarrow>
     'w net \<Rightarrow> panic + (error option \<times> 'h ThriftConnection \<times> 'w net)" where
  "Thrift_EnableTable T TableName p n =
     (case Thrift_SafeOpen T p n of
        (Some err, p1, n1) \<Rightarrow> Inr (Some err, p1, n1)
      | (None, p1, n1) \<Rightarrow>
          (case client p1 of
             None \<Rightarrow> Inl NilDereference
           | Some h \<Rightarrow>
               (case hbase_EnableTable T h TableName (world n1) of
                  (err, h', w) \<Rightarrow>
                    (let p2 = p1\<lparr>client := Some h'\<rparr>;
                         n2 = \<lparr>world = w, trace = trace n1 @ [HCall ''EnableTable'']\<rparr>
                     in if err \<noteq> None
                        then (case Thrift_Close T p2 n2 of (_, p3, n3) \<Rightarrow> Inr (err, p3, n3))
                        else Inr (err, p2, n2)))))"

definition Thrift_Get ::
  "('h, 'w) hbase \<Rightarrow> string \<Rightarrow> string \<Rightarrow> string \<Rightarrow>
     (string \<rightharpoonup> string) \<Rightarrow> 'h ThriftConnection \<Rightarrow>
     'w net \<Rightarrow>
     panic + ((TCell list option \<times> error option) \<times> 'h ThriftConnection \<times> 'w net)" where
  "Thrift_Get T TableName Row Column Attributes p n =
     (case Thrift_SafeOpen T p n of
        (Some err, p1, n1) \<Rightarrow> Inr ((None, Some err), p1, n1)
      | (None, p1, n1) \<Rightarrow>
          (case client p1 of
             None \<Rightarrow> Inl NilDereference
           | Some h \<Rightarrow>
               (case hbase_Get T h TableName Row Column Attributes (world n1) of
                  ((output, err), h', w) \<Rightarrow>
                    (let p2 = p1\<lparr>client := Some h'\<rparr>;
                         n2 = \<lparr>world = w, trace = trace n1 @ [HCall ''Get'']\<rparr>
                     in if err \<noteq> None
                        then (case Thrift_Close T p2 n2 of (_, p3, n3) \<Rightarrow> Inr ((output, err), p3, n3))
                        else Inr ((output, err), p2, n2)))))"

definition Thrift_GetColumnDescriptors ::
  "('h, 'w) hbase \<Rightarrow> string \<Rightarrow> 'h ThriftConnection \<Rightarrow>
     'w net \<Rightarrow>
     panic + (((string \<rightharpoonup> ColumnDescriptor) option \<times> error option) \<times> 'h ThriftConnection \<times> 'w net)" where
  "Thrift_GetColumnDescriptors T TableName p n =
     (case Thrift_SafeOpen T p n of
        (Some err, p1, n1) \<Rightarrow> Inr ((None, Some err), p1, n1)
      | (None, p1, n1) \<Rightarrow>
          (case client p1 of
             None \<Rightarrow> Inl NilDereference
           | Some h \<Rightarrow>
               (case hbase_GetColumnDescriptors T h TableName (world n1) of
                  ((output, err), h', w) \<Rightarrow>
                    (let p2 = p1\<lparr>client := Some h'\<rparr>;
                         n2 = \<lparr>world = w, trace = trace n1 @ [HCall ''GetColumnDescriptors'']\<rparr>
                     in if err \<noteq> None
                        then (case Thrift_Close T p2 n2 of (_, p3, n3) \<Rightarrow> Inr ((output, err), p3, n3))
                        else Inr ((output, err), p2, n2)))))"

definition Thrift_GetRegionInfo ::
  "('h, 'w) hbase \<Rightarrow> string \<Rightarrow> 'h ThriftConnection \<Rightarrow>
     'w net \<Rightarrow>
     panic + ((TRegionInfo option \<times> error option) \<times> 'h ThriftConnection \<times> 'w net)" where
  "Thrift_GetRegionInfo T Row p n =
     (case Thrift_SafeOpen T p n of
        (Some err, p1, n1) \<Rightarrow> Inr ((None, Some err), p1, n1)
      | (None, p1, n1) \<Rightarrow>
          (case client p1 of
             None \<Rightarrow> Inl NilDereference
           | Some h \<Rightarrow>
               (case hbase_GetRegionInfo T h Row (world n1) of
                  ((output, err), h', w) \<Rightarrow>
                    (let p2 = p1\<lparr>client := Some h'\<rparr>;
                         n2 = \<lparr>world = w, trace = trace n1 @ [HCall ''GetRegionInfo'']\<rparr>
                     in if err \<noteq> None
                        then (case Thrift_Close T p2 n2 of (_, p3, n3) \<Rightarrow> Inr ((output, err), p3, n3))
                        else Inr ((output, err), p2, n2)))))"

definition Thrift_GetRow ::
  "('h, 'w) hbase \<Rightarrow> string \<Rightarrow> string \<Rightarrow>
     (string \<rightharpoonup> string) \<Rightarrow> 'h ThriftConnection \<Rightarrow>
     'w net \<Rightarrow>
     panic + ((TRowResult list option \<times> error option) \<times> 'h ThriftConnection \<times> 'w net)" where
  "Thrift_GetRow T TableName Row Attributes p n =
     (case Thrift_SafeOpen T p n of
        (Some err, p1, n1) \<Rightarrow> Inr ((None, Some err), p1, n1)
      | (None, p1, n1) \<Rightarrow>
          (case client p1 of
             None \<Rightarrow> Inl NilDereference
           | Some h \<Rightarrow>
               (case hbase_GetRow T h TableName Row Attributes (world n1) of
                  ((output, err), h', w) \<Rightarrow>
                    (let p2 = p1\<lparr>client := Some h'\<rparr>;
                         n2 = \<lparr>world = w, trace = trace n1 @ [HCall ''GetRow'']\<rparr>
                     in if err \<noteq> None
                        then (case Thrift_Close T p2 n2 of (_, p3, n3) \<Rightarrow> Inr ((output, err), p3, n3))
                        else Inr ((output, err), p2, n2)))))"

definition Thrift_GetRowOrBefore ::
  "('h, 'w) hbase \<Rightarrow> string \<Rightarrow> string \<Rightarrow> string \<Rightarrow>
     'h ThriftConnection \<Rightarrow> 'w net \<Rightarrow>
     panic + ((TCell list option \<times> error option) \<times> 'h ThriftConnection \<times> 'w net)" where
  "Thrift_GetRowOrBefore T TableName Row Family p n =
     (case Thrift_SafeOpen T p n of
        (Some err, p1, n1) \<Rightarrow> Inr ((None, Some err), p1, n1)
      | (None, p1, n1) \<Rightarrow>
          (case client p1 of
             None \<Rightarrow> Inl NilDereference
           | Some h \<Rightarrow>
               (case hbase_GetRowOrBefore T h TableName Row Family (world n1) of
                  ((output, err), h', w) \<Rightarrow>
                    (let p2 = p1\<lparr>client := Some h'\<rparr>;
                         n2 = \<lparr>world = w, trace = trace n1 @ [HCall ''GetRowOrBefore'']\<rparr>
                     in if err \<noteq> None
                        then (case Thrift_Close T p2 n2 of (_, p3, n3) \<Rightarrow> Inr ((output, err), p3, n3))
                        else Inr ((output, err), p2, n2)))))"

definition Thrift_GetRowTs ::
  "('h, 'w) hbase \<Rightarrow> string \<Rightarrow> string \<Rightarrow> int \<Rightarrow>
     (string \<rightharpoonup> string) \<Rightarrow> 'h ThriftConnection \<Rightarrow>
     'w net \<Rightarrow>
     panic + ((TRowResult list option \<times> error option) \<times> 'h ThriftConnection \<times> 'w net)" where
  "Thrift_GetRowTs T TableName Row Timestamp' Attributes p n =
     (case Thrift_SafeOpen T p n of
        (Some err, p1, n1) \<Rightarrow> Inr ((None, Some err), p1, n1)
      | (None, p1, n1) \<Rightarrow>
          (case client p1 of
             None \<Rightarrow> Inl NilDereference
           | Some h \<Rightarrow>
               (case hbase_GetRowTs T h TableName Row Timestamp' Attributes (world n1) of
                  ((output, err), h', w) \<Rightarrow>
                    (let p2 = p1\<lparr>client := Some h'\<rparr>;
                         n2 = \<lparr>world = w, trace = trace n1 @ [HCall ''GetRowTs'']\<rparr>
                     in if err \<noteq> None
                        then (case Thrift_Close T p2 n2 of (_, p3, n3) \<Rightarrow> Inr ((output, err), p3, n3))
                        else Inr ((output, err), p2, n2)))))"

definition Thrift_GetRowWithColumns ::
  "('h, 'w) hbase \<Rightarrow> string \<Rightarrow> string \<Rightarrow> string list \<Rightarrow>
     (string \<rightharpoonup> string) \<Rightarrow> 'h ThriftConnection \<Rightarrow>
     'w net \<Rightarrow>
     panic + ((TRowResult list option \<times> error option) \<times> 'h ThriftConnection \<times> 'w net)" where
  "Thrift_GetRowWithColumns T TableName Row Columns Attributes p n =
     (case Thrift_SafeOpen T p n of
        (Some err, p1, n1) \<Rightarrow> Inr ((None, Some err), p1, n1)
      | (None, p1, n1) \<Rightarrow>
          (case client p1 of
             None \<Rightarrow> Inl NilDereference
           | Some h \<Rightarrow>
               (case hbase_GetRowWithColumns T h TableName Row Columns Attributes (world n1) of
                  ((output, err), h', w) \<Rightarrow>
                    (let p2 = p1\<lparr>client := Some h'\<rparr>;
                         n2 = \<lparr>world = w, trace = trace n1 @ [HCall ''GetRowWithColumns'']\<rparr>
                     in if err \<noteq> None
                        then (case Thrift_Close T p2 n2 of (_, p3, n3) \<Rightarrow> Inr ((output, err), p3, n3))
                        else Inr ((output, err), p2, n2)))))"

definition Thrift_GetRowWithColumnsTs ::
  "('h, 'w) hbase \<Rightarrow> string \<Rightarrow> string \<Rightarrow> string list \<Rightarrow>
     int \<Rightarrow> (string \<rightharpoonup> string) \<Rightarrow>
     'h ThriftConnection \<Rightarrow> 'w net \<Rightarrow>
     panic + ((TRowResult list option \<times> error option) \<times> 'h ThriftConnection \<times> 'w net)" where
  "Thrift_GetRowWithColumnsTs T TableName Row Columns Timestamp' Attributes p n =
     (case Thrift_SafeOpen T p n of
        (Some err, p1, n1) \<Rightarrow> Inr ((None, Some err), p1, n1)
      | (None, p1, n1) \<Rightarrow>
          (case client p1 of
             None \<Rightarrow> Inl NilDereference
           | Some h \<Rightarrow>
               (case hbase_GetRowWithColumnsTs T h TableName Row Columns Timestamp' Attributes (world n1) of
                  ((output, err), h', w) \<Rightarrow>
                    (let p2 = p1\<lparr>client := Some h'\<rparr>;
                         n2 = \<lparr>world = w, trace = trace n1 @ [HCall ''GetRowWithColumnsTs'']\<rparr>
                     in if err \<noteq> None
                        then (case Thrift_Close T p2 n2 of (_, p3, n3) \<Rightarrow> Inr ((output, err), p3, n3))
                        else Inr ((output, err), p2, n2)))))"

definition Thrift_GetRows ::
  "('h, 'w) hbase \<Rightarrow> string \<Rightarrow> string list \<Rightarrow>
     (string \<rightharpoonup> string) \<Rightarrow> 'h ThriftConnection \<Rightarrow>
     'w net \<Rightarrow>
     panic + ((TRowResult list option \<times> error option) \<times> 'h ThriftConnection \<times> 'w net)" where
  "Thrift_GetRows T TableName Rows Attributes p n =
     (case Thrift_SafeOpen T p n of
        (Some err, p1, n1) \<Rightarrow> Inr ((None, Some err), p1, n1)
      | (None, p1, n1) \<Rightarrow>
          (case client p1 of
             None \<Rightarrow> Inl NilDereference
           | Some h \<Rightarrow>
               (case hbase_GetRows T h TableName Rows Attributes (world n1) of
                  ((output, err), h', w) \<Rightarrow>
                    (let p2 = p1\<lparr>client := Some h'\<rparr>;
                         n2 = \<lparr>world = w, trace = trace n1 @ [HCall ''GetRows'']\<rparr>
                     in if err \<noteq> None
                        then (case Thrift_Close T p2 n2 of (_, p3, n3) \<Rightarrow> Inr ((output, err), p3, n3))
                        else Inr ((output, err), p2, n2)))))"

definition Thrift_GetRowsTs ::
  "('h, 'w) hbase \<Rightarrow> string \<Rightarrow> string list \<Rightarrow> int \<Rightarrow>
     (string \<rightharpoonup> string) \<Rightarrow> 'h ThriftConnection \<Rightarrow>
     'w net \<Rightarrow>
     panic + ((TRowResult list option \<times> error option) \<times> 'h ThriftConnection \<times> 'w net)" where
  "Thrift_GetRowsTs T TableName Rows Timestamp' Attributes p n =
     (case Thrift_SafeOpen T p n of
        (Some err, p1, n1) \<Rightarrow> Inr ((None, Some err), p1, n1)
      | (None, p1, n1) \<Rightarrow>
          (case client p1 of
             None \<Rightarrow> Inl NilDereference
           | Some h \<Rightarrow>
               (case hbase_GetRowsTs T h TableName Rows Timestamp' Attributes (world n1) of
                  ((output, err), h', w) \<Rightarrow>
                    (let p2 = p1\<lparr>client := Some h'\<rparr>;
                         n2 = \<lparr>world = w, trace = trace n1 @ [HCall ''GetRowsTs'']\<rparr>
                     in if err \<noteq> None
                        then (case Thrift_Close T p2 n2 of (_, p3, n3) \<Rightarrow> Inr ((output, err), p3, n3))
                        else Inr ((output, err), p2, n2)))))"

definition Thrift_GetRowsWithColumns ::
  "('h, 'w) hbase \<Rightarrow> string \<Rightarrow> string list \<Rightarrow>
     string list \<Rightarrow> (string \<rightharpoonup> string) \<Rightarrow>
     'h ThriftConnection \<Rightarrow> 'w net \<Rightarrow>
     panic + ((TRowResult list option \<times> error option) \<times> 'h ThriftConnection \<times> 'w net)" where
  "Thrift_GetRowsWithColumns T TableName Rows Columns Attributes p n =
     (case Thrift_SafeOpen T p n of
        (Some err, p1, n1) \<Rightarrow> Inr ((None, Some err), p1, n1)
      | (None, p1, n1) \<Rightarrow>
          (case client p1 of
             None \<Rightarrow> Inl NilDereference
           | Some h \<Rightarrow>
               (case hbase_GetRowsWithColumns T h TableName Rows Columns Attributes (world n1) of
                  ((output, err), h', w) \<Rightarrow>
                    (let p2 = p1\<lparr>client := Some h'\<rparr>;
                         n2 = \<lparr>world = w, trace = trace n1 @ [HCall ''GetRowsWithColumns'']\<rparr>
                     in if err \<noteq> None
                        then (case Thrift_Close T p2 n2 of (_, p3, n3) \<Rightarrow> Inr ((output, err), p3, n3))
                        else Inr ((output, err), p2, n2)))))"

definition Thrift_GetRowsWithColumnsTs ::
  "('h, 'w) hbase \<Rightarrow> string \<Rightarrow> string list \<Rightarrow>
     string list \<Rightarrow> int \<Rightarrow> (string \<rightharpoonup> string) \<Rightarrow>
     'h ThriftConnection \<Rightarrow> 'w net \<Rightarrow>
     panic + ((TRowResult list option \<times> error option) \<times> 'h ThriftConnection \<times> 'w net)" where
  "Thrift_GetRowsWithColumnsTs T TableName Rows Columns Timestamp' Attributes p n =
     (case Thrift_SafeOpen T p n of
        (Some err, p1, n1) \<Rightarrow> Inr ((None, Some err), p1, n1)
      | (None, p1, n1) \<Rightarrow>
          (case client p1 of
             None \<Rightarrow> Inl NilDereference
           | Some h \<Rightarrow>
               (case hbase_GetRowsWithColumnsTs T h TableName Rows Columns Timestamp' Attributes (world n1) of
                  ((output, err), h', w) \<Rightarrow>
                    (let p2 = p1\<lparr>client := Some h'\<rparr>;
                         n2 = \<lparr>world = w, trace = trace n1 @ [HCall ''GetRowsWithColumnsTs'']\<rparr>
                     in if err \<noteq> None
                        then (case Thrift_Close T p2 n2 of (_, p3, n3) \<Rightarrow> Inr ((output, err), p3, n3))
                        else Inr ((output, err), p2, n2)))))"

definition Thrift_GetTableNames ::
  "('h, 'w) hbase \<Rightarrow> 'h ThriftConnection \<Rightarrow> 'w net \<Rightarrow>
     panic + ((string list option \<times> error option) \<times> 'h ThriftConnection \<times> 'w net)" where
  "Thrift_GetTableNames T p n =
     (case Thrift_SafeOpen T p n of
        (Some err, p1, n1) \<Rightarrow> Inr ((None, Some err), p1, n1)
      | (None, p1, n1) \<Rightarrow>
          (case client p1 of
             None \<Rightarrow> Inl NilDereference
           | Some h \<Rightarrow>
               (case hbase_GetTableNames T h (world n1) of
                  ((output, err), h', w) \<Rightarrow>
                    (let p2 = p1\<lparr>client := Some h'\<rparr>;
                         n2 = \<lparr>world = w, trace = trace n1 @ [HCall ''GetTableNames'']\<rparr>
                     in if err \<noteq> None
                        then (case Thrift_Close T p2 n2 of (_, p3, n3) \<Rightarrow> Inr ((output, err), p3, n3))
                        else Inr ((output, err), p2, n2)))))"

definition Thrift_GetTableRegions ::
  "('h, 'w) hbase \<Rightarrow> string \<Rightarrow> 'h ThriftConnection \<Rightarrow>
     'w net \<Rightarrow>
     panic + ((TRegionInfo list option \<times> error option) \<times> 'h ThriftConnection \<times> 'w net)" where
  "Thrift_GetTableRegions T TableName p n =
     (case Thrift_SafeOpen T p n of
        (Some err, p1, n1) \<Rightarrow> Inr ((None, Some err), p1, n1)
      | (None, p1, n1) \<Rightarrow>
          (case client p1 of
             None \<Rightarrow> Inl NilDereference
           | Some h \<Rightarrow>
               (case hbase_GetTableRegions T h TableName (world n1) of
                  ((output, err), h', w) \<Rightarrow>
                    (let p2 = p1\<lparr>client := Some h'\<rparr>;
                         n2 = \<lparr>world = w, trace = trace n1 @ [HCall ''GetTableRegions'']\<rparr>
                     in if err \<noteq> None
                        then (case Thrift_Close T p2 n2 of (_, p3, n3) \<Rightarrow> Inr ((output, err), p3, n3))
                        else Inr ((output, err), p2, n2)))))"

definition Thrift_GetVer ::
  "('h, 'w) hbase \<Rightarrow> string \<Rightarrow> string \<Rightarrow> string \<Rightarrow>
     int \<Rightarrow> (string \<rightharpoonup> string) \<Rightarrow>
     'h ThriftConnection \<Rightarrow> 'w net \<Rightarrow>
     panic + ((TCell list option \<times> error option) \<times> 'h ThriftConnection \<times> 'w net)" where
  "Thrift_GetVer T TableName Row Column NumVersions Attributes p n =
     (case Thrift_SafeOpen T p n of
        (Some err, p1, n1) \<Rightarrow> Inr ((None, Some err), p1, n1)
      | (None, p1, n1) \<Rightarrow>
          (case client p1 of
             None \<Rightarrow> Inl NilDereference
           | Some h \<Rightarrow>
               (case hbase_GetVer T h TableName Row Column NumVersions Attributes (world n1) of
                  ((output, err), h', w) \<Rightarrow>
                    (let p2 = p1\<lparr>client := Some h'\<rparr>;
                         n2 = \<lparr>world = w, trace = trace n1 @ [HCall ''GetVer'']\<rparr>
                     in if err \<noteq> None
                        then (case Thrift_Close T p2 n2 of (_, p3, n3) \<Rightarrow> Inr ((output, err), p3, n3))
                        else Inr ((output, err), p2, n2)))))"

definition Thrift_GetVerTs ::
  "('h, 'w) hbase \<Rightarrow> string \<Rightarrow> string \<Rightarrow> string \<Rightarrow>
     int \<Rightarrow> int \<Rightarrow> (string \<rightharpoonup> string) \<Rightarrow>
     'h ThriftConnection \<Rightarrow> 'w net \<Rightarrow>
     panic + ((TCell list option \<times> error option) \<times> 'h ThriftConnection \<times> 'w net)" where
  "Thrift_GetVerTs T TableName Row Column Timestamp' NumVersions Attributes p n =
     (case Thrift_SafeOpen T p n of
        (Some err, p1, n1) \<Rightarrow> Inr ((None, Some err), p1, n1)
      | (None, p1, n1) \<Rightarrow>
          (case client p1 of
             None \<Rightarrow> Inl NilDereference
           | Some h \<Rightarrow>
               (case hbase_GetVerTs T h TableName Row Column Timestamp' NumVersions Attributes (world n1) of
                  ((output, err), h', w) \<Rightarrow>
                    (let p2 = p1\<lparr>client := Some h'\<rparr>;
                         n2 = \<lparr>world = w, trace = trace n1 @ [HCall ''GetVerTs'']\<rparr>
                     in if err \<noteq> None
                        then (case Thrift_Close T p2 n2 of (_, p3, n3) \<Rightarrow> Inr ((output, err), p3, n3))
                        else Inr ((output, err), p2, n2)))))"

definition Thrift_Increment ::
  "('h, 'w) hbase \<Rightarrow> TIncrement option \<Rightarrow> 'h ThriftConnection \<Rightarrow>
     'w net \<Rightarrow> panic + (error option \<times> 'h ThriftConnection \<times> 'w net)" where
  "Thrift_Increment T Increment p n =
     (case Thrift_SafeOpen T p n of
        (Some err, p1, n1) \<Rightarrow> Inr (Some err, p1, n1)
      | (None, p1, n1) \<Rightarrow>
          (case client p1 of
             None \<Rightarrow> Inl NilDereference
           | Some h \<Rightarrow>
               (case hbase_Increment T h Increment (world n1) of
                  (err, h', w) \<Rightarrow>
                    (let p2 = p1\<lparr>client := Some h'\<rparr>;
                         n2 = \<lparr>world = w, trace = trace n1 @ [HCall ''Increment'']\<rparr>
                     in if err \<noteq> None
                        then (case Thrift_Close T p2 n2 of (_, p3, n3) \<Rightarrow> Inr (err, p3, n3))
                        else Inr (err, p2, n2)))))"

definition Thrift_IncrementRows ::
  "('h, 'w) hbase \<Rightarrow> TIncrement list \<Rightarrow> 'h ThriftConnection \<Rightarrow>
     'w net \<Rightarrow> panic + (error option \<times> 'h ThriftConnection \<times> 'w net)" where
  "Thrift_IncrementRows T Increments p n =
     (case Thrift_SafeOpen T p n of
        (Some err, p1, n1) \<Rightarrow> Inr (Some err, p1, n1)
      | (None, p1, n1) \<Rightarrow>
          (case client p1 of
             None \<Rightarrow> Inl NilDereference
           | Some h \<Rightarrow>
               (case hbase_IncrementRows T h Increments (world n1) of
                  (err, h', w) \<Rightarrow>
                    (let p2 = p1\<lparr>client := Some h'\<rparr>;
                         n2 = \<lparr>world = w, trace = trace n1 @ [HCall ''IncrementRows'']\<rparr>
                     in if err \<noteq> None
                        then (case Thrift_Close T p2 n2 of (_, p3, n3) \<Rightarrow> Inr (err, p3, n3))
                        else Inr (err, p2, n2)))))"

definition Thrift_IsTableEnabled ::
  "('h, 'w) hbase \<Rightarrow> string \<Rightarrow> 'h ThriftConnection \<Rightarrow>
     'w net \<Rightarrow>
     panic + ((bool \<times> error option) \<times> 'h ThriftConnection \<times> 'w net)" where
  "Thrift_IsTableEnabled T TableName p n =
     (case Thrift_SafeOpen T p n of
        (Some err, p1, n1) \<Rightarrow> Inr ((False, Some err), p1, n1)
      | (None, p1, n1) \<Rightarrow>
          (case client p1 of
             None \<Rightarrow> Inl NilDereference
           | Some h \<Rightarrow>
               (case hbase_IsTableEnabled T h TableName (world n1) of
                  ((output, err), h', w) \<Rightarrow>
                    (let p2 = p1\<lparr>client := Some h'\<rparr>;
                         n2 = \<lparr>world = w, trace = trace n1 @ [HCall ''IsTableEnabled'']\<rparr>
                     in if err \<noteq> None
                        then (case Thrift_Close T p2 n2 of (_, p3, n3) \<Rightarrow> Inr ((output, err), p3, n3))
                        else Inr ((output, err), p2, n2)))))"

definition Thrift_MajorCompact ::
  "('h, 'w) hbase \<Rightarrow> string \<Rightarrow> 'h ThriftConnection \<Rightarrow>
     'w net \<Rightarrow> panic + (error option \<times> 'h ThriftConnection \<times> 'w net)" where
  "Thrift_MajorCompact T TableNameOrRegionName p n =
     (case Thrift_SafeOpen T p n of
        (Some err, p1, n1) \<Rightarrow> Inr (Some err, p1, n1)
      | (None, p1, n1) \<Rightarrow>
          (case client p1 of
             None \<Rightarrow> Inl NilDereference
           | Some h \<Rightarrow>
               (case hbase_MajorCompact T h TableNameOrRegionName (world n1) of
                  (err, h', w) \<Rightarrow>
                    (let p2 = p1\<lparr>client := Some h'\<rparr>;
                         n2 = \<lparr>world = w, trace = trace n1 @ [HCall ''MajorCompact'']\<rparr>
                     in if err \<noteq> None
                        then (case Thrift_Close T p2 n2 of (_, p3, n3) \<Rightarrow> Inr (err, p3, n3))
                        else Inr (err, p2, n2)))))"

definition Thrift_MutateRow ::
  "('h, 'w) hbase \<Rightarrow> string \<Rightarrow> string \<Rightarrow>
     Mutation list \<Rightarrow> (string \<rightharpoonup> string) \<Rightarrow>
     'h ThriftConnection \<Rightarrow> 'w net \<Rightarrow>
     panic + (error option \<times> 'h ThriftConnection \<times> 'w net)" where
  "Thrift_MutateRow T TableName Row Mutations Attributes p n =
     (case Thrift_SafeOpen T p n of
        (Some err, p1, n1) \<Rightarrow> Inr (Some err, p1, n1)
      | (None, p1, n1) \<Rightarrow>
          (case client p1 of
             None \<Rightarrow> Inl NilDereference
           | Some h \<Rightarrow>
               (case hbase_MutateRow T h TableName Row Mutations Attributes (world n1) of
                  (err, h', w) \<Rightarrow>
                    (let p2 = p1\<lparr>client := Some h'\<rparr>;
                         n2 = \<lparr>world = w, trace = trace n1 @ [HCall ''MutateRow'']\<rparr>
                     in if err \<noteq> None
                        then (case Thrift_Close T p2 n2 of (_, p3, n3) \<Rightarrow> Inr (err, p3, n3))
                        else Inr (err, p2, n2)))))"

definition Thrift_MutateRowTs ::
  "('h, 'w) hbase \<Rightarrow> string \<Rightarrow> string \<Rightarrow>
     Mutation list \<Rightarrow> int \<Rightarrow> (string \<rightharpoonup> string) \<Rightarrow>
     'h ThriftConnection \<Rightarrow> 'w net \<Rightarrow>
     panic + (error option \<times> 'h ThriftConnection \<times> 'w net)" where
  "Thrift_MutateRowTs T TableName Row Mutations Timestamp' Attributes p n =
     (case Thrift_SafeOpen T p n of
        (Some err, p1, n1) \<Rightarrow> Inr (Some err, p1, n1)
      | (None, p1, n1) \<Rightarrow>
          (case client p1 of
             None \<Rightarrow> Inl NilDereference
           | Some h \<Rightarrow>
               (case hbase_MutateRowTs T h TableName Row Mutations Timestamp' Attributes (world n1) of
                  (err, h', w) \<Rightarrow>
                    (let p2 = p1\<lparr>client := Some h'\<rparr>;
                         n2 = \<lparr>world = w, trace = trace n1 @ [HCall ''MutateRowTs'']\<rparr>
                     in if err \<noteq> None
                        then (case Thrift_Close T p2 n2 of (_, p3, n3) \<Rightarrow> Inr (err, p3, n3))
                        else Inr (err, p2, n2)))))"

definition Thrift_MutateRows ::
  "('h, 'w) hbase \<Rightarrow> string \<Rightarrow> BatchMutation list \<Rightarrow>
     (string \<rightharpoonup> string) \<Rightarrow> 'h ThriftConnection \<Rightarrow>
     'w net \<Rightarrow> panic + (error option \<times> 'h ThriftConnection \<times> 'w net)" where
  "Thrift_MutateRows T TableName RowBatches Attributes p n =
     (case Thrift_SafeOpen T p n of
        (Some err, p1, n1) \<Rightarrow> Inr (Some err, p1, n1)
      | (None, p1, n1) \<Rightarrow>
          (case client p1 of
             None \<Rightarrow> Inl NilDereference
           | Some h \<Rightarrow>
               (case hbase_MutateRows T h TableName RowBatches Attributes (world n1) of
                  (err, h', w) \<Rightarrow>
                    (let p2 = p1\<lparr>client := Some h'\<rparr>;
                         n2 = \<lparr>world = w, trace = trace n1 @ [HCall ''MutateRows'']\<rparr>
                     in if err \<noteq> None
                        then (case Thrift_Close T p2 n2 of (_, p3, n3) \<Rightarrow> Inr (err, p3, n3))
                        else Inr (err, p2, n2)))))"

definition Thrift_MutateRowsTs ::
  "('h, 'w) hbase \<Rightarrow> string \<Rightarrow> BatchMutation list \<Rightarrow>
     int \<Rightarrow> (string \<rightharpoonup> string) \<Rightarrow>
     'h ThriftConnection \<Rightarrow> 'w net \<Rightarrow>
     panic + (error option \<times> 'h ThriftConnection \<times> 'w net)" where
  "Thrift_MutateRowsTs T TableName RowBatches Timestamp' Attributes p n =
     (case Thrift_SafeOpen T p n of
        (Some err, p1, n1) \<Rightarrow> Inr (Some err, p1, n1)
      | (None, p1, n1) \<Rightarrow>
          (case client p1 of
             None \<Rightarrow> Inl NilDereference
           | Some h \<Rightarrow>
               (case hbase_MutateRowsTs T h TableName RowBatches Timestamp' Attributes (world n1) of
                  (err, h', w) \<Rightarrow>
                    (let p2 = p1\<lparr>client := Some h'\<rparr>;
                         n2 = \<lparr>world = w, trace = trace n1 @ [HCall ''MutateRowsTs'']\<rparr>
                     in if err \<noteq> None
                        then (case Thrift_Close T p2 n2 of (_, p3, n3) \<Rightarrow> Inr (err, p3, n3))
                        else Inr (err, p2, n2)))))"

definition Thrift_ScannerClose ::
  "('h, 'w) hbase \<Rightarrow> int \<Rightarrow> 'h ThriftConnection \<Rightarrow>
     'w net \<Rightarrow> panic + (error option \<times> 'h ThriftConnection \<times> 'w net)" where
  "Thrift_ScannerClose T Id' p n =
     (case Thrift_SafeOpen T p n of
        (Some err, p1, n1) \<Rightarrow> Inr (Some err, p1, n1)
      | (None, p1, n1) \<Rightarrow>
          (case client p1 of
             None \<Rightarrow> Inl NilDereference
           | Some h \<Rightarrow>
               (case hbase_ScannerClose T h Id' (world n1) of
                  (err, h', w) \<Rightarrow>
                    (let p2 = p1\<lparr>client := Some h'\<rparr>;
                         n2 = \<lparr>world = w, trace = trace n1 @ [HCall ''ScannerClose'']\<rparr>
                     in if err \<noteq> None
                        then (case Thrift_Close T p2 n2 of (_, p3, n3) \<Rightarrow> Inr (err, p3, n3))
                        else Inr (err, p2, n2)))))"

definition Thrift_ScannerGet ::
  "('h, 'w) hbase \<Rightarrow> int \<Rightarrow> 'h ThriftConnection \<Rightarrow>
     'w net \<Rightarrow>
     panic + ((TRowResult list option \<times> error option) \<times> 'h ThriftConnection \<times> 'w net)" where
  "Thrift_ScannerGet T Id' p n =
     (case Thrift_SafeOpen T p n of
        (Some err, p1, n1) \<Rightarrow> Inr ((None, Some err), p1, n1)
      | (None, p1, n1) \<Rightarrow>
          (case client p1 of
             None \<Rightarrow> Inl NilDereference
           | Some h \<Rightarrow>
               (case hbase_ScannerGet T h Id' (world n1) of
                  ((output, err), h', w) \<Rightarrow>
                    (let p2 = p1\<lparr>client := Some h'\<rparr>;
                         n2 = \<lparr>world = w, trace = trace n1 @ [HCall ''ScannerGet'']\<rparr>
                     in if err \<noteq> None
                        then (case Thrift_Close T p2 n2 of (_, p3, n3) \<Rightarrow> Inr ((output, err), p3, n3))
                        else Inr ((output, err), p2, n2)))))"

definition Thrift_ScannerGetList ::
  "('h, 'w) hbase \<Rightarrow> int \<Rightarrow> int \<Rightarrow>
     'h ThriftConnection \<Rightarrow> 'w net \<Rightarrow>
     panic + ((TRowResult list option \<times> error option) \<times> 'h ThriftConnection \<times> 'w net)" where
  "Thrift_ScannerGetList T Id' NbRows p n =
     (case Thrift_SafeOpen T p n of
        (Some err, p1, n1) \<Rightarrow> Inr ((None, Some err), p1, n1)
      | (None, p1, n1) \<Rightarrow>
          (case client p1 of
             None \<Rightarrow> Inl NilDereference
           | Some h \<Rightarrow>
               (case hbase_ScannerGetList T h Id' NbRows (world n1) of
                  ((output, err), h', w) \<Rightarrow>
                    (let p2 = p1\<lparr>client := Some h'\<rparr>;
                         n2 = \<lparr>world = w, trace = trace n1 @ [HCall ''ScannerGetList'']\<rparr>
                     in if err \<noteq> None
                        then (case Thrift_Close T p2 n2 of (_, p3, n3) \<Rightarrow> Inr ((output, err), p3, n3))
                        else Inr ((output, err), p2, n2)))))"

definition Thrift_ScannerOpen ::
  "('h, 'w) hbase \<Rightarrow> string \<Rightarrow> string \<Rightarrow> string list \<Rightarrow>
     (string \<rightharpoonup> string) \<Rightarrow> 'h ThriftConnection \<Rightarrow>
     'w net \<Rightarrow>
     panic + ((int \<times> error option) \<times> 'h ThriftConnection \<times> 'w net)" where
  "Thrift_ScannerOpen T TableName StartRow Columns Attributes p n =
     (case Thrift_SafeOpen T p n of
        (Some err, p1, n1) \<Rightarrow> Inr ((0, Some err), p1, n1)
      | (None, p1, n1) \<Rightarrow>
          (case client p1 of
             None \<Rightarrow> Inl NilDereference
           | Some h \<Rightarrow>
               (case hbase_ScannerOpen T h TableName StartRow Columns Attributes (world n1) of
                  ((output, err), h', w) \<Rightarrow>
                    (let p2 = p1\<lparr>client := Some h'\<rparr>;
                         n2 = \<lparr>world = w, trace = trace n1 @ [HCall ''ScannerOpen'']\<rparr>
                     in if err \<noteq> None
                        then (case Thrift_Close T p2 n2 of (_, p3, n3) \<Rightarrow> Inr ((output, err), p3, n3))
                        else Inr ((output, err), p2, n2)))))"

definition Thrift_ScannerOpenTs ::
  "('h, 'w) hbase \<Rightarrow> string \<Rightarrow> string \<Rightarrow> string list \<Rightarrow>
     int \<Rightarrow> (string \<rightharpoonup> string) \<Rightarrow>
     'h ThriftConnection \<Rightarrow> 'w net \<Rightarrow>
     panic + ((int \<times> error option) \<times> 'h ThriftConnection \<times> 'w net)" where
  "Thrift_ScannerOpenTs T TableName StartRow Columns Timestamp' Attributes p n =
     (case Thrift_SafeOpen T p n of
        (Some err, p1, n1) \<Rightarrow> Inr ((0, Some err), p1, n1)
      | (None, p1, n1) \<Rightarrow>
          (case client p1 of
             None \<Rightarrow> Inl NilDereference
           | Some h \<Rightarrow>
               (case hbase_ScannerOpenTs T h TableName StartRow Columns Timestamp' Attributes (world n1) of
                  ((output, err), h', w) \<Rightarrow>
                    (let p2 = p1\<lparr>client := Some h'\<rparr>;
                         n2 = \<lparr>world = w, trace = trace n1 @ [HCall ''ScannerOpenTs'']\<rparr>
                     in if err \<noteq> None
                        then (case Thrift_Close T p2 n2 of (_, p3, n3) \<Rightarrow> Inr ((output, err), p3, n3))
                        else Inr ((output, err), p2, n2)))))"

definition Thrift_ScannerOpenWithPrefix ::
  "('h, 'w) hbase \<Rightarrow> string \<Rightarrow> string \<Rightarrow> string list \<Rightarrow>
     (string \<rightharpoonup> string) \<Rightarrow> 'h ThriftConnection \<Rightarrow>
     'w net \<Rightarrow>
     panic + ((int \<times> error option) \<times> 'h ThriftConnection \<times> 'w net)" where
  "Thrift_ScannerOpenWithPrefix T TableName StartAndPrefix Columns Attributes p n =
     (case Thrift_SafeOpen T p n of
        (Some err, p1, n1) \<Rightarrow> Inr ((0, Some err), p1, n1)
      | (None, p1, n1) \<Rightarrow>
          (case client p1 of
             None \<Rightarrow> Inl NilDereference
           | Some h \<Rightarrow>
               (case hbase_ScannerOpenWithPrefix T h TableName StartAndPrefix Columns Attributes (world n1) of
                  ((output, err), h', w) \<Rightarrow>
                    (let p2 = p1\<lparr>client := Some h'\<rparr>;
                         n2 = \<lparr>world = w, trace = trace n1 @ [HCall ''ScannerOpenWithPrefix'']\<rparr>
                     in if err \<noteq> None
                        then (case Thrift_Close T p2 n2 of (_, p3, n3) \<Rightarrow> Inr ((output, err), p3, n3))
                        else Inr ((output, err), p2, n2)))))"

definition Thrift_ScannerOpenWithScan ::
  "('h, 'w) hbase \<Rightarrow> string \<Rightarrow> TScan option \<Rightarrow>
     (string \<rightharpoonup> string) \<Rightarrow> 'h ThriftConnection \<Rightarrow>
     'w net \<Rightarrow>
     panic + ((int \<times> error option) \<times> 'h ThriftConnection \<times> 'w net)" where
  "Thrift_ScannerOpenWithScan T TableName Scan Attributes p n =
     (case Thrift_SafeOpen T p n of
        (Some err, p1, n1) \<Rightarrow> Inr ((0, Some err), p1, n1)
      | (None, p1, n1) \<Rightarrow>
          (case client p1 of
             None \<Rightarrow> Inl NilDereference
           | Some h \<Rightarrow>
               (case hbase_ScannerOpenWithScan T h TableName Scan Attributes (world n1) of
                  ((output, err), h', w) \<Rightarrow>
                    (let p2 = p1\<lparr>client := Some h'\<rparr>;
                         n2 = \<lparr>world = w, trace = trace n1 @ [HCall ''ScannerOpenWithScan'']\<rparr>
                     in if err \<noteq> None
                        then (case Thrift_Close T p2 n2 of (_, p3, n3) \<Rightarrow> Inr ((output, err), p3, n3))
                        else Inr ((output, err), p2, n2)))))"

definition Thrift_ScannerOpenWithStop ::
  "('h, 'w) hbase \<Rightarrow> string \<Rightarrow> string \<Rightarrow> string \<Rightarrow>
     string list \<Rightarrow> (string \<rightharpoonup> string) \<Rightarrow>
     'h ThriftConnection \<Rightarrow> 'w net \<Rightarrow>
     panic + ((int \<times> error option) \<times> 'h ThriftConnection \<times> 'w net)" where
  "Thrift_ScannerOpenWithStop T TableName StartRow StopRow Columns Attributes p n =
     (case Thrift_SafeOpen T p n of
        (Some err, p1, n1) \<Rightarrow> Inr ((0, Some err), p1, n1)
      | (None, p1, n1) \<Rightarrow>
          (case client p1 of
             None \<Rightarrow> Inl NilDereference
           | Some h \<Rightarrow>
               (case hbase_ScannerOpenWithStop T h TableName StartRow StopRow Columns Attributes (world n1) of
                  ((output, err), h', w) \<Rightarrow>
                    (let p2 = p1\<lparr>client := Some h'\<rparr>;
                         n2 = \<lparr>world = w, trace = trace n1 @ [HCall ''ScannerOpenWithStop'']\<rparr>
                     in if err \<noteq> None
                        then (case Thrift_Close T p2 n2 of (_, p3, n3) \<Rightarrow> Inr ((output, err), p3, n3))
                        else Inr ((output, err), p2, n2)))))"

definition Thrift_ScannerOpenWithStopTs ::
  "('h, 'w) hbase \<Rightarrow> string \<Rightarrow> string \<Rightarrow> string \<Rightarrow>
     string list \<Rightarrow> int \<Rightarrow> (string \<rightharpoonup> string) \<Rightarrow>
     'h ThriftConnection \<Rightarrow> 'w net \<Rightarrow>
     panic + ((int \<times> error option) \<times> 'h ThriftConnection \<times> 'w net)" where
  "Thrift_ScannerOpenWithStopTs T TableName StartRow StopRow Columns Timestamp' Attributes p n =
     (case Thrift_SafeOpen T p n of
        (Some err, p1, n1) \<Rightarrow> Inr ((0, Some err), p1, n1)
      | (None, p1, n1) \<Rightarrow>
          (case client p1 of
             None \<Rightarrow> Inl NilDereference
           | Some h \<Rightarrow>
               (case hbase_ScannerOpenWithStopTs T h TableName StartRow StopRow Columns Timestamp' Attributes (world n1) of
                  ((output, err), h', w) \<Rightarrow>
                    (let p2 = p1\<lparr>client := Some h'\<rparr>;
                         n2 = \<lparr>world = w, trace = trace n1 @ [HCall ''ScannerOpenWithStopTs'']\<rparr>
                     in if err \<noteq> None
                        then (case Thrift_Close T p2 n2 of (_, p3, n3) \<Rightarrow> Inr ((output, err), p3, n3))
                        else Inr ((output, err), p2, n2)))))"

text \<open>
  The one pattern the specification gives for every forwarded operation: ensure the
  connection is open and abort with that error if it is not; forward the call to the
  client; on any returned error close the connection before the error is passed on; on
  success pass on the result. \<open>abort\<close> builds what is returned for an error of
  \<open>SafeOpen\<close>, \<open>error_of\<close> reads the error out of what the client returned, and
  \<open>call\<close> is the client's operation applied to the arguments.
\<close>

definition forwarded ::
  "('h, 'w) hbase \<Rightarrow> string \<Rightarrow> (error \<Rightarrow> 'a) \<Rightarrow> ('a \<Rightarrow> error option) \<Rightarrow>
     ('h \<Rightarrow> 'w \<Rightarrow> 'a \<times> 'h \<times> 'w) \<Rightarrow> 'h ThriftConnection \<Rightarrow> 'w net \<Rightarrow>
     panic + ('a \<times> 'h ThriftConnection \<times> 'w net)" where
  "forwarded T name abort error_of call p n =
     (case Thrift_SafeOpen T p n of
        (Some err, p1, n1) \<Rightarrow> Inr (abort err, p1, n1)
      | (None, p1, n1) \<Rightarrow>
          (case client p1 of
             None \<Rightarrow> Inl NilDereference
           | Some h \<Rightarrow>
               (case call h (world n1) of
                  (result, h', w) \<Rightarrow>
                    (let p2 = p1\<lparr>client := Some h'\<rparr>;
                         n2 = \<lparr>world = w, trace = trace n1 @ [HCall name]\<rparr>
                     in if error_of result \<noteq> None
                        then (case Thrift_Close T p2 n2 of (_, p3, n3) \<Rightarrow> Inr (result, p3, n3))
                        else Inr (result, p2, n2)))))"

section \<open>The cache-protocol connection\<close>

text \<open>
  \<open>RedisConnection\<close>: the \<open>Logger\<close> field and all logging and stop-watch calls are left
  out; they only observe. \<open>client\<close> is the raw client handle, \<open>None\<close> for nil.
  \<open>Timeout\<close> is a \<open>time.Duration\<close>, a count of nanoseconds.
\<close>

record 'c RedisConnection =
  Url :: string
  Id :: string
  Timeout :: int
  client :: "'c option"

definition makeLazyRedisConnection :: "string \<Rightarrow> string \<Rightarrow> int \<Rightarrow> 'c RedisConnection" where
  "makeLazyRedisConnection url ident timeout =
     \<lparr>Url = url, Id = ident, Timeout = timeout, client = None\<rparr>"

definition Redis_IsOpen :: "'c RedisConnection \<Rightarrow> bool" where
  "Redis_IsOpen p = (client p \<noteq> None)"

definition Redis_IsClosed :: "'c RedisConnection \<Rightarrow> bool" where
  "Redis_IsClosed p = (client p = None)"

definition Redis_Open ::
  "('c, 'w) radix \<Rightarrow> 'c RedisConnection \<Rightarrow> 'w net \<Rightarrow> error option \<times> 'c RedisConnection \<times> 'w net" where
  "Redis_Open L p n =
     (let p1 = (if Timeout p = 0 then p\<lparr>Timeout := 10 * Second\<rparr> else p);
          n1 = n\<lparr>trace := trace n @ [RDial ''tcp'' (Url p1) (Timeout p1)]\<rparr>
      in case DialTimeout L ''tcp'' (Url p1) (Timeout p1) (world n) of
           (Inl err, w) \<Rightarrow> (Some err, p1, n1\<lparr>world := w\<rparr>)
         | (Inr c, w) \<Rightarrow> (None, p1\<lparr>client := Some c\<rparr>, n1\<lparr>world := w\<rparr>))"

definition Redis_Close ::
  "('c, 'w) radix \<Rightarrow> 'c RedisConnection \<Rightarrow> 'w net \<Rightarrow> error option \<times> 'c RedisConnection \<times> 'w net" where
  "Redis_Close L p n =
     (case client p of
        None \<Rightarrow> (None, p\<lparr>client := None\<rparr>, n)
      | Some c \<Rightarrow>
          (case client_Close L c (world n) of
             (err, w) \<Rightarrow> (err, p\<lparr>client := None\<rparr>, \<lparr>world = w, trace = trace n @ [RClose]\<rparr>)))"

definition Redis_Append ::
  "('c, 'w) radix \<Rightarrow> string \<Rightarrow> string list \<Rightarrow> 'c RedisConnection \<Rightarrow> 'w net \<Rightarrow> 'c RedisConnection \<times> 'w net" where
  "Redis_Append L cmd args p n =
     (case (if \<not> Redis_IsOpen p then Redis_Open L p n else (None, p, n)) of
        (Some err, p1, n1) \<Rightarrow> (p1, n1)
      | (None, p1, n1) \<Rightarrow>
          (case client p1 of
             Some c \<Rightarrow>
               (case client_Append L c cmd args (world n1) of
                  (c', w) \<Rightarrow> (p1\<lparr>client := Some c'\<rparr>, \<lparr>world = w, trace = trace n1 @ [RAppend cmd args]\<rparr>))
           | None \<Rightarrow> (p1, n1)))"

text \<open>
  In \<open>Redis_Append\<close> the last branch, a nil client after the open check, is never
  taken: the connection was open or \<open>Redis_Open\<close> has just stored a client (lemma
  \<open>Redis_Open_client\<close>).

  \<open>GetReply\<close> classifies an error reply by the text of its error. An error reply whose
  \<open>Err\<close> is nil makes \<open>reply.Err.Error()\<close> panic.
\<close>

definition is_ignored_error :: "('c, 'w) radix \<Rightarrow> error \<Rightarrow> bool" where
  "is_ignored_error L e =
     (Error e = Error (AuthError L) \<or> Error e = Error (LoadingError L) \<or>
      Error e = Error (ParseError L) \<or> Error e = Error (PipelineQueueEmptyError L))"

definition Redis_GetReply ::
  "('c, 'w) radix \<Rightarrow> 'c RedisConnection \<Rightarrow> 'w net \<Rightarrow> panic + (Reply \<times> 'c RedisConnection \<times> 'w net)" where
  "Redis_GetReply L p n =
     (case client p of
        None \<Rightarrow> Inr (MkReply ErrorReply [] (Some (ErrConnectionIsClosed L)) [] 0, p, n)
      | Some c \<Rightarrow>
          (case client_GetReply L c (world n) of
             (reply, c', w) \<Rightarrow>
               (let p1 = p\<lparr>client := Some c'\<rparr>;
                    n1 = \<lparr>world = w, trace = trace n @ [RGetReply reply]\<rparr>
                in if Type reply = ErrorReply then
                     (case Err reply of
                        None \<Rightarrow> Inl NilDereference
                      | Some e \<Rightarrow>
                          if is_ignored_error L e then Inr (reply, p1, n1)
                          else (case Redis_Close L p1 n1 of (_, p2, n2) \<Rightarrow> Inr (reply, p2, n2)))
                   else Inr (reply, p1, n1))))"

definition Redis_Cmd ::
  "('c, 'w) radix \<Rightarrow> string \<Rightarrow> string list \<Rightarrow> 'c RedisConnection \<Rightarrow> 'w net \<Rightarrow>
     panic + (Reply \<times> 'c RedisConnection \<times> 'w net)" where
  "Redis_Cmd L cmd args p n =
     (case Redis_Append L cmd args p n of (p1, n1) \<Rightarrow> Redis_GetReply L p1 n1)"

definition Redis_Ping ::
  "('c, 'w) radix \<Rightarrow> 'c RedisConnection \<Rightarrow> 'w net \<Rightarrow> panic + (error option \<times> 'c RedisConnection \<times> 'w net)" where
  "Redis_Ping L p n =
     (case Redis_Cmd L ''ping'' [] p n of
        Inl pn \<Rightarrow> Inl pn
      | Inr (reply, p1, n1) \<Rightarrow> Inr (Err reply, p1, n1))"

definition makeAgressiveRedisConnection ::
  "('c, 'w) radix \<Rightarrow> string \<Rightarrow> string \<Rightarrow> int \<Rightarrow> 'w net \<Rightarrow>
     panic + ('c RedisConnection option \<times> error option \<times> 'w net)" where
  "makeAgressiveRedisConnection L url ident timeout n =
     (case Redis_Ping L (makeLazyRedisConnection url ident timeout) n of
        Inl pn \<Rightarrow> Inl pn
      | Inr (Some err, p1, n1) \<Rightarrow>
          (case Redis_Close L p1 n1 of (_, p2, n2) \<Rightarrow> Inr (None, Some err, n2))
      | Inr (None, p1, n1) \<Rightarrow> Inr (Some p1, None, n1))"

section \<open>Batch commands\<close>

text \<open>
  \<open>RedisBatchCommand\<close>, with the fields \<open>BatchCommands\<close> reads and writes: the keyword,
  the arguments (a slice that may be nil) and the reply slot (a pointer, nil until a reply
  is stored). A batch is a slice of pointers to commands: the commands live in a store,
  a map from addresses to commands, and an address outside the store is a nil pointer.
\<close>

record RedisBatchCommand =
  Cmd :: string
  Args :: "string list option"
  Reply :: "Reply option"

type_synonym store = "nat \<rightharpoonup> RedisBatchCommand"

text \<open>The first loop of \<open>BatchCommands\<close>: append every command, in order.\<close>

fun BatchCommands_append ::
  "('c, 'w) radix \<Rightarrow> store \<Rightarrow> nat list \<Rightarrow> 'c RedisConnection \<Rightarrow> 'w net \<Rightarrow>
     panic + ('c RedisConnection \<times> 'w net)" where
  "BatchCommands_append L h [] p n = Inr (p, n)"
| "BatchCommands_append L h (a # as) p n =
     (case h a of
        None \<Rightarrow> Inl NilDereference
      | Some command \<Rightarrow>
          (case (case Args command of
                   None \<Rightarrow> Redis_Append L (Cmd command) [] p n
                 | Some args \<Rightarrow> Redis_Append L (Cmd command) args p n) of
             (p1, n1) \<Rightarrow> BatchCommands_append L h as p1 n1))"

text \<open>
  The second loop: read one reply per command, store it in the command, and stop with an
  error as soon as the connection is closed. The error text is a fixed prefix followed by
  the command printed with \<open>%v\<close>; the printing is the parameter \<open>fmt\<close>, a function of
  the store and the address.
\<close>

definition closed_while_getting_reply :: string where
  "closed_while_getting_reply = ''[BatchCommands] Connection closed while getting reply for cmd = ''"

fun BatchCommands_replies ::
  "('c, 'w) radix \<Rightarrow> (store \<Rightarrow> nat \<Rightarrow> string) \<Rightarrow> nat list \<Rightarrow> store \<Rightarrow> 'c RedisConnection \<Rightarrow> 'w net \<Rightarrow>
     panic + (error option \<times> store \<times> 'c RedisConnection \<times> 'w net)" where
  "BatchCommands_replies L fmt [] h p n = Inr (None, h, p, n)"
| "BatchCommands_replies L fmt (a # as) h p n =
     (case Redis_GetReply L p n of
        Inl pn \<Rightarrow> Inl pn
      | Inr (reply, p1, n1) \<Rightarrow>
          (case h a of
             None \<Rightarrow> Inl NilDereference
           | Some command \<Rightarrow>
               (let h1 = h(a \<mapsto> command\<lparr>Reply := Some reply\<rparr>)
                in if Redis_IsClosed p1
                   then Inr (Some (errorString (closed_while_getting_reply @ fmt h1 a)), h1, p1, n1)
                   else BatchCommands_replies L fmt as h1 p1 n1)))"

definition BatchCommands ::
  "('c, 'w) radix \<Rightarrow> (store \<Rightarrow> nat \<Rightarrow> string) \<Rightarrow> nat list \<Rightarrow> store \<Rightarrow> 'c RedisConnection \<Rightarrow> 'w net \<Rightarrow>
     panic + (error option \<times> store \<times> 'c RedisConnection \<times> 'w net)" where
  "BatchCommands L fmt commands h p n =
     (case BatchCommands_append L h commands p n of
        Inl pn \<Rightarrow> Inl pn
      | Inr (p1, n1) \<Rightarrow> BatchCommands_replies L fmt commands h p1 n1)"

section \<open>Batch command factories\<close>

text \<open>
  \<open>MakeRedisBatchCommandExpireIn\<close> turns a \<open>time.Duration\<close> (a signed 64-bit count of
  nanoseconds, here an \<open>int\<close>) into seconds with \<open>Duration.Seconds\<close>, which computes in
  64-bit floating point, and converts the result to \<open>int64\<close>.

  A float64 value is represented by the rational number it denotes. \<open>float64 x\<close> is the
  value nearest to \<open>x\<close> with a 53-bit significand, ties going to the even significand:
  \<open>float64_exponent x\<close> is the \<open>e\<close> with \<open>2\<^sup>e \<le> \<bar>x\<bar> < 2\<^sup>e\<^sup>+\<^sup>1\<close>, and values
  with that exponent are spaced \<open>2\<^sup>e\<^sup>-\<^sup>5\<^sup>2\<close> apart. Overflow and subnormal numbers are
  left out: every number that arises from a duration is zero or lies between \<open>10\<^sup>-\<^sup>9\<close> and
  \<open>2\<^sup>6\<^sup>3\<close> in magnitude.
\<close>

definition float64_exponent :: "rat \<Rightarrow> int" where
  "float64_exponent x =
     (if 1 \<le> \<bar>x\<bar> then bitlen \<lfloor>\<bar>x\<bar>\<rfloor> - 1 else - bitlen (\<lceil>1 / \<bar>x\<bar>\<rceil> - 1))"

definition round_half_even :: "rat \<Rightarrow> int" where
  "round_half_even y =
     (let f = \<lfloor>y\<rfloor>
      in if y - of_int f < 1 / 2 then f
         else if 1 / 2 < y - of_int f then f + 1
         else if even f then f else f + 1)"

definition float64 :: "rat \<Rightarrow> rat" where
  "float64 x =
     (if x = 0 then 0
      else let u = 2 powi (float64_exponent x - 52)
           in of_int (round_half_even (x / u)) * u)"

text \<open>
  \<open>Duration.Seconds\<close> of the Go library: \<open>sec := d / Second; nsec := d % Second;
  return float64(sec) + float64(nsec)/1e9\<close>, with Go's integer division and remainder,
  which truncate towards zero. Every conversion and operation rounds to float64.
\<close>

definition Millisecond :: int where
  "Millisecond = 1000000"

definition Duration_Seconds :: "int \<Rightarrow> rat" where
  "Duration_Seconds d =
     (let sec = d sdiv Second; nsec = d smod Second
      in float64 (float64 (of_int sec) + float64 (float64 (of_int nsec) / float64 1000000000)))"

text \<open>The conversion \<open>int64(f)\<close> of a float64 drops the fraction (towards zero).\<close>

definition int64_of_float64 :: "rat \<Rightarrow> int" where
  "int64_of_float64 f = (if 0 \<le> f then \<lfloor>f\<rfloor> else \<lceil>f\<rceil>)"

text \<open>
  Modelled from the spec: the argument-writing helpers of \<open>RedisBatchCommand\<close>
  (\<open>WriteArg\<close>, \<open>WriteStringArg\<close>, \<open>WriteIntArg\<close>), which the factories call and which
  are declared outside the available sources. A string argument is written as its bytes
  and an integer argument as the bytes of its base-10 text; each write appends one
  argument. \<open>FormatInt\<close> is the base-10 text.
\<close>

function FormatUint :: "nat \<Rightarrow> string" where
  "FormatUint n =
     (if n < 10 then [''0123456789'' ! n]
      else FormatUint (n div 10) @ [''0123456789'' ! (n mod 10)])"
  by pat_completeness auto
termination
  by (relation "measure id") auto

declare FormatUint.simps [simp del]

definition FormatInt :: "int \<Rightarrow> string" where
  "FormatInt i = (if i < 0 then CHR ''-'' # FormatUint (nat (- i)) else FormatUint (nat i))"

definition WriteArg :: "string \<Rightarrow> RedisBatchCommand \<Rightarrow> RedisBatchCommand" where
  "WriteArg arg command =
     command\<lparr>Args := Some ((case Args command of None \<Rightarrow> [] | Some args \<Rightarrow> args) @ [arg])\<rparr>"

definition WriteStringArg :: "string \<Rightarrow> RedisBatchCommand \<Rightarrow> RedisBatchCommand" where
  "WriteStringArg arg command = WriteArg arg command"

definition WriteIntArg :: "int \<Rightarrow> RedisBatchCommand \<Rightarrow> RedisBatchCommand" where
  "WriteIntArg arg command = WriteArg (FormatInt arg) command"

text \<open>
  The factory itself. It starts from the keyword, an empty argument slice and a nil
  reply (the factories name the three fields in lower case), writes the key and then the
  seconds.
\<close>

definition cmd_expire :: string where
  "cmd_expire = ''EXPIRE''"

definition MakeRedisBatchCommandExpireIn :: "string \<Rightarrow> int \<Rightarrow> RedisBatchCommand" where
  "MakeRedisBatchCommandExpireIn key expire_in =
     (let output = \<lparr>Cmd = cmd_expire, Args = Some [], Reply = None\<rparr>;
          output1 = WriteStringArg key output
      in WriteIntArg (int64_of_float64 (Duration_Seconds expire_in)) output1)"

section \<open>What the raw client delivers\<close>


fun raw_replies :: "('c, 'w) radix \<Rightarrow> nat \<Rightarrow> 'c \<Rightarrow> 'w \<Rightarrow> Reply list" where
  "raw_replies L 0 c w = []"
| "raw_replies L (Suc k) c w =
     (case client_GetReply L c w of (r, c1, w1) \<Rightarrow> r # raw_replies L k c1 w1)"

fun after_replies :: "('c, 'w) radix \<Rightarrow> nat \<Rightarrow> 'c \<Rightarrow> 'w \<Rightarrow> 'c \<times> 'w" where
  "after_replies L 0 c w = (c, w)"
| "after_replies L (Suc k) c w =
     (case client_GetReply L c w of (r, c1, w1) \<Rightarrow> after_replies L k c1 w1)"



text \<open>
  A reply is fatal when it is an error reply whose error is not one of the four ignored
  ones; it is passed on without closing when it is no error reply, or an error reply with
  one of the four.
\<close>

definition fatal_reply :: "('c, 'w) radix \<Rightarrow> Reply \<Rightarrow> bool" where
  "fatal_reply L r =
     (Type r = ErrorReply \<and> (case Err r of None \<Rightarrow> False | Some e \<Rightarrow> \<not> is_ignored_error L e))"

definition harmless_reply :: "('c, 'w) radix \<Rightarrow> Reply \<Rightarrow> bool" where
  "harmless_reply L r =
     (if Type r = ErrorReply then (case Err r of None \<Rightarrow> False | Some e \<Rightarrow> is_ignored_error L e)
      else True)"

text \<open>The store after the first replies of \<open>rs\<close> were stored in the first commands of a batch.\<close>

fun store_replies :: "store \<Rightarrow> nat list \<Rightarrow> Reply list \<Rightarrow> store" where
  "store_replies h (a # as) (r # rs) =
     store_replies (h(a := map_option (\<lambda>command. command\<lparr>Reply := Some r\<rparr>) (h a))) as rs"
| "store_replies h as rs = h"

section \<open>A pipelined key-value backend\<close>

text \<open>
  An instance of the parameters on which the model runs: a client handle is the queue of
  requests not yet answered, the world is the server's table of keys and values, and
  \<open>GetReply\<close> answers the oldest request. Endpoints outside \<open>reach\<close> refuse the
  connection.
\<close>

definition kv_error :: "string \<Rightarrow> Reply" where
  "kv_error msg = MkReply ErrorReply [] (Some (errorString msg)) [] 0"

definition kv_serve ::
  "string \<times> string list \<Rightarrow> (string \<times> string) list \<Rightarrow> Reply \<times> (string \<times> string) list" where
  "kv_serve q w =
     (case q of (cmd, args) \<Rightarrow>
        if cmd = ''ping'' then (MkReply StatusReply [] None ''PONG'' 0, w)
        else if cmd = ''SET'' then
          (case args of
             [k, v] \<Rightarrow> (MkReply StatusReply [] None ''OK'' 0, (k, v) # w)
           | _ \<Rightarrow> (kv_error ''ERR wrong number of arguments'', w))
        else if cmd = ''GET'' then
          (case args of
             [k] \<Rightarrow>
               (case map_of w k of
                  None \<Rightarrow> (MkReply NilReply [] None [] 0, w)
                | Some v \<Rightarrow> (MkReply BulkReply [] None v 0, w))
           | _ \<Rightarrow> (kv_error ''ERR wrong number of arguments'', w))
        else (kv_error ''ERR unknown command'', w))"

definition kv_radix ::
  "string list \<Rightarrow> ((string \<times> string list) list, (string \<times> string) list) radix" where
  "kv_radix reach =
     \<lparr>AuthError = errorString ''authentication failed'',
      LoadingError = errorString ''server is busy loading dataset in memory'',
      ParseError = errorString ''parse error'',
      PipelineQueueEmptyError = errorString ''pipeline queue empty'',
      ErrConnectionIsClosed = errorString ''connection is closed'',
      DialTimeout = (\<lambda>network addr timeout w.
        if addr \<in> set reach then (Inr [], w)
        else (Inl (errorString ''connection refused''), w)),
      client_Close = (\<lambda>c w. (None, w)),
      client_Append = (\<lambda>c cmd args w. (c @ [(cmd, args)], w)),
      client_GetReply = (\<lambda>c w.
        case c of
          [] \<Rightarrow> (kv_error ''pipeline queue empty'', [], w)
        | q # qs \<Rightarrow> (case kv_serve q w of (r, w1) \<Rightarrow> (r, qs, w1)))\<rparr>"

text \<open>
  A wide-column backend in the same style: one table \<open>''t''\<close> with one cell per row.
  \<open>AtomicIncrement\<close>, \<open>Compact\<close>, \<open>Get\<close> and \<open>IsTableEnabled\<close> fail on any other
  table; the other operations succeed with an empty result.
\<close>

definition kv_hbase :: "string list \<Rightarrow> (unit, (string \<times> string) list) hbase" where
  "kv_hbase reach =
     \<lparr>HbaseClient_new = (),
      hbase_Open = (\<lambda>h url timeout w.
        if url \<in> set reach then (None, h, w) else (Some (errorString ''connection refused''), h, w)),
      hbase_Close = (\<lambda>h w. (None, w)),
      hbase_AtomicIncrement = (\<lambda>h TableName Row Column Value' w. 
        if TableName = ''t'' then ((Value', None), h, w)
        else ((0, Some (errorString ''IOError'')), h, w)),
      hbase_Compact = (\<lambda>h TableNameOrRegionName w. 
        if TableNameOrRegionName = ''t'' then (None, h, w) else (Some (errorString ''IOError''), h, w)),
      hbase_CreateTable = (\<lambda>h TableName ColumnFamilies w. 
        (None, h, w)),
      hbase_DeleteAll = (\<lambda>h TableName Row Column Attributes w. 
        (None, h, w)),
      hbase_DeleteAllRow = (\<lambda>h TableName Row Attributes w. 
        (None, h, w)),
      hbase_DeleteAllRowTs = (\<lambda>h TableName Row Timestamp' Attributes w. 
        (None, h, w)),
      hbase_DeleteAllTs = (\<lambda>h TableName Row Column Timestamp' Attributes w. 
        (None, h, w)),
      hbase_DeleteTable = (\<lambda>h TableName w. 
        (None, h, w)),
      hbase_DisableTable = (\<lambda>h TableName w. 
        (None, h, w)),
      hbase_EnableTable = (\<lambda>h TableName w. 
        (None, h, w)),
      hbase_Get = (\<lambda>h TableName Row Column Attributes w. 
        if TableName = ''t''
        then ((Some (case map_of w Row of None \<Rightarrow> [] | Some v \<Rightarrow> [\<lparr>Value = v, Timestamp = 0\<rparr>]), None), h, w)
        else ((None, Some (errorString ''IOError'')), h, w)),
      hbase_GetColumnDescriptors = (\<lambda>h TableName w. 
        ((None, None), h, w)),
      hbase_GetRegionInfo = (\<lambda>h Row w. 
        ((None, None), h, w)),
      hbase_GetRow = (\<lambda>h TableName Row Attributes w. 
        ((None, None), h, w)),
      hbase_GetRowOrBefore = (\<lambda>h TableName Row Family w. 
        ((None, None), h, w)),
      hbase_GetRowTs = (\<lambda>h TableName Row Timestamp' Attributes w. 
        ((None, None), h, w)),
      hbase_GetRowWithColumns = (\<lambda>h TableName Row Columns Attributes w. 
        ((None, None), h, w)),
      hbase_GetRowWithColumnsTs = (\<lambda>h TableName Row Columns Timestamp' Attributes w. 
        ((None, None), h, w)),
      hbase_GetRows = (\<lambda>h TableName Rows Attributes w. 
        ((None, None), h, w)),
      hbase_GetRowsTs = (\<lambda>h TableName Rows Timestamp' Attributes w. 
        ((None, None), h, w)),
      hbase_GetRowsWithColumns = (\<lambda>h TableName Rows Columns Attributes w. 
        ((None, None), h, w)),
      hbase_GetRowsWithColumnsTs = (\<lambda>h TableName Rows Columns Timestamp' Attributes w. 
        ((None, None), h, w)),
      hbase_GetTableNames = (\<lambda>h w. 
        ((None, None), h, w)),
      hbase_GetTableRegions = (\<lambda>h TableName w. 
        ((None, None), h, w)),
      hbase_GetVer = (\<lambda>h TableName Row Column NumVersions Attributes w. 
        ((None, None), h, w)),
      hbase_GetVerTs = (\<lambda>h TableName Row Column Timestamp' NumVersions Attributes w. 
        ((None, None), h, w)),
      hbase_Increment = (\<lambda>h Increment w. 
        (None, h, w)),
      hbase_IncrementRows = (\<lambda>h Increments w. 
        (None, h, w)),
      hbase_IsTableEnabled = (\<lambda>h TableName w. 
        if TableName = ''t'' then ((True, None), h, w)
        else ((False, Some (errorString ''IOError'')), h, w)),
      hbase_MajorCompact = (\<lambda>h TableNameOrRegionName w. 
        (None, h, w)),
      hbase_MutateRow = (\<lambda>h TableName Row Mutations Attributes w. 
        (None, h, w)),
      hbase_MutateRowTs = (\<lambda>h TableName Row Mutations Timestamp' Attributes w. 
        (None, h, w)),
      hbase_MutateRows = (\<lambda>h TableName RowBatches Attributes w. 
        (None, h, w)),
      hbase_MutateRowsTs = (\<lambda>h TableName RowBatches Timestamp' Attributes w. 
        (None, h, w)),
      hbase_ScannerClose = (\<lambda>h Id' w. 
        (None, h, w)),
      hbase_ScannerGet = (\<lambda>h Id' w. 
        ((None, None), h, w)),
      hbase_ScannerGetList = (\<lambda>h Id' NbRows w. 
        ((None, None), h, w)),
      hbase_ScannerOpen = (\<lambda>h TableName StartRow Columns Attributes w. 
        ((0, None), h, w)),
      hbase_ScannerOpenTs = (\<lambda>h TableName StartRow Columns Timestamp' Attributes w. 
        ((0, None), h, w)),
      hbase_ScannerOpenWithPrefix = (\<lambda>h TableName StartAndPrefix Columns Attributes w. 
        ((0, None), h, w)),
      hbase_ScannerOpenWithScan = (\<lambda>h TableName Scan Attributes w. 
        ((0, None), h, w)),
      hbase_ScannerOpenWithStop = (\<lambda>h TableName StartRow StopRow Columns Attributes w. 
        ((0, None), h, w)),
      hbase_ScannerOpenWithStopTs = (\<lambda>h TableName StartRow StopRow Columns Timestamp' Attributes w. 
        ((0, None), h, w))\<rparr>"

text \<open>Connections and batches for running the model.\<close>

definition open_conn :: "(string \<times> string list) list \<Rightarrow> (string \<times> string list) list RedisConnection" where
  "open_conn q = \<lparr>Url = ''localhost:6379'', Id = ''a'', Timeout = 10 * Second, client = Some q\<rparr>"


text \<open>A printing of commands for \<open>fmt\<close>, and two batches.\<close>

definition show_cmd :: "store \<Rightarrow> nat \<Rightarrow> string" where
  "show_cmd h a = (case h a of None \<Rightarrow> ''<nil>'' | Some command \<Rightarrow> Cmd command)"


definition bogus_batch :: store where
  "bogus_batch =
     [0 \<mapsto> \<lparr>Cmd = ''GET'', Args = Some [''k''], Reply = None\<rparr>,
      1 \<mapsto> \<lparr>Cmd = ''BOGUS'', Args = None, Reply = None\<rparr>,
      2 \<mapsto> \<lparr>Cmd = ''GET'', Args = Some [''k''], Reply = None\<rparr>]"

definition hbase_conn :: "unit ThriftConnection" where
  "hbase_conn = makeLazyThriftConnection ''hbase:9090'' ''a'' 0"

section \<open>Lifecycle of a connection\<close>

lemma Redis_Open_client:
  "Redis_Open L p n = (None, p1, n1) \<Longrightarrow> client p1 \<noteq> None"
  by (auto simp: Redis_Open_def Let_def split: prod.splits sum.splits)

lemma Thrift_Open_client:
  "Thrift_Open T p n = (None, p1, n1) \<Longrightarrow> ThriftConnection.client p1 \<noteq> None"
  by (auto simp: Thrift_Open_def Let_def split: prod.splits option.splits)

lemma Thrift_SafeOpen_client:
  "Thrift_SafeOpen T p n = (None, p1, n1) \<Longrightarrow> ThriftConnection.client p1 \<noteq> None"
  by (auto simp: Thrift_SafeOpen_def Thrift_IsOpen_def dest: Thrift_Open_client split: if_splits)

lemma is_ignored_error_iff:
  "is_ignored_error L e \<longleftrightarrow> e \<in> {AuthError L, LoadingError L, ParseError L, PipelineQueueEmptyError L}"
  by (auto simp: is_ignored_error_def error.expand)

text \<open>
  C8. For both connection variants and every connection value, \<open>IsClosed\<close> is the
  negation of \<open>IsOpen\<close>.
\<close>

theorem IsOpen_IsClosed_complement:
  "Redis_IsClosed p = (\<not> Redis_IsOpen p) \<and> Thrift_IsClosed q = (\<not> Thrift_IsOpen q)"
  by (simp add: Redis_IsClosed_def Redis_IsOpen_def Thrift_IsClosed_def Thrift_IsOpen_def)

text \<open>
  C10. For both variants and every starting state, the connection is closed after
  \<open>Close\<close>: the client handle is dropped whatever the raw client's close returns, and
  \<open>Close\<close> returns that result (no error when there was no handle).
\<close>

theorem Close_leaves_closed:
  "Redis_IsClosed (fst (snd (Redis_Close L p n))) \<and>
   fst (Redis_Close L p n) = (case client p of None \<Rightarrow> None | Some c \<Rightarrow> fst (client_Close L c (world n))) \<and>
   Thrift_IsClosed (fst (snd (Thrift_Close T q m))) \<and>
   fst (Thrift_Close T q m) =
     (case ThriftConnection.client q of None \<Rightarrow> None | Some h \<Rightarrow> fst (hbase_Close T h (world m)))"
  by (simp add: Redis_Close_def Redis_IsClosed_def Thrift_Close_def Thrift_IsClosed_def
      split: option.splits prod.splits)

text \<open>
  An instance: the raw client's close fails with \<open>EOF\<close>; \<open>Close\<close> returns that error
  and the connection is closed all the same.
\<close>

lemma Close_keeps_closed_on_error:
  "Redis_Close ((kv_radix [])\<lparr>client_Close := \<lambda>c w. (Some (errorString ''EOF''), w)\<rparr>)
     (open_conn []) \<lparr>world = [], trace = []\<rparr> =
   (Some (errorString ''EOF''), (open_conn [])\<lparr>client := None\<rparr>, \<lparr>world = [], trace = [RClose]\<rparr>)"
  by (simp add: Redis_Close_def open_conn_def kv_radix_def)

section \<open>Appending and reading replies\<close>

text \<open>
  C6. \<open>GetReply\<close> on a closed connection returns the error reply made of
  \<open>ErrConnectionIsClosed\<close>; the connection, the outside world and the trace of calls to
  the raw client are as before.
\<close>

theorem GetReply_on_closed:
  "Redis_IsClosed p \<Longrightarrow>
   Redis_GetReply L p n = Inr (MkReply ErrorReply [] (Some (ErrConnectionIsClosed L)) [] 0, p, n)"
  by (simp add: Redis_GetReply_def Redis_IsClosed_def)

theorem GetReply_on_closed_witness:
  "Redis_IsClosed (makeLazyRedisConnection ''localhost:6379'' ''a'' 0) \<and>
   Redis_GetReply (kv_radix []) (makeLazyRedisConnection ''localhost:6379'' ''a'' 0) \<lparr>world = [], trace = []\<rparr>
     = Inr (MkReply ErrorReply [] (Some (errorString ''connection is closed'')) [] 0,
            makeLazyRedisConnection ''localhost:6379'' ''a'' 0, \<lparr>world = [], trace = []\<rparr>)"
proof -
  have c: "Redis_IsClosed (makeLazyRedisConnection ''localhost:6379'' ''a'' 0)"
    by (simp add: Redis_IsClosed_def makeLazyRedisConnection_def)
  show ?thesis
    using c GetReply_on_closed [OF c, of "kv_radix []" "\<lparr>world = [], trace = []\<rparr>"]
    by (simp add: kv_radix_def)
qed

text \<open>
  C2. When the raw client hands \<open>GetReply\<close> an error reply: if its error is one of
  \<open>AuthError\<close>, \<open>LoadingError\<close>, \<open>ParseError\<close> and \<open>PipelineQueueEmptyError\<close>, the
  reply is returned as it is and the connection stays open; for any other error the reply
  is returned as it is and the connection has been closed (the raw client's close was
  called and the handle dropped).
\<close>

theorem GetReply_error_reply:
  assumes "client p = Some c"
    and "client_GetReply L c (world n) = (reply, c1, w1)"
    and "Type reply = ErrorReply"
    and "Err reply = Some e"
  shows "(e \<in> {AuthError L, LoadingError L, ParseError L, PipelineQueueEmptyError L} \<longrightarrow>
            Redis_GetReply L p n =
              Inr (reply, p\<lparr>client := Some c1\<rparr>, \<lparr>world = w1, trace = trace n @ [RGetReply reply]\<rparr>) \<and>
            Redis_IsOpen (p\<lparr>client := Some c1\<rparr>)) \<and>
         (e \<notin> {AuthError L, LoadingError L, ParseError L, PipelineQueueEmptyError L} \<longrightarrow>
            Redis_GetReply L p n =
              Inr (reply, p\<lparr>client := None\<rparr>,
                   \<lparr>world = snd (client_Close L c1 w1), trace = trace n @ [RGetReply reply, RClose]\<rparr>) \<and>
            Redis_IsClosed (p\<lparr>client := None\<rparr>))"
  using assms
  by (auto simp: Redis_GetReply_def Let_def is_ignored_error_iff Redis_Close_def
      Redis_IsOpen_def Redis_IsClosed_def split: prod.splits)

theorem GetReply_error_reply_witness:
  "Redis_GetReply (kv_radix [''localhost:6379'']) (open_conn []) \<lparr>world = [], trace = []\<rparr> =
     Inr (kv_error ''pipeline queue empty'', open_conn [],
          \<lparr>world = [], trace = [RGetReply (kv_error ''pipeline queue empty'')]\<rparr>) \<and>
   Redis_GetReply (kv_radix [''localhost:6379'']) (open_conn [(''BOGUS'', [])]) \<lparr>world = [], trace = []\<rparr> =
     Inr (kv_error ''ERR unknown command'', (open_conn [])\<lparr>client := None\<rparr>,
          \<lparr>world = [], trace = [RGetReply (kv_error ''ERR unknown command''), RClose]\<rparr>)"
proof -
  let ?L = "kv_radix [''localhost:6379'']"
  let ?n = "\<lparr>world = [], trace = []\<rparr> :: (string \<times> string) list net"
  have a: "client (open_conn []) = Some []"
    "client (open_conn [(''BOGUS'', [])]) = Some [(''BOGUS'', [])]"
    by (simp_all add: open_conn_def)
  have b: "client_GetReply ?L [] (world ?n) = (kv_error ''pipeline queue empty'', [], [])"
    by (simp add: kv_radix_def)
  have c: "client_GetReply ?L [(''BOGUS'', [])] (world ?n) = (kv_error ''ERR unknown command'', [], [])"
    by (simp add: kv_radix_def kv_serve_def)
  have t: "Type (kv_error ''pipeline queue empty'') = ErrorReply"
    "Type (kv_error ''ERR unknown command'') = ErrorReply"
    by (simp_all add: kv_error_def)
  have e: "Err (kv_error ''pipeline queue empty'') = Some (errorString ''pipeline queue empty'')"
    "Err (kv_error ''ERR unknown command'') = Some (errorString ''ERR unknown command'')"
    by (simp_all add: kv_error_def)
  show ?thesis
    using GetReply_error_reply [OF a(1) b t(1) e(1)] GetReply_error_reply [OF a(2) c t(2) e(2)]
    by (simp add: kv_radix_def open_conn_def)
qed

text \<open>
  C5. \<open>Append\<close> on a closed connection whose \<open>Open\<close> fails returns the state \<open>Open\<close>
  left: the connection is closed (only a zero timeout has been replaced by the default),
  the raw client was asked to dial and nothing else, so no request was appended, and the
  next \<open>GetReply\<close> returns the connection-closed error reply instead of a reply to the
  command. \<open>Append\<close> has no result through which an error could reach the caller.
\<close>

theorem Append_on_closed_open_fails:
  assumes "Redis_IsClosed p" and "Redis_Open L p n = (Some err, p1, n1)"
  shows "Redis_Append L cmd args p n = (p1, n1) \<and>
         Redis_IsClosed p1 \<and>
         p1 = p\<lparr>Timeout := (if Timeout p = 0 then 10 * Second else Timeout p)\<rparr> \<and>
         trace n1 = trace n @ [RDial ''tcp'' (Url p) (Timeout p1)] \<and>
         Redis_GetReply L p1 n1 =
           Inr (MkReply ErrorReply [] (Some (ErrConnectionIsClosed L)) [] 0, p1, n1)"
  using assms
  by (auto simp: Redis_Append_def Redis_IsOpen_def Redis_IsClosed_def Redis_Open_def Let_def
      Redis_GetReply_def split: prod.splits sum.splits if_splits)

theorem Append_on_closed_open_fails_witness:
  "Redis_Append (kv_radix []) ''GET'' [''k''] (makeLazyRedisConnection ''localhost:6379'' ''a'' 0)
     \<lparr>world = [], trace = []\<rparr> =
   (\<lparr>Url = ''localhost:6379'', Id = ''a'', Timeout = 10000000000, client = None\<rparr>,
    \<lparr>world = [], trace = [RDial ''tcp'' ''localhost:6379'' 10000000000]\<rparr>)"
proof -
  let ?p = "makeLazyRedisConnection ''localhost:6379'' ''a'' 0 :: (string \<times> string list) list RedisConnection"
  let ?n = "\<lparr>world = [], trace = []\<rparr> :: (string \<times> string) list net"
  have c: "Redis_IsClosed ?p"
    by (simp add: Redis_IsClosed_def makeLazyRedisConnection_def)
  have o: "Redis_Open (kv_radix []) ?p ?n =
      (Some (errorString ''connection refused''),
       \<lparr>Url = ''localhost:6379'', Id = ''a'', Timeout = 10000000000, client = None\<rparr>,
       \<lparr>world = [], trace = [RDial ''tcp'' ''localhost:6379'' 10000000000]\<rparr>)"
    by (simp add: Redis_Open_def makeLazyRedisConnection_def kv_radix_def Second_def)
  show ?thesis
    using Append_on_closed_open_fails [OF c o, of "''GET''" "[''k'']"] by simp
qed

section \<open>Batches\<close>



lemma BatchCommands_append_returns:
  "set commands \<subseteq> dom h \<Longrightarrow> \<exists>p1 n1. BatchCommands_append L h commands p n = Inr (p1, n1)"
proof (induction commands arbitrary: p n)
  case Nil
  then show ?case by simp
next
  case (Cons a as)
  from Cons.prems obtain command where ha: "h a = Some command" by auto
  obtain pa na where st: "(case Args command of
                   None \<Rightarrow> Redis_Append L (Cmd command) [] p n
                 | Some args \<Rightarrow> Redis_Append L (Cmd command) args p n) = (pa, na)"
    by (cases "(case Args command of
                   None \<Rightarrow> Redis_Append L (Cmd command) [] p n
                 | Some args \<Rightarrow> Redis_Append L (Cmd command) args p n)")
  from Cons.IH [of pa na] Cons.prems show ?case by (simp add: ha st)
qed

lemma Redis_GetReply_harmless:
  assumes "client p = Some c" and "client_GetReply L c (world n) = (r, c1, w1)"
    and "harmless_reply L r"
  shows "Redis_GetReply L p n =
           Inr (r, p\<lparr>client := Some c1\<rparr>, \<lparr>world = w1, trace = trace n @ [RGetReply r]\<rparr>)"
  using assms
  by (auto simp: Redis_GetReply_def harmless_reply_def Let_def split: option.splits if_splits)

lemma Redis_GetReply_fatal:
  assumes "client p = Some c" and "client_GetReply L c (world n) = (r, c1, w1)"
    and "fatal_reply L r"
  shows "Redis_GetReply L p n =
           Inr (r, p\<lparr>client := None\<rparr>,
                \<lparr>world = snd (client_Close L c1 w1), trace = trace n @ [RGetReply r, RClose]\<rparr>)"
  using assms
  by (auto simp: Redis_GetReply_def fatal_reply_def Let_def Redis_Close_def
      split: option.splits if_splits prod.splits)

lemma length_raw_replies: "length (raw_replies L k c w) = k"
  by (induction k arbitrary: c w) (auto split: prod.splits)

lemma store_replies_other:
  "a \<notin> set (take (length rs) as) \<Longrightarrow> store_replies h as rs a = h a"
  by (induction h as rs rule: store_replies.induct) auto

lemma store_replies_nth:
  "distinct as \<Longrightarrow> i < length as \<Longrightarrow> i < length rs \<Longrightarrow>
   store_replies h as rs (as ! i) = map_option (\<lambda>command. command\<lparr>Reply := Some (rs ! i)\<rparr>) (h (as ! i))"
proof (induction h as rs arbitrary: i rule: store_replies.induct)
  case (1 h b as r rs)
  let ?h1 = "h(b := map_option (\<lambda>command. command\<lparr>Reply := Some r\<rparr>) (h b))"
  show ?case
  proof (cases i)
    case 0
    have "b \<notin> set (take (length rs) as)" using "1.prems"(1) by (auto dest: in_set_takeD)
    then have "store_replies ?h1 as rs b = ?h1 b" by (rule store_replies_other)
    then show ?thesis using 0 by (simp del: fun_upd_apply add: fun_upd_same)
  next
    case (Suc j)
    have ne: "as ! j \<noteq> b" using "1.prems" Suc by auto
    have "store_replies ?h1 as rs (as ! j) =
            map_option (\<lambda>command. command\<lparr>Reply := Some (rs ! j)\<rparr>) (?h1 (as ! j))"
      using "1.IH" [of j] "1.prems" Suc by (simp del: fun_upd_apply)
    then show ?thesis using Suc ne by (simp del: fun_upd_apply add: fun_upd_other)
  qed
qed simp_all


lemma BatchCommands_replies_fatal:
  assumes "set commands \<subseteq> dom h" and "client p = Some c"
    and "M < length commands"
    and "\<forall>i<M. harmless_reply L (raw_replies L (Suc M) c (world n) ! i)"
    and "fatal_reply L (raw_replies L (Suc M) c (world n) ! M)"
    and "after_replies L (Suc M) c (world n) = (c2, w2)"
  shows "BatchCommands_replies L fmt commands h p n =
           Inr (Some (errorString (closed_while_getting_reply @
                        fmt (store_replies h (take (Suc M) commands) (raw_replies L (Suc M) c (world n)))
                            (commands ! M))),
                store_replies h (take (Suc M) commands) (raw_replies L (Suc M) c (world n)),
                p\<lparr>client := None\<rparr>,
                \<lparr>world = snd (client_Close L c2 w2),
                 trace = trace n @ map RGetReply (raw_replies L (Suc M) c (world n)) @ [RClose]\<rparr>)"
  using assms
proof (induction commands arbitrary: h p n c M)
  case Nil
  then show ?case by simp
next
  case (Cons a as)
  from Cons.prems(1) obtain command where ha: "h a = Some command" by auto
  obtain r ca wa where g: "client_GetReply L c (world n) = (r, ca, wa)"
    by (cases "client_GetReply L c (world n)")
  let ?h1 = "h(a \<mapsto> command\<lparr>Reply := Some r\<rparr>)"
  show ?case
  proof (cases M)
    case 0
    have fr: "fatal_reply L r" using Cons.prems(5) g 0 by simp
    have get: "Redis_GetReply L p n =
           Inr (r, p\<lparr>client := None\<rparr>,
                \<lparr>world = snd (client_Close L ca wa), trace = trace n @ [RGetReply r, RClose]\<rparr>)"
      by (rule Redis_GetReply_fatal [OF Cons.prems(2) g fr])
    have "c2 = ca" "w2 = wa" using Cons.prems(6) g 0 by simp_all
    then show ?thesis
      using 0 by (simp add: get ha g Redis_IsClosed_def Let_def del: fun_upd_apply)
  next
    case (Suc M')
    let ?p1 = "p\<lparr>client := Some ca\<rparr>"
    let ?n1 = "\<lparr>world = wa, trace = trace n @ [RGetReply r]\<rparr>"
    have hr: "harmless_reply L r" using Cons.prems(4) [rule_format, of 0] g Suc by simp
    have get: "Redis_GetReply L p n = Inr (r, ?p1, ?n1)"
      by (rule Redis_GetReply_harmless [OF Cons.prems(2) g hr])
    have rest: "BatchCommands_replies L fmt as ?h1 ?p1 ?n1 =
           Inr (Some (errorString (closed_while_getting_reply @
                        fmt (store_replies ?h1 (take (Suc M') as) (raw_replies L (Suc M') ca (world ?n1)))
                            (as ! M'))),
                store_replies ?h1 (take (Suc M') as) (raw_replies L (Suc M') ca (world ?n1)),
                ?p1\<lparr>client := None\<rparr>,
                \<lparr>world = snd (client_Close L c2 w2),
                 trace = trace ?n1 @ map RGetReply (raw_replies L (Suc M') ca (world ?n1)) @ [RClose]\<rparr>)"
    proof (rule Cons.IH)
      show "set as \<subseteq> dom ?h1" using Cons.prems(1) by auto
      show "client ?p1 = Some ca" by simp
      show "M' < length as" using Cons.prems(3) Suc by simp
      show "\<forall>i<M'. harmless_reply L (raw_replies L (Suc M') ca (world ?n1) ! i)"
      proof (intro allI impI)
        fix i assume "i < M'"
        then have "Suc i < M" using Suc by simp
        from Cons.prems(4) [rule_format, OF this] show
          "harmless_reply L (raw_replies L (Suc M') ca (world ?n1) ! i)"
          using g Suc by simp
      qed
      show "fatal_reply L (raw_replies L (Suc M') ca (world ?n1) ! M')"
        using Cons.prems(5) g Suc by simp
      show "after_replies L (Suc M') ca (world ?n1) = (c2, w2)"
        using Cons.prems(6) g Suc by simp
    qed
    show ?thesis
      using rest Suc by (simp add: get ha g Redis_IsClosed_def Let_def del: fun_upd_apply)
  qed
qed

text \<open>
  When the connection is already closed as the replies are read (every \<open>Open\<close> of the
  first loop failed), the first command gets the connection-closed error reply and the
  call stops there with the error for that command.
\<close>

lemma BatchCommands_replies_on_closed:
  assumes "h a = Some command" and "Redis_IsClosed p"
  shows "BatchCommands_replies L fmt (a # as) h p n =
           Inr (Some (errorString (closed_while_getting_reply @
                  fmt (h(a \<mapsto> command\<lparr>Reply := Some (MkReply ErrorReply [] (Some (ErrConnectionIsClosed L)) [] 0)\<rparr>)) a)),
                h(a \<mapsto> command\<lparr>Reply := Some (MkReply ErrorReply [] (Some (ErrConnectionIsClosed L)) [] 0)\<rparr>),
                p, n)"
  using assms
  by (simp add: Redis_GetReply_def Redis_IsClosed_def Let_def del: fun_upd_apply)



text \<open>
  C1. A batch of \<open>N\<close> commands (distinct, none nil) whose connection is open when the
  replies are read: if the replies before position \<open>M\<close> (counted from 0) are not fatal
  and the reply at position \<open>M\<close> is, \<open>BatchCommands\<close> returns an error whose text
  ends in the printed command of position \<open>M\<close>, and the connection is closed. The
  commands up to position \<open>M\<close> hold their replies (the one at \<open>M\<close> the fatal reply)
  and the commands after it are as they were before the call.
\<close>

theorem BatchCommands_closed_while_draining:
  fixes rs h'
  assumes "distinct commands" and "set commands \<subseteq> dom h"
    and "BatchCommands_append L h commands p n = Inr (p1, n1)"
    and "client p1 = Some c1"
    and "M < length commands"
    and "\<forall>i<M. harmless_reply L (raw_replies L (Suc M) c1 (world n1) ! i)"
    and "fatal_reply L (raw_replies L (Suc M) c1 (world n1) ! M)"
    and "after_replies L (Suc M) c1 (world n1) = (c2, w2)"
  defines "rs \<equiv> raw_replies L (Suc M) c1 (world n1)"
    and "h' \<equiv> store_replies h (take (Suc M) commands) rs"
  shows "BatchCommands L fmt commands h p n =
           Inr (Some (errorString (closed_while_getting_reply @ fmt h' (commands ! M))), h',
                p1\<lparr>client := None\<rparr>,
                \<lparr>world = snd (client_Close L c2 w2), trace = trace n1 @ map RGetReply rs @ [RClose]\<rparr>) \<and>
         Redis_IsClosed (p1\<lparr>client := None\<rparr>) \<and>
         (\<forall>i\<le>M. h' (commands ! i) =
            map_option (\<lambda>command. command\<lparr>Reply := Some (rs ! i)\<rparr>) (h (commands ! i))) \<and>
         (\<forall>i. M < i \<and> i < length commands \<longrightarrow> h' (commands ! i) = h (commands ! i))"
proof -
  have run: "BatchCommands L fmt commands h p n =
           Inr (Some (errorString (closed_while_getting_reply @ fmt h' (commands ! M))), h',
                p1\<lparr>client := None\<rparr>,
                \<lparr>world = snd (client_Close L c2 w2), trace = trace n1 @ map RGetReply rs @ [RClose]\<rparr>)"
    using BatchCommands_replies_fatal [OF assms(2,4,5,6,7,8), of fmt]
    by (simp add: BatchCommands_def assms(3) rs_def h'_def)
  have len: "length rs = Suc M" unfolding rs_def by (rule length_raw_replies)
  have dist: "distinct (take (Suc M) commands)" using assms(1) by simp
  have upto: "\<forall>i\<le>M. h' (commands ! i) =
            map_option (\<lambda>command. command\<lparr>Reply := Some (rs ! i)\<rparr>) (h (commands ! i))"
  proof (intro allI impI)
    fix i assume i: "i \<le> M"
    then have "i < length (take (Suc M) commands)" "i < length rs"
      using assms(5) len by simp_all
    from store_replies_nth [OF dist this, of h] i
    show "h' (commands ! i) =
            map_option (\<lambda>command. command\<lparr>Reply := Some (rs ! i)\<rparr>) (h (commands ! i))"
      by (simp add: h'_def)
  qed
  have beyond: "\<forall>i. M < i \<and> i < length commands \<longrightarrow> h' (commands ! i) = h (commands ! i)"
  proof (intro allI impI)
    fix i assume i: "M < i \<and> i < length commands"
    have "commands ! i \<notin> set (take (Suc M) commands)"
    proof
      assume "commands ! i \<in> set (take (Suc M) commands)"
      then obtain j where j: "j < length (take (Suc M) commands)" "take (Suc M) commands ! j = commands ! i"
        by (auto simp: in_set_conv_nth)
      then have "j \<le> M" "commands ! j = commands ! i" by simp_all
      with assms(1) i assms(5) show False
        by (simp add: nth_eq_iff_index_eq)
    qed
    then have "commands ! i \<notin> set (take (length rs) (take (Suc M) commands))"
      by (simp add: len)
    from store_replies_other [OF this, of h]
    show "h' (commands ! i) = h (commands ! i)" by (simp add: h'_def)
  qed
  show ?thesis using run upto beyond by (simp add: Redis_IsClosed_def)
qed


theorem BatchCommands_closed_while_draining_witness:
  "case BatchCommands (kv_radix [''localhost:6379'']) show_cmd [0, 1, 2] bogus_batch
          (makeLazyRedisConnection ''localhost:6379'' ''a'' 0) \<lparr>world = [(''k'', ''v'')], trace = []\<rparr> of
     Inl pn \<Rightarrow> False
   | Inr (err, h', p', n') \<Rightarrow>
       err = Some (errorString ''[BatchCommands] Connection closed while getting reply for cmd = BOGUS'') \<and>
       Redis_IsClosed p' \<and>
       h' 0 = Some \<lparr>Cmd = ''GET'', Args = Some [''k''],
                    Reply = Some (MkReply BulkReply [] None ''v'' 0)\<rparr> \<and>
       h' 1 = Some \<lparr>Cmd = ''BOGUS'', Args = None,
                    Reply = Some (kv_error ''ERR unknown command'')\<rparr> \<and>
       h' 2 = Some \<lparr>Cmd = ''GET'', Args = Some [''k''], Reply = None\<rparr>"
proof -
  let ?L = "kv_radix [''localhost:6379'']"
  let ?n = "\<lparr>world = [(''k'', ''v'')], trace = []\<rparr> :: (string \<times> string) list net"
  let ?q = "[(''GET'', [''k'']), (''BOGUS'', []), (''GET'', [''k''])]"
  let ?p1 = "\<lparr>Url = ''localhost:6379'', Id = ''a'', Timeout = 10000000000, client = Some ?q\<rparr>"
  let ?n1 = "\<lparr>world = [(''k'', ''v'')],
              trace = [RDial ''tcp'' ''localhost:6379'' 10000000000, RAppend ''GET'' [''k''],
                       RAppend ''BOGUS'' [], RAppend ''GET'' [''k'']]\<rparr>"
  let ?rs = "[MkReply BulkReply [] None ''v'' 0, kv_error ''ERR unknown command'']"
  have d: "distinct [0, 1, 2 :: nat]" by simp
  have s: "set [0, 1, 2] \<subseteq> dom bogus_batch" by (simp add: bogus_batch_def)
  have a: "BatchCommands_append ?L bogus_batch [0, 1, 2]
             (makeLazyRedisConnection ''localhost:6379'' ''a'' 0) ?n = Inr (?p1, ?n1)"
    by (simp add: bogus_batch_def makeLazyRedisConnection_def Redis_Append_def Redis_IsOpen_def
        Redis_Open_def kv_radix_def Second_def)
  have c: "client ?p1 = Some ?q" by simp
  have m: "Suc 0 < length [0, 1, 2 :: nat]" by simp
  have rs: "raw_replies ?L (Suc (Suc 0)) ?q (world ?n1) = ?rs"
    by (simp add: kv_radix_def kv_serve_def)
  have hl: "\<forall>i<Suc 0. harmless_reply ?L (raw_replies ?L (Suc (Suc 0)) ?q (world ?n1) ! i)"
    unfolding rs by (simp add: harmless_reply_def)
  have ft: "fatal_reply ?L (raw_replies ?L (Suc (Suc 0)) ?q (world ?n1) ! Suc 0)"
    unfolding rs by (simp add: fatal_reply_def kv_error_def is_ignored_error_def kv_radix_def)
  have af: "after_replies ?L (Suc (Suc 0)) ?q (world ?n1) = ([(''GET'', [''k''])], [(''k'', ''v'')])"
    by (simp add: kv_radix_def kv_serve_def)
  have st: "store_replies bogus_batch (take (Suc (Suc 0)) [0, 1, 2]) ?rs =
     [0 \<mapsto> \<lparr>Cmd = ''GET'', Args = Some [''k''], Reply = Some (MkReply BulkReply [] None ''v'' 0)\<rparr>,
      1 \<mapsto> \<lparr>Cmd = ''BOGUS'', Args = None, Reply = Some (kv_error ''ERR unknown command'')\<rparr>,
      2 \<mapsto> \<lparr>Cmd = ''GET'', Args = Some [''k''], Reply = None\<rparr>]"
    by (simp add: bogus_batch_def fun_upd_twist)
  show ?thesis
    using BatchCommands_closed_while_draining [OF d s a c m hl ft af, of show_cmd]
    unfolding rs st by (simp add: show_cmd_def closed_while_getting_reply_def Redis_IsClosed_def)
qed

section \<open>Forwarding and the aggressive factories\<close>

lemma Thrift_SafeOpen_fails:
  assumes "Thrift_SafeOpen T p n = (Some err, p1, n1)"
  shows "Thrift_IsClosed p \<and> Thrift_IsClosed p1 \<and>
         trace n1 = trace n @ [HOpen (ThriftConnection.Url p1) (ThriftConnection.Timeout p1)]"
  using assms
  by (auto simp: Thrift_SafeOpen_def Thrift_IsOpen_def Thrift_IsClosed_def Thrift_Open_def Let_def
      split: if_splits prod.splits option.splits)

lemma forwarded_aborts:
  "Thrift_SafeOpen T p n = (Some err, p1, n1) \<longrightarrow>
     forwarded T name abort error_of call p n = Inr (abort err, p1, n1) \<and>
     Thrift_IsClosed p1 \<and>
     trace n1 = trace n @ [HOpen (ThriftConnection.Url p1) (ThriftConnection.Timeout p1)]"
proof
  assume f: "Thrift_SafeOpen T p n = (Some err, p1, n1)"
  show "forwarded T name abort error_of call p n = Inr (abort err, p1, n1) \<and>
     Thrift_IsClosed p1 \<and>
     trace n1 = trace n @ [HOpen (ThriftConnection.Url p1) (ThriftConnection.Timeout p1)]"
    using Thrift_SafeOpen_fails [OF f] by (simp add: forwarded_def f)
qed

lemma forwarded_calls:
  "Thrift_SafeOpen T p n = (None, p1, n1) \<and> ThriftConnection.client p1 = Some h \<and>
   call h (world n1) = (result, h1, w1) \<longrightarrow>
     forwarded T name abort error_of call p n =
       (if error_of result \<noteq> None
        then Inr (result, p1\<lparr>ThriftConnection.client := None\<rparr>,
                  \<lparr>world = snd (hbase_Close T h1 w1), trace = trace n1 @ [HCall name, HClose]\<rparr>)
        else Inr (result, p1\<lparr>ThriftConnection.client := Some h1\<rparr>,
                  \<lparr>world = w1, trace = trace n1 @ [HCall name]\<rparr>))"
  by (auto simp: forwarded_def Thrift_Close_def Let_def split: prod.splits)

lemma forwarded_returns: "forwarded T name abort error_of call p n \<noteq> Inl pn"
proof (cases "Thrift_SafeOpen T p n")
  case (fields e p1 n1)
  show ?thesis
  proof (cases e)
    case None
    with fields have "ThriftConnection.client p1 \<noteq> None" by (auto dest: Thrift_SafeOpen_client)
    then show ?thesis using fields None
      by (auto simp: forwarded_def Let_def split: prod.splits if_splits)
  next
    case (Some err)
    then show ?thesis using fields by (simp add: forwarded_def)
  qed
qed

lemma Thrift_AtomicIncrement_forwarded:
  "Thrift_AtomicIncrement T TableName Row Column Value' p n =
     forwarded T ''AtomicIncrement'' (\<lambda>err. (0, Some err)) snd (\<lambda>h. hbase_AtomicIncrement T h TableName Row Column Value') p n"
  unfolding Thrift_AtomicIncrement_def forwarded_def
  by (simp split: prod.splits option.splits)

lemma Thrift_Compact_forwarded:
  "Thrift_Compact T TableNameOrRegionName p n =
     forwarded T ''Compact'' Some (\<lambda>err. err) (\<lambda>h. hbase_Compact T h TableNameOrRegionName) p n"
  unfolding Thrift_Compact_def forwarded_def
  by (simp split: prod.splits option.splits)

lemma Thrift_CreateTable_forwarded:
  "Thrift_CreateTable T TableName ColumnFamilies p n =
     forwarded T ''CreateTable'' Some (\<lambda>err. err) (\<lambda>h. hbase_CreateTable T h TableName ColumnFamilies) p n"
  unfolding Thrift_CreateTable_def forwarded_def
  by (simp split: prod.splits option.splits)

lemma Thrift_DeleteAll_forwarded:
  "Thrift_DeleteAll T TableName Row Column Attributes p n =
     forwarded T ''DeleteAll'' Some (\<lambda>err. err) (\<lambda>h. hbase_DeleteAll T h TableName Row Column Attributes) p n"
  unfolding Thrift_DeleteAll_def forwarded_def
  by (simp split: prod.splits option.splits)

lemma Thrift_DeleteAllRow_forwarded:
  "Thrift_DeleteAllRow T TableName Row Attributes p n =
     forwarded T ''DeleteAllRow'' Some (\<lambda>err. err) (\<lambda>h. hbase_DeleteAllRow T h TableName Row Attributes) p n"
  unfolding Thrift_DeleteAllRow_def forwarded_def
  by (simp split: prod.splits option.splits)

lemma Thrift_DeleteAllRowTs_forwarded:
  "Thrift_DeleteAllRowTs T TableName Row Timestamp' Attributes p n =
     forwarded T ''DeleteAllRowTs'' Some (\<lambda>err. err) (\<lambda>h. hbase_DeleteAllRowTs T h TableName Row Timestamp' Attributes) p n"
  unfolding Thrift_DeleteAllRowTs_def forwarded_def
  by (simp split: prod.splits option.splits)

lemma Thrift_DeleteAllTs_forwarded:
  "Thrift_DeleteAllTs T TableName Row Column Timestamp' Attributes p n =
     forwarded T ''DeleteAllTs'' Some (\<lambda>err. err) (\<lambda>h. hbase_DeleteAllTs T h TableName Row Column Timestamp' Attributes) p n"
  unfolding Thrift_DeleteAllTs_def forwarded_def
  by (simp split: prod.splits option.splits)

lemma Thrift_DeleteTable_forwarded:
  "Thrift_DeleteTable T TableName p n =
     forwarded T ''DeleteTable'' Some (\<lambda>err. err) (\<lambda>h. hbase_DeleteTable T h TableName) p n"
  unfolding Thrift_DeleteTable_def forwarded_def
  by (simp split: prod.splits option.splits)

lemma Thrift_DisableTable_forwarded:
  "Thrift_DisableTable T TableName p n =
     forwarded T ''DisableTable'' Some (\<lambda>err. err) (\<lambda>h. hbase_DisableTable T h TableName) p n"
  unfolding Thrift_DisableTable_def forwarded_def
  by (simp split: prod.splits option.splits)

lemma Thrift_EnableTable_forwarded:
  "Thrift_EnableTable T TableName p n =
     forwarded T ''EnableTable'' Some (\<lambda>err. err) (\<lambda>h. hbase_EnableTable T h TableName) p n"
  unfolding Thrift_EnableTable_def forwarded_def
  by (simp split: prod.splits option.splits)

lemma Thrift_Get_forwarded:
  "Thrift_Get T TableName Row Column Attributes p n =
     forwarded T ''Get'' (\<lambda>err. (None, Some err)) snd (\<lambda>h. hbase_Get T h TableName Row Column Attributes) p n"
  unfolding Thrift_Get_def forwarded_def
  by (simp split: prod.splits option.splits)

lemma Thrift_GetColumnDescriptors_forwarded:
  "Thrift_GetColumnDescriptors T TableName p n =
     forwarded T ''GetColumnDescriptors'' (\<lambda>err. (None, Some err)) snd (\<lambda>h. hbase_GetColumnDescriptors T h TableName) p n"
  unfolding Thrift_GetColumnDescriptors_def forwarded_def
  by (simp split: prod.splits option.splits)

lemma Thrift_GetRegionInfo_forwarded:
  "Thrift_GetRegionInfo T Row p n =
     forwarded T ''GetRegionInfo'' (\<lambda>err. (None, Some err)) snd (\<lambda>h. hbase_GetRegionInfo T h Row) p n"
  unfolding Thrift_GetRegionInfo_def forwarded_def
  by (simp split: prod.splits option.splits)

lemma Thrift_GetRow_forwarded:
  "Thrift_GetRow T TableName Row Attributes p n =
     forwarded T ''GetRow'' (\<lambda>err. (None, Some err)) snd (\<lambda>h. hbase_GetRow T h TableName Row Attributes) p n"
  unfolding Thrift_GetRow_def forwarded_def
  by (simp split: prod.splits option.splits)

lemma Thrift_GetRowOrBefore_forwarded:
  "Thrift_GetRowOrBefore T TableName Row Family p n =
     forwarded T ''GetRowOrBefore'' (\<lambda>err. (None, Some err)) snd (\<lambda>h. hbase_GetRowOrBefore T h TableName Row Family) p n"
  unfolding Thrift_GetRowOrBefore_def forwarded_def
  by (simp split: prod.splits option.splits)

lemma Thrift_GetRowTs_forwarded:
  "Thrift_GetRowTs T TableName Row Timestamp' Attributes p n =
     forwarded T ''GetRowTs'' (\<lambda>err. (None, Some err)) snd (\<lambda>h. hbase_GetRowTs T h TableName Row Timestamp' Attributes) p n"
  unfolding Thrift_GetRowTs_def forwarded_def
  by (simp split: prod.splits option.splits)

lemma Thrift_GetRowWithColumns_forwarded:
  "Thrift_GetRowWithColumns T TableName Row Columns Attributes p n =
     forwarded T ''GetRowWithColumns'' (\<lambda>err. (None, Some err)) snd (\<lambda>h. hbase_GetRowWithColumns T h TableName Row Columns Attributes) p n"
  unfolding Thrift_GetRowWithColumns_def forwarded_def
  by (simp split: prod.splits option.splits)

lemma Thrift_GetRowWithColumnsTs_forwarded:
  "Thrift_GetRowWithColumnsTs T TableName Row Columns Timestamp' Attributes p n =
     forwarded T ''GetRowWithColumnsTs'' (\<lambda>err. (None, Some err)) snd (\<lambda>h. hbase_GetRowWithColumnsTs T h TableName Row Columns Timestamp' Attributes) p n"
  unfolding Thrift_GetRowWithColumnsTs_def forwarded_def
  by (simp split: prod.splits option.splits)

lemma Thrift_GetRows_forwarded:
  "Thrift_GetRows T TableName Rows Attributes p n =
     forwarded T ''GetRows'' (\<lambda>err. (None, Some err)) snd (\<lambda>h. hbase_GetRows T h TableName Rows Attributes) p n"
  unfolding Thrift_GetRows_def forwarded_def
  by (simp split: prod.splits option.splits)

lemma Thrift_GetRowsTs_forwarded:
  "Thrift_GetRowsTs T TableName Rows Timestamp' Attributes p n =
     forwarded T ''GetRowsTs'' (\<lambda>err. (None, Some err)) snd (\<lambda>h. hbase_GetRowsTs T h TableName Rows Timestamp' Attributes) p n"
  unfolding Thrift_GetRowsTs_def forwarded_def
  by (simp split: prod.splits option.splits)

lemma Thrift_GetRowsWithColumns_forwarded:
  "Thrift_GetRowsWithColumns T TableName Rows Columns Attributes p n =
     forwarded T ''GetRowsWithColumns'' (\<lambda>err. (None, Some err)) snd (\<lambda>h. hbase_GetRowsWithColumns T h TableName Rows Columns Attributes) p n"
  unfolding Thrift_GetRowsWithColumns_def forwarded_def
  by (simp split: prod.splits option.splits)

lemma Thrift_GetRowsWithColumnsTs_forwarded:
  "Thrift_GetRowsWithColumnsTs T TableName Rows Columns Timestamp' Attributes p n =
     forwarded T ''GetRowsWithColumnsTs'' (\<lambda>err. (None, Some err)) snd (\<lambda>h. hbase_GetRowsWithColumnsTs T h TableName Rows Columns Timestamp' Attributes) p n"
  unfolding Thrift_GetRowsWithColumnsTs_def forwarded_def
  by (simp split: prod.splits option.splits)

lemma Thrift_GetTableNames_forwarded:
  "Thrift_GetTableNames T p n =
     forwarded T ''GetTableNames'' (\<lambda>err. (None, Some err)) snd (\<lambda>h. hbase_GetTableNames T h) p n"
  unfolding Thrift_GetTableNames_def forwarded_def
  by (simp split: prod.splits option.splits)

lemma Thrift_GetTableRegions_forwarded:
  "Thrift_GetTableRegions T TableName p n =
     forwarded T ''GetTableRegions'' (\<lambda>err. (None, Some err)) snd (\<lambda>h. hbase_GetTableRegions T h TableName) p n"
  unfolding Thrift_GetTableRegions_def forwarded_def
  by (simp split: prod.splits option.splits)

lemma Thrift_GetVer_forwarded:
  "Thrift_GetVer T TableName Row Column NumVersions Attributes p n =
     forwarded T ''GetVer'' (\<lambda>err. (None, Some err)) snd (\<lambda>h. hbase_GetVer T h TableName Row Column NumVersions Attributes) p n"
  unfolding Thrift_GetVer_def forwarded_def
  by (simp split: prod.splits option.splits)

lemma Thrift_GetVerTs_forwarded:
  "Thrift_GetVerTs T TableName Row Column Timestamp' NumVersions Attributes p n =
     forwarded T ''GetVerTs'' (\<lambda>err. (None, Some err)) snd (\<lambda>h. hbase_GetVerTs T h TableName Row Column Timestamp' NumVersions Attributes) p n"
  unfolding Thrift_GetVerTs_def forwarded_def
  by (simp split: prod.splits option.splits)

lemma Thrift_Increment_forwarded:
  "Thrift_Increment T Increment p n =
     forwarded T ''Increment'' Some (\<lambda>err. err) (\<lambda>h. hbase_Increment T h Increment) p n"
  unfolding Thrift_Increment_def forwarded_def
  by (simp split: prod.splits option.splits)

lemma Thrift_IncrementRows_forwarded:
  "Thrift_IncrementRows T Increments p n =
     forwarded T ''IncrementRows'' Some (\<lambda>err. err) (\<lambda>h. hbase_IncrementRows T h Increments) p n"
  unfolding Thrift_IncrementRows_def forwarded_def
  by (simp split: prod.splits option.splits)

lemma Thrift_IsTableEnabled_forwarded:
  "Thrift_IsTableEnabled T TableName p n =
     forwarded T ''IsTableEnabled'' (\<lambda>err. (False, Some err)) snd (\<lambda>h. hbase_IsTableEnabled T h TableName) p n"
  unfolding Thrift_IsTableEnabled_def forwarded_def
  by (simp split: prod.splits option.splits)

lemma Thrift_MajorCompact_forwarded:
  "Thrift_MajorCompact T TableNameOrRegionName p n =
     forwarded T ''MajorCompact'' Some (\<lambda>err. err) (\<lambda>h. hbase_MajorCompact T h TableNameOrRegionName) p n"
  unfolding Thrift_MajorCompact_def forwarded_def
  by (simp split: prod.splits option.splits)

lemma Thrift_MutateRow_forwarded:
  "Thrift_MutateRow T TableName Row Mutations Attributes p n =
     forwarded T ''MutateRow'' Some (\<lambda>err. err) (\<lambda>h. hbase_MutateRow T h TableName Row Mutations Attributes) p n"
  unfolding Thrift_MutateRow_def forwarded_def
  by (simp split: prod.splits option.splits)

lemma Thrift_MutateRowTs_forwarded:
  "Thrift_MutateRowTs T TableName Row Mutations Timestamp' Attributes p n =
     forwarded T ''MutateRowTs'' Some (\<lambda>err. err) (\<lambda>h. hbase_MutateRowTs T h TableName Row Mutations Timestamp' Attributes) p n"
  unfolding Thrift_MutateRowTs_def forwarded_def
  by (simp split: prod.splits option.splits)

lemma Thrift_MutateRows_forwarded:
  "Thrift_MutateRows T TableName RowBatches Attributes p n =
     forwarded T ''MutateRows'' Some (\<lambda>err. err) (\<lambda>h. hbase_MutateRows T h TableName RowBatches Attributes) p n"
  unfolding Thrift_MutateRows_def forwarded_def
  by (simp split: prod.splits option.splits)

lemma Thrift_MutateRowsTs_forwarded:
  "Thrift_MutateRowsTs T TableName RowBatches Timestamp' Attributes p n =
     forwarded T ''MutateRowsTs'' Some (\<lambda>err. err) (\<lambda>h. hbase_MutateRowsTs T h TableName RowBatches Timestamp' Attributes) p n"
  unfolding Thrift_MutateRowsTs_def forwarded_def
  by (simp split: prod.splits option.splits)

lemma Thrift_ScannerClose_forwarded:
  "Thrift_ScannerClose T Id' p n =
     forwarded T ''ScannerClose'' Some (\<lambda>err. err) (\<lambda>h. hbase_ScannerClose T h Id') p n"
  unfolding Thrift_ScannerClose_def forwarded_def
  by (simp split: prod.splits option.splits)

lemma Thrift_ScannerGet_forwarded:
  "Thrift_ScannerGet T Id' p n =
     forwarded T ''ScannerGet'' (\<lambda>err. (None, Some err)) snd (\<lambda>h. hbase_ScannerGet T h Id') p n"
  unfolding Thrift_ScannerGet_def forwarded_def
  by (simp split: prod.splits option.splits)

lemma Thrift_ScannerGetList_forwarded:
  "Thrift_ScannerGetList T Id' NbRows p n =
     forwarded T ''ScannerGetList'' (\<lambda>err. (None, Some err)) snd (\<lambda>h. hbase_ScannerGetList T h Id' NbRows) p n"
  unfolding Thrift_ScannerGetList_def forwarded_def
  by (simp split: prod.splits option.splits)

lemma Thrift_ScannerOpen_forwarded:
  "Thrift_ScannerOpen T TableName StartRow Columns Attributes p n =
     forwarded T ''ScannerOpen'' (\<lambda>err. (0, Some err)) snd (\<lambda>h. hbase_ScannerOpen T h TableName StartRow Columns Attributes) p n"
  unfolding Thrift_ScannerOpen_def forwarded_def
  by (simp split: prod.splits option.splits)

lemma Thrift_ScannerOpenTs_forwarded:
  "Thrift_ScannerOpenTs T TableName StartRow Columns Timestamp' Attributes p n =
     forwarded T ''ScannerOpenTs'' (\<lambda>err. (0, Some err)) snd (\<lambda>h. hbase_ScannerOpenTs T h TableName StartRow Columns Timestamp' Attributes) p n"
  unfolding Thrift_ScannerOpenTs_def forwarded_def
  by (simp split: prod.splits option.splits)

lemma Thrift_ScannerOpenWithPrefix_forwarded:
  "Thrift_ScannerOpenWithPrefix T TableName StartAndPrefix Columns Attributes p n =
     forwarded T ''ScannerOpenWithPrefix'' (\<lambda>err. (0, Some err)) snd (\<lambda>h. hbase_ScannerOpenWithPrefix T h TableName StartAndPrefix Columns Attributes) p n"
  unfolding Thrift_ScannerOpenWithPrefix_def forwarded_def
  by (simp split: prod.splits option.splits)

lemma Thrift_ScannerOpenWithScan_forwarded:
  "Thrift_ScannerOpenWithScan T TableName Scan Attributes p n =
     forwarded T ''ScannerOpenWithScan'' (\<lambda>err. (0, Some err)) snd (\<lambda>h. hbase_ScannerOpenWithScan T h TableName Scan Attributes) p n"
  unfolding Thrift_ScannerOpenWithScan_def forwarded_def
  by (simp split: prod.splits option.splits)

lemma Thrift_ScannerOpenWithStop_forwarded:
  "Thrift_ScannerOpenWithStop T TableName StartRow StopRow Columns Attributes p n =
     forwarded T ''ScannerOpenWithStop'' (\<lambda>err. (0, Some err)) snd (\<lambda>h. hbase_ScannerOpenWithStop T h TableName StartRow StopRow Columns Attributes) p n"
  unfolding Thrift_ScannerOpenWithStop_def forwarded_def
  by (simp split: prod.splits option.splits)

lemma Thrift_ScannerOpenWithStopTs_forwarded:
  "Thrift_ScannerOpenWithStopTs T TableName StartRow StopRow Columns Timestamp' Attributes p n =
     forwarded T ''ScannerOpenWithStopTs'' (\<lambda>err. (0, Some err)) snd (\<lambda>h. hbase_ScannerOpenWithStopTs T h TableName StartRow StopRow Columns Timestamp' Attributes) p n"
  unfolding Thrift_ScannerOpenWithStopTs_def forwarded_def
  by (simp split: prod.splits option.splits)

text \<open>
  C7. Every forwarded operation follows the one pattern. The pattern, \<open>forwarded\<close>:
  when \<open>SafeOpen\<close> fails, the call returns that error (in the operation's abort value)
  and the state \<open>SafeOpen\<close> left, in which the connection is closed and the only call
  made was the attempt to open, so the client's operation was not invoked; when
  \<open>SafeOpen\<close> succeeds, the client's operation is called once and what it returned is
  returned as it is, the connection having been closed before returning if the error is
  not nil and staying open otherwise; and the call never panics. Each of the 43
  operations of the connection is that pattern applied to the client's operation of the
  same name with the same arguments, aborting with the error and a zero result.
\<close>

theorem forwarded_operations:
  "(Thrift_SafeOpen T q m = (Some err, q1, m1) \<longrightarrow>
     forwarded T name abort error_of call q m = Inr (abort err, q1, m1) \<and>
     Thrift_IsClosed q1 \<and>
     trace m1 = trace m @ [HOpen (ThriftConnection.Url q1) (ThriftConnection.Timeout q1)]) \<and>
   (Thrift_SafeOpen T q m = (None, q1, m1) \<and> ThriftConnection.client q1 = Some h \<and>
    call h (world m1) = (result, h1, w1) \<longrightarrow>
     forwarded T name abort error_of call q m =
       (if error_of result \<noteq> None
        then Inr (result, q1\<lparr>ThriftConnection.client := None\<rparr>,
                  \<lparr>world = snd (hbase_Close T h1 w1), trace = trace m1 @ [HCall name, HClose]\<rparr>)
        else Inr (result, q1\<lparr>ThriftConnection.client := Some h1\<rparr>,
                  \<lparr>world = w1, trace = trace m1 @ [HCall name]\<rparr>))) \<and>
   forwarded T name abort error_of call q m \<noteq> Inl pn \<and>
   (Thrift_AtomicIncrement T TableName Row Column Value' p n =
     forwarded T ''AtomicIncrement'' (\<lambda>err. (0, Some err)) snd (\<lambda>h. hbase_AtomicIncrement T h TableName Row Column Value') p n) \<and>
   (Thrift_Compact T TableNameOrRegionName p n =
     forwarded T ''Compact'' Some (\<lambda>err. err) (\<lambda>h. hbase_Compact T h TableNameOrRegionName) p n) \<and>
   (Thrift_CreateTable T TableName ColumnFamilies p n =
     forwarded T ''CreateTable'' Some (\<lambda>err. err) (\<lambda>h. hbase_CreateTable T h TableName ColumnFamilies) p n) \<and>
   (Thrift_DeleteAll T TableName Row Column Attributes p n =
     forwarded T ''DeleteAll'' Some (\<lambda>err. err) (\<lambda>h. hbase_DeleteAll T h TableName Row Column Attributes) p n) \<and>
   (Thrift_DeleteAllRow T TableName Row Attributes p n =
     forwarded T ''DeleteAllRow'' Some (\<lambda>err. err) (\<lambda>h. hbase_DeleteAllRow T h TableName Row Attributes) p n) \<and>
   (Thrift_DeleteAllRowTs T TableName Row Timestamp' Attributes p n =
     forwarded T ''DeleteAllRowTs'' Some (\<lambda>err. err) (\<lambda>h. hbase_DeleteAllRowTs T h TableName Row Timestamp' Attributes) p n) \<and>
   (Thrift_DeleteAllTs T TableName Row Column Timestamp' Attributes p n =
     forwarded T ''DeleteAllTs'' Some (\<lambda>err. err) (\<lambda>h. hbase_DeleteAllTs T h TableName Row Column Timestamp' Attributes) p n) \<and>
   (Thrift_DeleteTable T TableName p n =
     forwarded T ''DeleteTable'' Some (\<lambda>err. err) (\<lambda>h. hbase_DeleteTable T h TableName) p n) \<and>
   (Thrift_DisableTable T TableName p n =
     forwarded T ''DisableTable'' Some (\<lambda>err. err) (\<lambda>h. hbase_DisableTable T h TableName) p n) \<and>
   (Thrift_EnableTable T TableName p n =
     forwarded T ''EnableTable'' Some (\<lambda>err. err) (\<lambda>h. hbase_EnableTable T h TableName) p n) \<and>
   (Thrift_Get T TableName Row Column Attributes p n =
     forwarded T ''Get'' (\<lambda>err. (None, Some err)) snd (\<lambda>h. hbase_Get T h TableName Row Column Attributes) p n) \<and>
   (Thrift_GetColumnDescriptors T TableName p n =
     forwarded T ''GetColumnDescriptors'' (\<lambda>err. (None, Some err)) snd (\<lambda>h. hbase_GetColumnDescriptors T h TableName) p n) \<and>
   (Thrift_GetRegionInfo T Row p n =
     forwarded T ''GetRegionInfo'' (\<lambda>err. (None, Some err)) snd (\<lambda>h. hbase_GetRegionInfo T h Row) p n) \<and>
   (Thrift_GetRow T TableName Row Attributes p n =
     forwarded T ''GetRow'' (\<lambda>err. (None, Some err)) snd (\<lambda>h. hbase_GetRow T h TableName Row Attributes) p n) \<and>
   (Thrift_GetRowOrBefore T TableName Row Family p n =
     forwarded T ''GetRowOrBefore'' (\<lambda>err. (None, Some err)) snd (\<lambda>h. hbase_GetRowOrBefore T h TableName Row Family) p n) \<and>
   (Thrift_GetRowTs T TableName Row Timestamp' Attributes p n =
     forwarded T ''GetRowTs'' (\<lambda>err. (None, Some err)) snd (\<lambda>h. hbase_GetRowTs T h TableName Row Timestamp' Attributes) p n) \<and>
   (Thrift_GetRowWithColumns T TableName Row Columns Attributes p n =
     forwarded T ''GetRowWithColumns'' (\<lambda>err. (None, Some err)) snd (\<lambda>h. hbase_GetRowWithColumns T h TableName Row Columns Attributes) p n) \<and>
   (Thrift_GetRowWithColumnsTs T TableName Row Columns Timestamp' Attributes p n =
     forwarded T ''GetRowWithColumnsTs'' (\<lambda>err. (None, Some err)) snd (\<lambda>h. hbase_GetRowWithColumnsTs T h TableName Row Columns Timestamp' Attributes) p n) \<and>
   (Thrift_GetRows T TableName Rows Attributes p n =
     forwarded T ''GetRows'' (\<lambda>err. (None, Some err)) snd (\<lambda>h. hbase_GetRows T h TableName Rows Attributes) p n) \<and>
   (Thrift_GetRowsTs T TableName Rows Timestamp' Attributes p n =
     forwarded T ''GetRowsTs'' (\<lambda>err. (None, Some err)) snd (\<lambda>h. hbase_GetRowsTs T h TableName Rows Timestamp' Attributes) p n) \<and>
   (Thrift_GetRowsWithColumns T TableName Rows Columns Attributes p n =
     forwarded T ''GetRowsWithColumns'' (\<lambda>err. (None, Some err)) snd (\<lambda>h. hbase_GetRowsWithColumns T h TableName Rows Columns Attributes) p n) \<and>
   (Thrift_GetRowsWithColumnsTs T TableName Rows Columns Timestamp' Attributes p n =
     forwarded T ''GetRowsWithColumnsTs'' (\<lambda>err. (None, Some err)) snd (\<lambda>h. hbase_GetRowsWithColumnsTs T h TableName Rows Columns Timestamp' Attributes) p n) \<and>
   (Thrift_GetTableNames T p n =
     forwarded T ''GetTableNames'' (\<lambda>err. (None, Some err)) snd (\<lambda>h. hbase_GetTableNames T h) p n) \<and>
   (Thrift_GetTableRegions T TableName p n =
     forwarded T ''GetTableRegions'' (\<lambda>err. (None, Some err)) snd (\<lambda>h. hbase_GetTableRegions T h TableName) p n) \<and>
   (Thrift_GetVer T TableName Row Column NumVersions Attributes p n =
     forwarded T ''GetVer'' (\<lambda>err. (None, Some err)) snd (\<lambda>h. hbase_GetVer T h TableName Row Column NumVersions Attributes) p n) \<and>
   (Thrift_GetVerTs T TableName Row Column Timestamp' NumVersions Attributes p n =
     forwarded T ''GetVerTs'' (\<lambda>err. (None, Some err)) snd (\<lambda>h. hbase_GetVerTs T h TableName Row Column Timestamp' NumVersions Attributes) p n) \<and>
   (Thrift_Increment T Increment p n =
     forwarded T ''Increment'' Some (\<lambda>err. err) (\<lambda>h. hbase_Increment T h Increment) p n) \<and>
   (Thrift_IncrementRows T Increments p n =
     forwarded T ''IncrementRows'' Some (\<lambda>err. err) (\<lambda>h. hbase_IncrementRows T h Increments) p n) \<and>
   (Thrift_IsTableEnabled T TableName p n =
     forwarded T ''IsTableEnabled'' (\<lambda>err. (False, Some err)) snd (\<lambda>h. hbase_IsTableEnabled T h TableName) p n) \<and>
   (Thrift_MajorCompact T TableNameOrRegionName p n =
     forwarded T ''MajorCompact'' Some (\<lambda>err. err) (\<lambda>h. hbase_MajorCompact T h TableNameOrRegionName) p n) \<and>
   (Thrift_MutateRow T TableName Row Mutations Attributes p n =
     forwarded T ''MutateRow'' Some (\<lambda>err. err) (\<lambda>h. hbase_MutateRow T h TableName Row Mutations Attributes) p n) \<and>
   (Thrift_MutateRowTs T TableName Row Mutations Timestamp' Attributes p n =
     forwarded T ''MutateRowTs'' Some (\<lambda>err. err) (\<lambda>h. hbase_MutateRowTs T h TableName Row Mutations Timestamp' Attributes) p n) \<and>
   (Thrift_MutateRows T TableName RowBatches Attributes p n =
     forwarded T ''MutateRows'' Some (\<lambda>err. err) (\<lambda>h. hbase_MutateRows T h TableName RowBatches Attributes) p n) \<and>
   (Thrift_MutateRowsTs T TableName RowBatches Timestamp' Attributes p n =
     forwarded T ''MutateRowsTs'' Some (\<lambda>err. err) (\<lambda>h. hbase_MutateRowsTs T h TableName RowBatches Timestamp' Attributes) p n) \<and>
   (Thrift_ScannerClose T Id' p n =
     forwarded T ''ScannerClose'' Some (\<lambda>err. err) (\<lambda>h. hbase_ScannerClose T h Id') p n) \<and>
   (Thrift_ScannerGet T Id' p n =
     forwarded T ''ScannerGet'' (\<lambda>err. (None, Some err)) snd (\<lambda>h. hbase_ScannerGet T h Id') p n) \<and>
   (Thrift_ScannerGetList T Id' NbRows p n =
     forwarded T ''ScannerGetList'' (\<lambda>err. (None, Some err)) snd (\<lambda>h. hbase_ScannerGetList T h Id' NbRows) p n) \<and>
   (Thrift_ScannerOpen T TableName StartRow Columns Attributes p n =
     forwarded T ''ScannerOpen'' (\<lambda>err. (0, Some err)) snd (\<lambda>h. hbase_ScannerOpen T h TableName StartRow Columns Attributes) p n) \<and>
   (Thrift_ScannerOpenTs T TableName StartRow Columns Timestamp' Attributes p n =
     forwarded T ''ScannerOpenTs'' (\<lambda>err. (0, Some err)) snd (\<lambda>h. hbase_ScannerOpenTs T h TableName StartRow Columns Timestamp' Attributes) p n) \<and>
   (Thrift_ScannerOpenWithPrefix T TableName StartAndPrefix Columns Attributes p n =
     forwarded T ''ScannerOpenWithPrefix'' (\<lambda>err. (0, Some err)) snd (\<lambda>h. hbase_ScannerOpenWithPrefix T h TableName StartAndPrefix Columns Attributes) p n) \<and>
   (Thrift_ScannerOpenWithScan T TableName Scan Attributes p n =
     forwarded T ''ScannerOpenWithScan'' (\<lambda>err. (0, Some err)) snd (\<lambda>h. hbase_ScannerOpenWithScan T h TableName Scan Attributes) p n) \<and>
   (Thrift_ScannerOpenWithStop T TableName StartRow StopRow Columns Attributes p n =
     forwarded T ''ScannerOpenWithStop'' (\<lambda>err. (0, Some err)) snd (\<lambda>h. hbase_ScannerOpenWithStop T h TableName StartRow StopRow Columns Attributes) p n) \<and>
   (Thrift_ScannerOpenWithStopTs T TableName StartRow StopRow Columns Timestamp' Attributes p n =
     forwarded T ''ScannerOpenWithStopTs'' (\<lambda>err. (0, Some err)) snd (\<lambda>h. hbase_ScannerOpenWithStopTs T h TableName StartRow StopRow Columns Timestamp' Attributes) p n)"
  apply (intro conjI)
  apply (rule forwarded_aborts)
  apply (rule forwarded_calls)
  apply (rule forwarded_returns)
  apply (rule Thrift_AtomicIncrement_forwarded)
  apply (rule Thrift_Compact_forwarded)
  apply (rule Thrift_CreateTable_forwarded)
  apply (rule Thrift_DeleteAll_forwarded)
  apply (rule Thrift_DeleteAllRow_forwarded)
  apply (rule Thrift_DeleteAllRowTs_forwarded)
  apply (rule Thrift_DeleteAllTs_forwarded)
  apply (rule Thrift_DeleteTable_forwarded)
  apply (rule Thrift_DisableTable_forwarded)
  apply (rule Thrift_EnableTable_forwarded)
  apply (rule Thrift_Get_forwarded)
  apply (rule Thrift_GetColumnDescriptors_forwarded)
  apply (rule Thrift_GetRegionInfo_forwarded)
  apply (rule Thrift_GetRow_forwarded)
  apply (rule Thrift_GetRowOrBefore_forwarded)
  apply (rule Thrift_GetRowTs_forwarded)
  apply (rule Thrift_GetRowWithColumns_forwarded)
  apply (rule Thrift_GetRowWithColumnsTs_forwarded)
  apply (rule Thrift_GetRows_forwarded)
  apply (rule Thrift_GetRowsTs_forwarded)
  apply (rule Thrift_GetRowsWithColumns_forwarded)
  apply (rule Thrift_GetRowsWithColumnsTs_forwarded)
  apply (rule Thrift_GetTableNames_forwarded)
  apply (rule Thrift_GetTableRegions_forwarded)
  apply (rule Thrift_GetVer_forwarded)
  apply (rule Thrift_GetVerTs_forwarded)
  apply (rule Thrift_Increment_forwarded)
  apply (rule Thrift_IncrementRows_forwarded)
  apply (rule Thrift_IsTableEnabled_forwarded)
  apply (rule Thrift_MajorCompact_forwarded)
  apply (rule Thrift_MutateRow_forwarded)
  apply (rule Thrift_MutateRowTs_forwarded)
  apply (rule Thrift_MutateRows_forwarded)
  apply (rule Thrift_MutateRowsTs_forwarded)
  apply (rule Thrift_ScannerClose_forwarded)
  apply (rule Thrift_ScannerGet_forwarded)
  apply (rule Thrift_ScannerGetList_forwarded)
  apply (rule Thrift_ScannerOpen_forwarded)
  apply (rule Thrift_ScannerOpenTs_forwarded)
  apply (rule Thrift_ScannerOpenWithPrefix_forwarded)
  apply (rule Thrift_ScannerOpenWithScan_forwarded)
  apply (rule Thrift_ScannerOpenWithStop_forwarded)
  apply (rule Thrift_ScannerOpenWithStopTs_forwarded)
  done

text \<open>
  The aggressive factory of the wide-column connection returns the lazily made, closed
  connection and no error, whatever the backend does: \<open>Ping\<close> returns nil without
  touching the network.
\<close>

lemma makeAgressiveThriftConnection_never_fails:
  "makeAgressiveThriftConnection T url ident timeout n =
     (Some (makeLazyThriftConnection url ident timeout), None, n) \<and>
   Thrift_IsClosed (makeLazyThriftConnection url ident timeout :: 'h ThriftConnection)"
  by (simp add: makeAgressiveThriftConnection_def Thrift_Ping_def Thrift_IsClosed_def
      makeLazyThriftConnection_def)

text \<open>
  The aggressive factory of the cache-protocol connection against an endpoint that refuses
  every dial returns no connection and an error: the error of the reply \<open>GetReply\<close>
  makes up on the closed connection.
\<close>

lemma makeAgressiveRedisConnection_unreachable:
  assumes "\<forall>w. \<exists>e w'. DialTimeout L ''tcp'' url (if timeout = 0 then 10 * Second else timeout) w = (Inl e, w')"
  shows "\<exists>n'. makeAgressiveRedisConnection L url ident timeout n =
           Inr (None, Some (ErrConnectionIsClosed L), n')"
proof -
  from assms obtain e w' where
    "DialTimeout L ''tcp'' url (if timeout = 0 then 10 * Second else timeout) (world n) = (Inl e, w')"
    by blast
  then show ?thesis
    by (auto simp: makeAgressiveRedisConnection_def Redis_Ping_def Redis_Cmd_def Redis_Append_def
        Redis_IsOpen_def Redis_Open_def Let_def makeLazyRedisConnection_def Redis_GetReply_def
        Redis_Close_def)
qed

theorem forwarded_operations_witness:
  "Thrift_Get (kv_hbase []) ''t'' ''r'' ''c'' Map.empty hbase_conn \<lparr>world = [(''r'', ''v'')], trace = []\<rparr> =
     Inr ((None, Some (errorString ''connection refused'')),
      \<lparr>ThriftConnection.Url = ''hbase:9090'', ThriftConnection.Id = ''a'',
        ThriftConnection.Timeout = 10000000000, ThriftConnection.client = None\<rparr>,
      \<lparr>world = [(''r'', ''v'')], trace = [HOpen ''hbase:9090'' 10000000000]\<rparr>) \<and>
   Thrift_Get (kv_hbase [''hbase:9090'']) ''x'' ''r'' ''c'' Map.empty hbase_conn \<lparr>world = [(''r'', ''v'')], trace = []\<rparr> =
     Inr ((None, Some (errorString ''IOError'')),
      \<lparr>ThriftConnection.Url = ''hbase:9090'', ThriftConnection.Id = ''a'',
        ThriftConnection.Timeout = 10000000000, ThriftConnection.client = None\<rparr>,
      \<lparr>world = [(''r'', ''v'')], trace = [HOpen ''hbase:9090'' 10000000000, HCall ''Get'', HClose]\<rparr>) \<and>
   Thrift_Get (kv_hbase [''hbase:9090'']) ''t'' ''r'' ''c'' Map.empty hbase_conn \<lparr>world = [(''r'', ''v'')], trace = []\<rparr> =
     Inr ((Some [\<lparr>Value = ''v'', Timestamp = 0\<rparr>], None),
      \<lparr>ThriftConnection.Url = ''hbase:9090'', ThriftConnection.Id = ''a'',
        ThriftConnection.Timeout = 10000000000, ThriftConnection.client = Some ()\<rparr>,
      \<lparr>world = [(''r'', ''v'')], trace = [HOpen ''hbase:9090'' 10000000000, HCall ''Get'']\<rparr>) \<and>
   Thrift_IsTableEnabled (kv_hbase []) ''t'' hbase_conn \<lparr>world = [(''r'', ''v'')], trace = []\<rparr> =
     Inr ((False, Some (errorString ''connection refused'')),
      \<lparr>ThriftConnection.Url = ''hbase:9090'', ThriftConnection.Id = ''a'',
        ThriftConnection.Timeout = 10000000000, ThriftConnection.client = None\<rparr>,
      \<lparr>world = [(''r'', ''v'')], trace = [HOpen ''hbase:9090'' 10000000000]\<rparr>) \<and>
   Thrift_Compact (kv_hbase [''hbase:9090'']) ''x'' hbase_conn \<lparr>world = [(''r'', ''v'')], trace = []\<rparr> =
     Inr (Some (errorString ''IOError''),
      \<lparr>ThriftConnection.Url = ''hbase:9090'', ThriftConnection.Id = ''a'',
        ThriftConnection.Timeout = 10000000000, ThriftConnection.client = None\<rparr>,
      \<lparr>world = [(''r'', ''v'')], trace = [HOpen ''hbase:9090'' 10000000000, HCall ''Compact'', HClose]\<rparr>)"
proof -
  let ?n = "\<lparr>world = [(''r'', ''v'')], trace = []\<rparr> :: (string \<times> string) list net"
  let ?n1 = "\<lparr>world = [(''r'', ''v'')], trace = [HOpen ''hbase:9090'' 10000000000]\<rparr>"
  let ?pc = "\<lparr>ThriftConnection.Url = ''hbase:9090'', ThriftConnection.Id = ''a'',
        ThriftConnection.Timeout = 10000000000, ThriftConnection.client = None :: unit option\<rparr>"
  let ?po = "\<lparr>ThriftConnection.Url = ''hbase:9090'', ThriftConnection.Id = ''a'',
        ThriftConnection.Timeout = 10000000000, ThriftConnection.client = Some ()\<rparr>"
  let ?T = "kv_hbase [''hbase:9090'']"
  let ?e = "errorString ''connection refused''"
  have f: "Thrift_SafeOpen (kv_hbase []) hbase_conn ?n = (Some ?e, ?pc, ?n1)"
    by (simp add: Thrift_SafeOpen_def Thrift_IsOpen_def Thrift_Open_def hbase_conn_def
        makeLazyThriftConnection_def kv_hbase_def Second_def)
  have s: "Thrift_SafeOpen ?T hbase_conn ?n = (None, ?po, ?n1)"
    by (simp add: Thrift_SafeOpen_def Thrift_IsOpen_def Thrift_Open_def hbase_conn_def
        makeLazyThriftConnection_def kv_hbase_def Second_def)
  have c: "ThriftConnection.client ?po = Some ()" by simp
  have gx: "hbase_Get ?T () ''x'' ''r'' ''c'' Map.empty (world ?n1) =
              ((None, Some (errorString ''IOError'')), (), [(''r'', ''v'')])"
    by (simp add: kv_hbase_def)
  have gt: "hbase_Get ?T () ''t'' ''r'' ''c'' Map.empty (world ?n1) =
              ((Some [\<lparr>Value = ''v'', Timestamp = 0\<rparr>], None), (), [(''r'', ''v'')])"
    by (simp add: kv_hbase_def)
  have cx: "hbase_Compact ?T () ''x'' (world ?n1) = (Some (errorString ''IOError''), (), [(''r'', ''v'')])"
    by (simp add: kv_hbase_def)
  have cl: "hbase_Close ?T () [(''r'', ''v'')] = (None, [(''r'', ''v'')])"
    by (simp add: kv_hbase_def)
  have A: "forwarded (kv_hbase []) ''Get'' (\<lambda>err. (None, Some err)) snd
             (\<lambda>h. hbase_Get (kv_hbase []) h ''t'' ''r'' ''c'' Map.empty) hbase_conn ?n =
           Inr ((None, Some ?e), ?pc, ?n1)"
    using forwarded_operations [where T = "kv_hbase []" and q = hbase_conn and m = ?n and err = ?e
        and ?q1.0 = ?pc and ?m1.0 = ?n1 and name = "''Get''" and abort = "\<lambda>err. (None, Some err)"
        and error_of = snd and call = "\<lambda>h. hbase_Get (kv_hbase []) h ''t'' ''r'' ''c'' Map.empty",
        THEN conjunct1, rule_format, OF f]
    by simp
  have B: "forwarded ?T ''Get'' (\<lambda>err. (None, Some err)) snd
             (\<lambda>h. hbase_Get ?T h ''x'' ''r'' ''c'' Map.empty) hbase_conn ?n =
           Inr ((None, Some (errorString ''IOError'')), ?pc,
                \<lparr>world = [(''r'', ''v'')], trace = [HOpen ''hbase:9090'' 10000000000, HCall ''Get'', HClose]\<rparr>)"
    using forwarded_operations [where T = ?T and q = hbase_conn and m = ?n
        and ?q1.0 = ?po and ?m1.0 = ?n1 and h = "()" and name = "''Get''"
        and abort = "\<lambda>err. (None, Some err)" and error_of = snd
        and call = "\<lambda>h. hbase_Get ?T h ''x'' ''r'' ''c'' Map.empty"
        and result = "(None, Some (errorString ''IOError''))" and ?h1.0 = "()" and ?w1.0 = "[(''r'', ''v'')]",
        THEN conjunct2, THEN conjunct1, rule_format, OF conjI [OF s conjI [OF c gx]]]
    by (simp add: cl)
  have C: "forwarded ?T ''Get'' (\<lambda>err. (None, Some err)) snd
             (\<lambda>h. hbase_Get ?T h ''t'' ''r'' ''c'' Map.empty) hbase_conn ?n =
           Inr ((Some [\<lparr>Value = ''v'', Timestamp = 0\<rparr>], None), ?po,
                \<lparr>world = [(''r'', ''v'')], trace = [HOpen ''hbase:9090'' 10000000000, HCall ''Get'']\<rparr>)"
    using forwarded_operations [where T = ?T and q = hbase_conn and m = ?n
        and ?q1.0 = ?po and ?m1.0 = ?n1 and h = "()" and name = "''Get''"
        and abort = "\<lambda>err. (None, Some err)" and error_of = snd
        and call = "\<lambda>h. hbase_Get ?T h ''t'' ''r'' ''c'' Map.empty"
        and result = "(Some [\<lparr>Value = ''v'', Timestamp = 0\<rparr>], None)" and ?h1.0 = "()"
        and ?w1.0 = "[(''r'', ''v'')]",
        THEN conjunct2, THEN conjunct1, rule_format, OF conjI [OF s conjI [OF c gt]]]
    by simp
  have D: "forwarded (kv_hbase []) ''IsTableEnabled'' (\<lambda>err. (False, Some err)) snd
             (\<lambda>h. hbase_IsTableEnabled (kv_hbase []) h ''t'') hbase_conn ?n =
           Inr ((False, Some ?e), ?pc, ?n1)"
    using forwarded_operations [where T = "kv_hbase []" and q = hbase_conn and m = ?n and err = ?e
        and ?q1.0 = ?pc and ?m1.0 = ?n1 and name = "''IsTableEnabled''"
        and abort = "\<lambda>err. (False, Some err)"
        and error_of = snd and call = "\<lambda>h. hbase_IsTableEnabled (kv_hbase []) h ''t''",
        THEN conjunct1, rule_format, OF f]
    by simp
  have E: "forwarded ?T ''Compact'' Some (\<lambda>err. err)
             (\<lambda>h. hbase_Compact ?T h ''x'') hbase_conn ?n =
           Inr (Some (errorString ''IOError''), ?pc,
                \<lparr>world = [(''r'', ''v'')], trace = [HOpen ''hbase:9090'' 10000000000, HCall ''Compact'', HClose]\<rparr>)"
    using forwarded_operations [where T = ?T and q = hbase_conn and m = ?n
        and ?q1.0 = ?po and ?m1.0 = ?n1 and h = "()" and name = "''Compact''"
        and abort = Some and error_of = "\<lambda>err. err"
        and call = "\<lambda>h. hbase_Compact ?T h ''x''"
        and result = "Some (errorString ''IOError'')" and ?h1.0 = "()" and ?w1.0 = "[(''r'', ''v'')]",
        THEN conjunct2, THEN conjunct1, rule_format, OF conjI [OF s conjI [OF c cx]]]
    by (simp add: cl)
  show ?thesis
    by (simp only: Thrift_Get_forwarded Thrift_IsTableEnabled_forwarded Thrift_Compact_forwarded
        A B C D E simp_thms)
qed

text \<open>
  C4. The claim is that an aggressive factory against an unreachable endpoint returns an
  error and no connection. For the wide-column connection it does not: against a backend
  on which \<open>Open\<close> fails, the factory returns a connection and no error.
\<close>

theorem makeAgressiveThriftConnection_unreachable:
  "fst (Thrift_Open (kv_hbase []) hbase_conn \<lparr>world = [], trace = []\<rparr>) =
     Some (errorString ''connection refused'') \<and>
   makeAgressiveThriftConnection (kv_hbase []) ''hbase:9090'' ''a'' 0 \<lparr>world = [], trace = []\<rparr> =
     (Some \<lparr>ThriftConnection.Url = ''hbase:9090'', ThriftConnection.Id = ''a'',
        ThriftConnection.Timeout = 0, ThriftConnection.client = None\<rparr>, None,
      \<lparr>world = [], trace = []\<rparr>)"
  by (simp add: makeAgressiveThriftConnection_def Thrift_Ping_def makeLazyThriftConnection_def
      Thrift_Open_def hbase_conn_def kv_hbase_def)

section \<open>Durations in whole seconds\<close>

lemma float64_exponent_bounds:
  assumes "x \<noteq> 0"
  shows "2 powi (float64_exponent x) \<le> \<bar>x\<bar> \<and> \<bar>x\<bar> < 2 powi (float64_exponent x + 1)"
proof (cases "1 \<le> \<bar>x\<bar>")
  case True
  define n where "n = \<lfloor>\<bar>x\<bar>\<rfloor>"
  have n: "0 < n" "rat_of_int n \<le> \<bar>x\<bar>" "\<bar>x\<bar> < rat_of_int n + 1"
    using True by (auto simp: n_def) linarith+
  have e: "float64_exponent x = bitlen n - 1" using True by (simp add: float64_exponent_def n_def)
  have b: "2 ^ nat (bitlen n - 1) \<le> n" "n < 2 ^ nat (bitlen n)"
    using bitlen_bounds [OF n(1)] by simp_all
  have pos: "1 \<le> bitlen n" using n(1) bitlen_eq_zero_iff [of n] bitlen_nonneg [of n] by linarith
  have lo: "(2::rat) powi (bitlen n - 1) = rat_of_int (2 ^ nat (bitlen n - 1))"
    using pos by (simp add: power_int_nonneg_exp)
  have hi: "(2::rat) powi (bitlen n - 1 + 1) = rat_of_int (2 ^ nat (bitlen n))"
    using pos by (simp add: power_int_nonneg_exp)
  have A: "(2::rat) ^ nat (bitlen n - 1) \<le> rat_of_int n"
    using b(1) of_int_le_iff [of "2 ^ nat (bitlen n - 1)" n, where ?'a = rat] by simp
  have "n + 1 \<le> 2 ^ nat (bitlen n)" using b(2) by simp
  then have B: "rat_of_int n + 1 \<le> (2::rat) ^ nat (bitlen n)"
    using of_int_le_iff [of "n + 1" "2 ^ nat (bitlen n)", where ?'a = rat] by simp
  have lo': "(2::rat) powi (bitlen n - 1) = 2 ^ nat (bitlen n - 1)"
    using pos by (simp add: power_int_nonneg_exp)
  have hi': "(2::rat) powi (bitlen n - 1 + 1) = 2 ^ nat (bitlen n)"
    using pos by (simp add: power_int_nonneg_exp)
  show ?thesis unfolding e lo' hi' using A B n(2,3) by linarith
next
  case False
  define c where "c = \<lceil>1 / \<bar>x\<bar>\<rceil>"
  define k where "k = bitlen (c - 1)"
  have xp: "0 < \<bar>x\<bar>" "\<bar>x\<bar> < 1" using assms False by simp_all
  then have y: "1 < 1 / \<bar>x\<bar>" by simp
  have c: "1 / \<bar>x\<bar> \<le> rat_of_int c" "rat_of_int c - 1 < 1 / \<bar>x\<bar>"
    unfolding c_def by linarith+
  have c1: "0 < c - 1" using y c(1) by linarith
  have e: "float64_exponent x = - k" using False by (simp add: float64_exponent_def c_def k_def)
  have b: "2 ^ nat (k - 1) \<le> c - 1" "c - 1 < 2 ^ nat k"
    using bitlen_bounds [OF c1] by (simp_all add: k_def)
  have pos: "1 \<le> k" using c1 bitlen_eq_zero_iff [of "c - 1"] bitlen_nonneg [of "c - 1"]
    unfolding k_def by linarith
  have "c \<le> 2 ^ nat k" using b(2) by simp
  then have "rat_of_int c \<le> (2::rat) ^ nat k"
    using of_int_le_iff [of c "2 ^ nat k", where ?'a = rat] by simp
  then have up: "1 / \<bar>x\<bar> \<le> 2 ^ nat k" using c(1) by linarith
  have "(2::rat) ^ nat (k - 1) \<le> rat_of_int (c - 1)"
    using b(1) of_int_le_iff [of "2 ^ nat (k - 1)" "c - 1", where ?'a = rat] by simp
  then have dn: "2 ^ nat (k - 1) < 1 / \<bar>x\<bar>" using c(2) by simp
  have lo: "(2::rat) powi (- k) = 1 / 2 ^ nat k"
    using pos by (simp add: power_int_def inverse_eq_divide power_one_over)
  have hi: "(2::rat) powi (- k + 1) = 1 / 2 ^ nat (k - 1)"
    using pos by (simp add: power_int_def inverse_eq_divide power_one_over nat_diff_distrib)
  have "1 / 2 ^ nat k \<le> \<bar>x\<bar>"
    using up xp(1) by (simp add: field_simps)
  moreover have "\<bar>x\<bar> < 1 / 2 ^ nat (k - 1)"
    using dn xp(1) by (simp add: field_simps)
  ultimately show ?thesis unfolding e lo hi by simp
qed

lemma float64_exponent_less:
  assumes "x \<noteq> 0" and "\<bar>x\<bar> < 2 powi K"
  shows "float64_exponent x < K"
proof (rule ccontr)
  assume "\<not> float64_exponent x < K"
  then have "K \<le> float64_exponent x" by simp
  then have "(2::rat) powi K \<le> 2 powi (float64_exponent x)"
    by (intro power_int_increasing) simp_all
  with float64_exponent_bounds [OF assms(1)] assms(2) show False by linarith
qed

lemma float64_exponent_ge:
  assumes "x \<noteq> 0" and "2 powi K \<le> \<bar>x\<bar>"
  shows "K \<le> float64_exponent x"
proof (rule ccontr)
  assume "\<not> K \<le> float64_exponent x"
  then have "float64_exponent x + 1 \<le> K" by simp
  then have "(2::rat) powi (float64_exponent x + 1) \<le> 2 powi K"
    by (intro power_int_increasing) simp_all
  with float64_exponent_bounds [OF assms(1)] assms(2) show False by linarith
qed

lemma float64_exponent_eq:
  assumes "2 powi K \<le> \<bar>x\<bar>" and "\<bar>x\<bar> < 2 powi (K + 1)"
  shows "float64_exponent x = K"
proof -
  have "0 < (2::rat) powi K" by simp
  then have "0 < \<bar>x\<bar>" using assms(1) by (rule less_le_trans)
  then have "x \<noteq> 0" by simp
  from float64_exponent_less [OF this assms(2)] float64_exponent_ge [OF this assms(1)]
  show ?thesis by simp
qed

lemma round_half_even_bounds:
  "rat_of_int (round_half_even y) \<le> y + 1 / 2 \<and> y - 1 / 2 \<le> rat_of_int (round_half_even y)"
proof -
  define f where "f = \<lfloor>y\<rfloor>"
  have fl: "rat_of_int f \<le> y" "y < rat_of_int f + 1" unfolding f_def by linarith+
  have "round_half_even y = f \<and> y - rat_of_int f \<le> 1 / 2 \<or>
        round_half_even y = f + 1 \<and> 1 / 2 \<le> y - rat_of_int f"
    unfolding round_half_even_def Let_def f_def [symmetric] by auto
  then show ?thesis
  proof
    assume "round_half_even y = f \<and> y - rat_of_int f \<le> 1 / 2"
    then show ?thesis using fl by simp
  next
    assume a: "round_half_even y = f + 1 \<and> 1 / 2 \<le> y - rat_of_int f"
    then have "rat_of_int (round_half_even y) = rat_of_int f + 1" by simp
    then show ?thesis using fl a by linarith
  qed
qed

lemma round_half_even_ge:
  assumes "rat_of_int K \<le> y"
  shows "K \<le> round_half_even y"
proof -
  have "rat_of_int K - 1 / 2 \<le> rat_of_int (round_half_even y)"
    using round_half_even_bounds [of y] assms by linarith
  then have "rat_of_int K < rat_of_int (round_half_even y) + 1" by linarith
  then have "rat_of_int K < rat_of_int (round_half_even y + 1)" by simp
  then have "K < round_half_even y + 1" by (simp only: of_int_less_iff)
  then show ?thesis by simp
qed

lemma round_half_even_less:
  assumes "y < rat_of_int K - 1 / 2"
  shows "round_half_even y < K"
proof -
  have "rat_of_int (round_half_even y) < rat_of_int K"
    using round_half_even_bounds [of y] assms by linarith
  then show ?thesis by (simp only: of_int_less_iff)
qed

lemma round_half_even_le:
  assumes "y \<le> rat_of_int K"
  shows "round_half_even y \<le> K"
proof -
  have "rat_of_int (round_half_even y) < rat_of_int K + 1"
    using round_half_even_bounds [of y] assms by linarith
  then have "rat_of_int (round_half_even y) < rat_of_int (K + 1)" by simp
  then have "round_half_even y < K + 1" by (simp only: of_int_less_iff)
  then show ?thesis by simp
qed

lemma round_half_even_of_int: "round_half_even (rat_of_int k) = k"
  using round_half_even_ge [of k "rat_of_int k"] round_half_even_le [of "rat_of_int k" k] by simp

lemma round_half_even_eq:
  assumes "\<bar>y - rat_of_int m\<bar> < 1 / 2"
  shows "round_half_even y = m"
proof -
  have a: "y - rat_of_int m < 1 / 2" "rat_of_int m - y < 1 / 2" using assms by linarith+
  have "rat_of_int (m + 1) = rat_of_int m + 1" "rat_of_int (m - 1) = rat_of_int m - 1" by simp_all
  then have b: "y < rat_of_int (m + 1) - 1 / 2" "rat_of_int (m - 1) < y - 1 / 2"
    using a by linarith+
  from b(1) have "round_half_even y < m + 1" by (rule round_half_even_less)
  moreover have "rat_of_int (m - 1) < rat_of_int (round_half_even y)"
    using round_half_even_bounds [of y] b(2) by linarith
  then have "m - 1 < round_half_even y" by (simp only: of_int_less_iff)
  ultimately show ?thesis by simp
qed

lemma round_half_even_minus: "round_half_even (- y) = - round_half_even y"
proof (cases "y = rat_of_int \<lfloor>y\<rfloor>")
  case True
  then obtain k where "y = rat_of_int k" ..
  then have "round_half_even (- y) = round_half_even (rat_of_int (- k))" by simp
  also have "\<dots> = - k" by (rule round_half_even_of_int)
  finally show ?thesis using \<open>y = rat_of_int k\<close> by (simp add: round_half_even_of_int)
next
  case False
  have fl: "rat_of_int \<lfloor>y\<rfloor> < y" "y < rat_of_int \<lfloor>y\<rfloor> + 1"
    using False by linarith+
  have "\<lfloor>- y\<rfloor> = - \<lfloor>y\<rfloor> - 1"
    by (rule floor_unique) (use fl in simp_all)
  then show ?thesis
    using fl by (auto simp: round_half_even_def Let_def)
qed

lemma float64_minus: "float64 (- x) = - float64 x"
  by (simp add: float64_def float64_exponent_def round_half_even_minus Let_def)

lemma float64_nonneg:
  assumes "0 \<le> x"
  shows "0 \<le> float64 x"
proof (cases "x = 0")
  case True
  then show ?thesis by (simp add: float64_def)
next
  case False
  let ?u = "(2::rat) powi (float64_exponent x - 52)"
  have u: "0 < ?u" by simp
  then have "rat_of_int 0 \<le> x / ?u" using assms by simp
  then have "0 \<le> round_half_even (x / ?u)" by (rule round_half_even_ge)
  then have "0 \<le> rat_of_int (round_half_even (x / ?u)) * ?u" using u by simp
  then show ?thesis using False by (simp add: float64_def Let_def)
qed

lemma float64_error:
  assumes "x \<noteq> 0" and "\<bar>x\<bar> < 2 powi K"
  shows "\<bar>float64 x - x\<bar> \<le> 2 powi (K - 54)"
proof -
  define u where "u = (2::rat) powi (float64_exponent x - 52)"
  define r where "r = rat_of_int (round_half_even (x / u))"
  have u: "0 < u" by (simp add: u_def)
  have "float64_exponent x < K" by (rule float64_exponent_less [OF assms])
  then have "float64_exponent x - 52 \<le> K - 53" by simp
  then have uK: "u \<le> 2 powi (K - 53)" unfolding u_def by (intro power_int_increasing) simp_all
  have half: "(2::rat) powi (K - 54) = 2 powi (K - 53) / 2"
    using power_int_diff [of "2::rat" "K - 53" 1] by simp
  have xu: "x / u * u = x" using u by simp
  have b: "r \<le> x / u + 1 / 2" "x / u - 1 / 2 \<le> r"
    using round_half_even_bounds [of "x / u"] by (simp_all add: r_def)
  have "r * u \<le> (x / u + 1 / 2) * u" using b(1) u by (simp only: mult_le_cancel_right_pos)
  also have "\<dots> = x / u * u + u / 2" by (simp add: distrib_right)
  finally have up: "r * u \<le> x + u / 2" by (simp only: xu)
  have "x / u * u - u / 2 = (x / u - 1 / 2) * u" by (simp add: left_diff_distrib)
  also have "\<dots> \<le> r * u" using b(2) u by (simp only: mult_le_cancel_right_pos)
  finally have dn: "x - u / 2 \<le> r * u" by (simp only: xu)
  have f: "float64 x = r * u"
    using assms(1) by (simp add: float64_def Let_def u_def r_def)
  show ?thesis unfolding f half using up dn uK by linarith
qed

lemma float64_window:
  assumes "0 \<le> N" and "N < 2 ^ k" and "k + i = 53"
    and "rat_of_int N \<le> x" and "x < rat_of_int N + 1 - 1 / 2 ^ Suc i"
  shows "rat_of_int N \<le> float64 x \<and> float64 x < rat_of_int N + 1"
proof (cases "x = 0")
  case True
  then have "rat_of_int N \<le> 0" using assms(4) by simp
  then have "N = 0" using assms(1) by simp
  then show ?thesis using True by (simp add: float64_def)
next
  case False
  let ?e = "float64_exponent x"
  have "0 \<le> rat_of_int N" using assms(1) by simp
  then have "0 \<le> x" using assms(4) by linarith
  then have xpos: "0 < x" using False by simp
  have "N + 1 \<le> 2 ^ k" using assms(2) by simp
  then have "rat_of_int (N + 1) \<le> rat_of_int (2 ^ k)" by (simp only: of_int_le_iff)
  then have "rat_of_int N + 1 \<le> 2 ^ k" by simp
  moreover have "0 < (1::rat) / 2 ^ Suc i" by simp
  ultimately have "x < 2 ^ k" using assms(5) by linarith
  then have "\<bar>x\<bar> < 2 powi (int k)" using xpos by simp
  then have e: "?e < int k" by (rule float64_exponent_less [OF False])
  define m where "m = nat (52 - ?e)"
  define P where "P = (2::rat) ^ m"
  have m: "i \<le> m" "int m = 52 - ?e" using e assms(3) by (simp_all add: m_def)
  have Ppos: "0 < P" by (simp add: P_def)
  have "(2::rat) ^ i \<le> 2 ^ m" using m(1) by (intro power_increasing) simp_all
  then have Pbig: "2 ^ i \<le> P" by (simp add: P_def)
  have "(2::rat) powi (?e - 52) = 2 powi (- int m)" using m(2) by simp
  also have "\<dots> = 1 / P" by (simp add: power_int_minus_divide P_def)
  finally have u: "(2::rat) powi (?e - 52) = 1 / P" .
  have f: "float64 x = rat_of_int (round_half_even (x * P)) / P"
    using False by (simp add: float64_def Let_def u)
  have NP: "rat_of_int (N * 2 ^ m) = rat_of_int N * P" "rat_of_int ((N + 1) * 2 ^ m) = (rat_of_int N + 1) * P"
    by (simp_all add: P_def)
  have "rat_of_int N * P \<le> x * P" using assms(4) Ppos by simp
  then have "rat_of_int (N * 2 ^ m) \<le> x * P" by (simp only: NP)
  then have "N * 2 ^ m \<le> round_half_even (x * P)" by (rule round_half_even_ge)
  then have "rat_of_int (N * 2 ^ m) \<le> rat_of_int (round_half_even (x * P))" by (simp only: of_int_le_iff)
  then have "rat_of_int N * P \<le> rat_of_int (round_half_even (x * P))" by (simp only: NP)
  then have lower: "rat_of_int N \<le> float64 x" unfolding f using Ppos by (simp add: field_simps)
  have "(1::rat) / 2 = 2 ^ i / 2 ^ Suc i" by simp
  also have "\<dots> \<le> P / 2 ^ Suc i" using Pbig by (intro divide_right_mono) simp_all
  finally have half: "1 / 2 \<le> P / 2 ^ Suc i" .
  have "x * P < (rat_of_int N + 1 - 1 / 2 ^ Suc i) * P" using assms(5) Ppos by simp
  also have "\<dots> = (rat_of_int N + 1) * P - P / 2 ^ Suc i" by (simp add: algebra_simps)
  also have "\<dots> \<le> (rat_of_int N + 1) * P - 1 / 2" using half by linarith
  finally have "x * P < rat_of_int ((N + 1) * 2 ^ m) - 1 / 2" by (simp only: NP)
  then have "round_half_even (x * P) < (N + 1) * 2 ^ m" by (rule round_half_even_less)
  then have "rat_of_int (round_half_even (x * P)) < rat_of_int ((N + 1) * 2 ^ m)"
    by (simp only: of_int_less_iff)
  then have "rat_of_int (round_half_even (x * P)) < (rat_of_int N + 1) * P" by (simp only: NP)
  then have upper: "float64 x < rat_of_int N + 1" unfolding f using Ppos by (simp add: field_simps)
  show ?thesis using lower upper by simp
qed

lemma float64_of_int_exact:
  assumes "\<bar>n\<bar> < 2 ^ 53"
  shows "float64 (rat_of_int n) = rat_of_int n"
proof (cases "n = 0")
  case True
  then show ?thesis by (simp add: float64_def)
next
  case False
  let ?x = "rat_of_int n"
  let ?e = "float64_exponent ?x"
  have nz: "?x \<noteq> 0" using False by simp
  have "rat_of_int \<bar>n\<bar> < rat_of_int (2 ^ 53)" using assms by (simp only: of_int_less_iff)
  then have "\<bar>?x\<bar> < 2 powi 53" by simp
  then have e: "?e < 53" by (rule float64_exponent_less [OF nz])
  define m where "m = nat (52 - ?e)"
  have m: "int m = 52 - ?e" using e by (simp add: m_def)
  have "(2::rat) powi (?e - 52) = 2 powi (- int m)" using m by simp
  also have "\<dots> = 1 / 2 ^ m" by (simp add: power_int_minus_divide)
  finally have u: "(2::rat) powi (?e - 52) = 1 / 2 ^ m" .
  have "?x * 2 ^ m = rat_of_int (n * 2 ^ m)" by simp
  then have "round_half_even (?x * 2 ^ m) = n * 2 ^ m" by (simp only: round_half_even_of_int)
  then show ?thesis using nz by (simp add: float64_def Let_def u)
qed

lemma float64_eqI:
  assumes "2 powi K \<le> \<bar>x\<bar>" and "\<bar>x\<bar> < 2 powi (K + 1)"
    and "\<bar>x / 2 powi (K - 52) - rat_of_int m\<bar> < 1 / 2"
  shows "float64 x = rat_of_int m * 2 powi (K - 52)"
proof -
  have e: "float64_exponent x = K" by (rule float64_exponent_eq [OF assms(1,2)])
  have "0 < (2::rat) powi K" by simp
  then have "0 < \<bar>x\<bar>" using assms(1) by (rule less_le_trans)
  then have nz: "x \<noteq> 0" by simp
  have "round_half_even (x / 2 powi (K - 52)) = m" by (rule round_half_even_eq [OF assms(3)])
  then show ?thesis using nz by (simp add: float64_def Let_def e)
qed

lemma Seconds_fraction:
  assumes "0 \<le> nsec" and "nsec \<le> bound" and "bound < 1000000000"
  shows "0 \<le> float64 (rat_of_int nsec / 1000000000) \<and>
         float64 (rat_of_int nsec / 1000000000) \<le> rat_of_int bound / 1000000000 + 1 / 2 ^ 54"
proof (cases "nsec = 0")
  case True
  have "0 \<le> bound" using assms(1,2) by simp
  then have "0 \<le> rat_of_int bound / 1000000000 + 1 / 2 ^ 54" by simp
  then show ?thesis using True by (simp add: float64_def)
next
  case False
  let ?x = "rat_of_int nsec / 1000000000"
  have "rat_of_int nsec \<le> rat_of_int bound" using assms(2) by (simp only: of_int_le_iff)
  then have le: "?x \<le> rat_of_int bound / 1000000000" by (simp add: divide_right_mono)
  have "rat_of_int bound < rat_of_int 1000000000" using assms(3) by (simp only: of_int_less_iff)
  then have lt: "rat_of_int bound / 1000000000 < 1" by simp
  have "0 < nsec" using assms(1) False by simp
  then have "rat_of_int 0 < rat_of_int nsec" by (simp only: of_int_less_iff)
  then have pos: "0 < ?x" by simp
  then have nz: "?x \<noteq> 0" by simp
  have "\<bar>?x\<bar> < 2 powi 0" using pos le lt by simp
  from float64_error [OF nz this] have E: "\<bar>float64 ?x - ?x\<bar> \<le> 2 powi (- 54)" by simp
  have P: "(2::rat) powi (- 54) = 1 / 2 ^ 54" by (simp add: power_int_minus_divide)
  have "float64 ?x \<le> ?x + 1 / 2 ^ 54" using E unfolding P by linarith
  then have "float64 ?x \<le> rat_of_int bound / 1000000000 + 1 / 2 ^ 54" using le by linarith
  moreover have "0 \<le> float64 ?x" using pos by (intro float64_nonneg) simp
  ultimately show ?thesis by simp
qed

lemma Seconds_sum_truncates:
  assumes "0 \<le> d" and "d div Second < 2 ^ k" and "k + i = 53"
    and "d mod Second \<le> bound" and "bound < 1000000000"
    and "rat_of_int bound / 1000000000 + 1 / 2 ^ 54 < 1 - 1 / 2 ^ Suc i"
  shows "int64_of_float64 (Duration_Seconds d) = d div Second"
proof -
  define sec where "sec = d div Second"
  define nsec where "nsec = d mod Second"
  have s: "0 \<le> sec" "sec < 2 ^ k"
    using assms(1,2) unfolding sec_def Second_def by simp_all
  have ns: "0 \<le> nsec" "nsec \<le> bound" using assms(4) by (simp_all add: nsec_def Second_def)
  have sd: "d sdiv Second = sec" "d smod Second = nsec"
    using assms(1)
    by (simp_all add: signed_divide_int_def signed_modulo_int_def sec_def nsec_def Second_def sgn_if)
  have "k \<le> 53" using assms(3) by simp
  then have "(2::int) ^ k \<le> 2 ^ 53" by (intro power_increasing) simp_all
  then have "\<bar>sec\<bar> < 2 ^ 53" using s by simp
  then have a: "float64 (rat_of_int sec) = rat_of_int sec" by (rule float64_of_int_exact)
  have "nsec < 1000000000" using ns(2) assms(5) by simp
  then have "\<bar>nsec\<bar> < 2 ^ 53" using ns(1) by simp
  then have b: "float64 (rat_of_int nsec) = rat_of_int nsec" by (rule float64_of_int_exact)
  have "float64 (rat_of_int 1000000000) = rat_of_int 1000000000"
    by (rule float64_of_int_exact) simp
  then have c: "float64 1000000000 = 1000000000" by simp
  define q where "q = float64 (rat_of_int nsec / 1000000000)"
  have q: "0 \<le> q" "q < 1 - 1 / 2 ^ Suc i"
    using Seconds_fraction [OF ns assms(5)] assms(6) by (simp_all add: q_def)
  have D: "Duration_Seconds d = float64 (rat_of_int sec + q)"
    by (simp add: Duration_Seconds_def Let_def sd a b c q_def)
  have w: "rat_of_int sec \<le> float64 (rat_of_int sec + q) \<and>
           float64 (rat_of_int sec + q) < rat_of_int sec + 1"
    by (rule float64_window [OF s assms(3)]) (use q in simp_all)
  moreover have "0 \<le> rat_of_int sec" using s(1) by simp
  ultimately have "0 \<le> float64 (rat_of_int sec + q)" by linarith
  moreover have "\<lfloor>float64 (rat_of_int sec + q)\<rfloor> = sec"
    by (rule floor_unique) (use w in simp_all)
  ultimately show ?thesis by (simp add: D int64_of_float64_def sec_def)
qed

lemma Seconds_truncates_nonneg:
  assumes "0 \<le> d"
    and "d < 2 ^ 24 * Second \<or> d < 2 ^ 63 \<and> d mod Second \<le> 999999000"
  shows "int64_of_float64 (Duration_Seconds d) = d div Second"
  using assms(2)
proof
  assume "d < 2 ^ 24 * Second"
  then have "d div Second < 2 ^ 24" using assms(1) unfolding Second_def by simp
  moreover have "d mod Second \<le> 999999999" unfolding Second_def by simp
  ultimately show ?thesis
    by (intro Seconds_sum_truncates [OF assms(1), where k = 24 and i = 29 and bound = 999999999])
      simp_all
next
  assume a: "d < 2 ^ 63 \<and> d mod Second \<le> 999999000"
  then have "d < 2 ^ 34 * Second" unfolding Second_def by simp
  then have "d div Second < 2 ^ 34" using assms(1) unfolding Second_def by simp
  then show ?thesis using a
    by (intro Seconds_sum_truncates [OF assms(1), where k = 34 and i = 19 and bound = 999999000])
      simp_all
qed

lemma Duration_Seconds_minus: "Duration_Seconds (- d) = - Duration_Seconds d"
proof -
  define A where "A = float64 (rat_of_int (d sdiv Second))"
  define B where "B = float64 (float64 (rat_of_int (d smod Second)) / float64 1000000000)"
  have sd: "(- d) sdiv Second = - (d sdiv Second)" "(- d) smod Second = - (d smod Second)"
    by (simp_all add: signed_divide_int_def signed_modulo_int_def Second_def)
  have "float64 (rat_of_int (- (d sdiv Second))) = - A"
    using float64_minus [of "rat_of_int (d sdiv Second)"] by (simp add: A_def)
  moreover have "float64 (float64 (rat_of_int (- (d smod Second))) / float64 1000000000) = - B"
    using float64_minus [of "rat_of_int (d smod Second)"]
      float64_minus [of "float64 (rat_of_int (d smod Second)) / float64 1000000000"]
    by (simp add: B_def)
  moreover have "float64 (- A + - B) = - float64 (A + B)"
    using float64_minus [of "A + B"] by simp
  ultimately have "Duration_Seconds (- d) = - float64 (A + B)"
    by (simp only: Duration_Seconds_def Let_def sd)
  then show ?thesis by (simp add: Duration_Seconds_def Let_def A_def B_def)
qed

lemma int64_of_float64_minus: "int64_of_float64 (- f) = - int64_of_float64 f"
  by (auto simp: int64_of_float64_def ceiling_def)

lemma Seconds_truncates:
  assumes "\<bar>d\<bar> < 2 ^ 24 * Second \<or> \<bar>d\<bar> < 2 ^ 63 \<and> \<bar>d\<bar> mod Second \<le> 999999000"
  shows "int64_of_float64 (Duration_Seconds d) = d sdiv Second"
proof (cases "0 \<le> d")
  case True
  then have "int64_of_float64 (Duration_Seconds d) = d div Second"
    using assms by (intro Seconds_truncates_nonneg) simp_all
  then show ?thesis using True
    by (simp add: signed_divide_int_def Second_def sgn_if)
next
  case False
  then have "0 \<le> - d" and "\<bar>d\<bar> = - d" by simp_all
  then have "int64_of_float64 (Duration_Seconds (- d)) = (- d) div Second"
    using assms by (intro Seconds_truncates_nonneg) simp_all
  then have "int64_of_float64 (Duration_Seconds d) = - ((- d) div Second)"
    by (simp add: Duration_Seconds_minus int64_of_float64_minus)
  then show ?thesis using False
    by (simp add: signed_divide_int_def Second_def sgn_if)
qed

lemma Seconds_rounds_up: "int64_of_float64 (Duration_Seconds 16777216999999999) = 16777217"
proof -
  have sd: "(16777216999999999::int) sdiv Second = 16777216"
    "(16777216999999999::int) smod Second = 999999999"
    by (simp_all add: signed_divide_int_def signed_modulo_int_def Second_def)
  have "float64 (rat_of_int 16777216) = rat_of_int 16777216"
    by (rule float64_of_int_exact) simp
  then have a: "float64 16777216 = 16777216" by simp
  have "float64 (rat_of_int 999999999) = rat_of_int 999999999"
    by (rule float64_of_int_exact) simp
  then have b: "float64 999999999 = 999999999" by simp
  have "float64 (rat_of_int 1000000000) = rat_of_int 1000000000"
    by (rule float64_of_int_exact) simp
  then have c: "float64 1000000000 = 1000000000" by simp
  have "float64 (999999999 / 1000000000) = rat_of_int 9007199245733793 * 2 powi (- 1 - 52)"
    by (rule float64_eqI) (simp_all add: power_int_minus_divide)
  then have q: "float64 (999999999 / 1000000000) = 9007199245733793 / 9007199254740992"
    by (simp add: power_int_minus_divide)
  have "float64 (16777216 + 9007199245733793 / 9007199254740992) =
          rat_of_int 4503599895805952 * 2 powi (24 - 52)"
    by (rule float64_eqI) (simp_all add: power_int_minus_divide)
  then have s: "float64 (16777216 + 9007199245733793 / 9007199254740992) = 16777217"
    by (simp add: power_int_minus_divide)
  have "Duration_Seconds 16777216999999999 = 16777217"
    unfolding Duration_Seconds_def Let_def sd by (simp only: of_int_numeral a b c q s)
  then show ?thesis by (simp add: int64_of_float64_def)
qed

lemma FormatInt_examples:
  "FormatInt 16777217 = ''16777217''" "FormatInt 16777216 = ''16777216''" "FormatInt 90 = ''90''"
  by (simp_all add: FormatInt_def FormatUint.simps)

lemma ExpireIn_args:
  "MakeRedisBatchCommandExpireIn key d =
     \<lparr>Cmd = ''EXPIRE'', Args = Some [key, FormatInt (int64_of_float64 (Duration_Seconds d))],
      Reply = None\<rparr>"
  by (simp add: MakeRedisBatchCommandExpireIn_def WriteIntArg_def WriteStringArg_def WriteArg_def
      cmd_expire_def Let_def)

text \<open>
  Where the factory does truncate: for every duration of magnitude below \<open>2\<^sup>2\<^sup>4\<close>
  seconds, and for every 64-bit duration whose part below a second is at most
  999999000 nanoseconds, the arguments are the key and the base-10 text of the whole
  seconds, the remainder dropped towards zero. For 90500 milliseconds the second
  argument is \<open>''90''\<close>.
\<close>

lemma ExpireIn_whole_seconds:
  assumes "\<bar>d\<bar> < 2 ^ 24 * Second \<or> \<bar>d\<bar> < 2 ^ 63 \<and> \<bar>d\<bar> mod Second \<le> 999999000"
  shows "MakeRedisBatchCommandExpireIn key d =
           \<lparr>Cmd = ''EXPIRE'', Args = Some [key, FormatInt (d sdiv Second)], Reply = None\<rparr>"
  using assms by (simp only: ExpireIn_args Seconds_truncates)

lemma ExpireIn_examples:
  "MakeRedisBatchCommandExpireIn key (90500 * Millisecond) =
     \<lparr>Cmd = ''EXPIRE'', Args = Some [key, ''90''], Reply = None\<rparr>"
  "MakeRedisBatchCommandExpireIn key 1999999999 =
     \<lparr>Cmd = ''EXPIRE'', Args = Some [key, ''1''], Reply = None\<rparr>"
  "MakeRedisBatchCommandExpireIn key (- 1999999999) =
     \<lparr>Cmd = ''EXPIRE'', Args = Some [key, ''-1''], Reply = None\<rparr>"
  "MakeRedisBatchCommandExpireIn key (365 * 24 * 3600 * Second + 500 * Millisecond) =
     \<lparr>Cmd = ''EXPIRE'', Args = Some [key, ''31536000''], Reply = None\<rparr>"
proof -
  have a: "\<bar>90500 * Millisecond\<bar> < 2 ^ 24 * Second \<or>
           \<bar>90500 * Millisecond\<bar> < 2 ^ 63 \<and> \<bar>90500 * Millisecond\<bar> mod Second \<le> 999999000"
    "\<bar>1999999999\<bar> < 2 ^ 24 * Second \<or>
           \<bar>1999999999\<bar> < 2 ^ 63 \<and> \<bar>1999999999\<bar> mod Second \<le> 999999000"
    "\<bar>- 1999999999\<bar> < 2 ^ 24 * Second \<or>
           \<bar>- 1999999999\<bar> < 2 ^ 63 \<and> \<bar>- 1999999999\<bar> mod Second \<le> 999999000"
    "\<bar>365 * 24 * 3600 * Second + 500 * Millisecond\<bar> < 2 ^ 24 * Second \<or>
           \<bar>365 * 24 * 3600 * Second + 500 * Millisecond\<bar> < 2 ^ 63 \<and>
           \<bar>365 * 24 * 3600 * Second + 500 * Millisecond\<bar> mod Second \<le> 999999000"
    by (simp_all add: Millisecond_def Second_def)
  have sd: "(90500 * Millisecond) sdiv Second = 90" "(1999999999::int) sdiv Second = 1"
    "(- 1999999999::int) sdiv Second = - 1"
    "(365 * 24 * 3600 * Second + 500 * Millisecond) sdiv Second = 31536000"
    by (simp_all add: signed_divide_int_def Millisecond_def Second_def)
  have f: "FormatInt 90 = ''90''" "FormatInt 1 = ''1''" "FormatInt (- 1) = ''-1''"
    "FormatInt 31536000 = ''31536000''"
    by (simp_all add: FormatInt_def FormatUint.simps)
  show "MakeRedisBatchCommandExpireIn key (90500 * Millisecond) =
     \<lparr>Cmd = ''EXPIRE'', Args = Some [key, ''90''], Reply = None\<rparr>"
    using ExpireIn_whole_seconds [OF a(1), of key] by (simp only: sd f)
  show "MakeRedisBatchCommandExpireIn key 1999999999 =
     \<lparr>Cmd = ''EXPIRE'', Args = Some [key, ''1''], Reply = None\<rparr>"
    using ExpireIn_whole_seconds [OF a(2), of key] by (simp only: sd f)
  show "MakeRedisBatchCommandExpireIn key (- 1999999999) =
     \<lparr>Cmd = ''EXPIRE'', Args = Some [key, ''-1''], Reply = None\<rparr>"
    using ExpireIn_whole_seconds [OF a(3), of key] by (simp only: sd f)
  show "MakeRedisBatchCommandExpireIn key (365 * 24 * 3600 * Second + 500 * Millisecond) =
     \<lparr>Cmd = ''EXPIRE'', Args = Some [key, ''31536000''], Reply = None\<rparr>"
    using ExpireIn_whole_seconds [OF a(4), of key] by (simp only: sd f)
qed

text \<open>
  C9. The claim is that for every key and duration the second argument of the \<open>EXPIRE\<close>
  command is the duration in whole seconds, the remainder below a second truncated and
  not rounded. The factory converts with \<open>int64(expire_in.Seconds())\<close>, which truncates
  the float64 number of seconds; for long durations that number is already rounded. The
  duration of 16777216.999999999 seconds has 16777216 whole seconds, but its float64
  number of seconds is 16777217 (float64 values of that size are \<open>2\<^sup>-\<^sup>2\<^sup>8\<close> apart), and
  the command carries \<open>''16777217''\<close> where truncation gives \<open>''16777216''\<close>.
\<close>

theorem ExpireIn_rounds_up:
  "MakeRedisBatchCommandExpireIn ''k'' 16777216999999999 =
     \<lparr>Cmd = ''EXPIRE'', Args = Some [''k'', ''16777217''], Reply = None\<rparr> \<and>
   16777216999999999 sdiv Second = 16777216 \<and>
   16777216999999999 smod Second = 999999999 \<and>
   FormatInt (16777216999999999 sdiv Second) = ''16777216''"
proof -
  have sd: "(16777216999999999::int) sdiv Second = 16777216"
    "(16777216999999999::int) smod Second = 999999999"
    by (simp_all add: signed_divide_int_def signed_modulo_int_def Second_def)
  show ?thesis
    by (simp only: ExpireIn_args Seconds_rounds_up sd FormatInt_examples cmd_expire_def simp_thms)
qed

end
